theory Spec2Isabelle
  imports Complex_Main
begin

section \<open>Common modelling conventions\<close>

text \<open>
  The engines are Python functions over floating-point numbers. Floats are modelled as
  \<^typ>\<open>real\<close> (exact arithmetic), optional fields as \<^typ>\<open>'a option\<close>, enumerations as
  datatypes and pydantic models as records. Exceptions are values of type \<open>error\<close>, and a
  function that may raise returns \<open>error + 'a\<close>. Rounding is modelled only where it decides
  an integer (the index of the order statistic in the simulations, \<open>var_index\<close>); of the
  range of the floats the model keeps the case that ordinary inputs reach, \<open>math.exp\<close> in
  the multiplier of the two exposure engines (\<open>math_exp\<close> below).

  A Python \<open>dict\<close> keeps its keys in insertion order; it is an association list whose
  keys are distinct. \<open>d[k] = v\<close> is \<open>dict_set\<close>, the idiom
  \<open>if k not in d: d[k] = []\<close> followed by \<open>d[k].append(x)\<close> is \<open>dict_append\<close>, and
  \<open>if k not in d: d[k] = 0.0\<close> followed by \<open>d[k] += v\<close> is \<open>dict_add\<close>.
\<close>

datatype error =
  ValueError | ZeroDivisionError | KeyError | LinAlgError | IndexError | OverflowError

text \<open>\<open>math.exp\<close> raises \<open>OverflowError\<close> when its result is above the largest float,
  that is when its argument is above \<open>ln (1.7976931348623157e308)\<close>, about
  709.782712893384.\<close>

definition math_exp :: "real \<Rightarrow> error + real" where
  "math_exp x = (if x > 709.782712893384 then Inl OverflowError else Inr (exp x))"

type_synonym ('k, 'v) dict = "('k \<times> 'v) list"

fun dict_set :: "'k \<Rightarrow> 'v \<Rightarrow> ('k, 'v) dict \<Rightarrow> ('k, 'v) dict" where
  "dict_set k v [] = [(k, v)]"
| "dict_set k v ((k', v') # d) = (if k' = k then (k', v) # d else (k', v') # dict_set k v d)"

fun dict_append :: "'k \<Rightarrow> 'a \<Rightarrow> ('k, 'a list) dict \<Rightarrow> ('k, 'a list) dict" where
  "dict_append k x [] = [(k, [x])]"
| "dict_append k x ((k', xs) # d) =
     (if k' = k then (k', xs @ [x]) # d else (k', xs) # dict_append k x d)"

fun dict_add :: "'k \<Rightarrow> real \<Rightarrow> ('k, real) dict \<Rightarrow> ('k, real) dict" where
  "dict_add k v [] = [(k, 0 + v)]"
| "dict_add k v ((k', v') # d) =
     (if k' = k then (k', v' + v) # d else (k', v') # dict_add k v d)"

definition dict_values :: "('k, 'v) dict \<Rightarrow> 'v list" where
  "dict_values d = map snd d"

definition dict_keys :: "('k, 'v) dict \<Rightarrow> 'k list" where
  "dict_keys d = map fst d"

text \<open>The asset classes of the SA-CCR, PFE and Initial Margin schemas (the same enumeration
  in all three).\<close>

datatype AssetClass = INTEREST_RATE | CREDIT | EQUITY | COMMODITY | FX

text \<open>\<open>TransactionType\<close> of the SA-CCR and PFE schemas, \<open>Product\<close> of the Initial Margin
  schema: the same six members.\<close>

datatype TransactionType = SWAP | FORWARD | OPTION | SWAPTION | FUTURES | OTHER

section \<open>Initial Margin engine (\<open>services/initial_margin.py\<close>)\<close>

datatype IM_CalculationMethod = GRID | SIMM

record IM_Trade =
  im_id :: string
  im_asset_class :: AssetClass
  im_product :: TransactionType
  im_notional :: real
  im_maturity :: real
  im_market_value :: real
  im_delta :: "real option"
  im_vega :: "real option"
  im_curvature :: "real option"

record IM_NettingSet =
  im_ns_id :: string
  im_ns_trades :: "IM_Trade list"

record SensitivityBreakdown =
  sb_delta :: real
  sb_vega :: real
  sb_curvature :: real

record IM_AssetClassBreakdown =
  imb_asset_class :: AssetClass
  imb_margin :: real
  imb_percentage :: real

record InitialMarginResult =
  imr_total_margin :: real
  imr_calculation_method :: IM_CalculationMethod
  imr_asset_class_breakdown :: "IM_AssetClassBreakdown list"
  imr_sensitivity_breakdown :: "SensitivityBreakdown option"
  imr_netting_set_results :: "(string, real \<times> (AssetClass, real) dict) dict"

text \<open>The keys \<open>"0-2"\<close>, \<open>"2-5"\<close>, \<open>"5+"\<close> of the grid table.\<close>

datatype MaturityBucket = Bucket_0_2 | Bucket_2_5 | Bucket_5_plus

fun GRID_THRESHOLDS :: "AssetClass \<Rightarrow> MaturityBucket \<Rightarrow> real" where
  "GRID_THRESHOLDS INTEREST_RATE Bucket_0_2 = 0.01"
| "GRID_THRESHOLDS INTEREST_RATE Bucket_2_5 = 0.02"
| "GRID_THRESHOLDS INTEREST_RATE Bucket_5_plus = 0.04"
| "GRID_THRESHOLDS CREDIT Bucket_0_2 = 0.02"
| "GRID_THRESHOLDS CREDIT Bucket_2_5 = 0.05"
| "GRID_THRESHOLDS CREDIT Bucket_5_plus = 0.10"
| "GRID_THRESHOLDS EQUITY Bucket_0_2 = 0.06"
| "GRID_THRESHOLDS EQUITY Bucket_2_5 = 0.08"
| "GRID_THRESHOLDS EQUITY Bucket_5_plus = 0.10"
| "GRID_THRESHOLDS COMMODITY Bucket_0_2 = 0.10"
| "GRID_THRESHOLDS COMMODITY Bucket_2_5 = 0.12"
| "GRID_THRESHOLDS COMMODITY Bucket_5_plus = 0.15"
| "GRID_THRESHOLDS FX Bucket_0_2 = 0.04"
| "GRID_THRESHOLDS FX Bucket_2_5 = 0.05"
| "GRID_THRESHOLDS FX Bucket_5_plus = 0.06"

datatype SensitivityKind = Delta | Vega | Curvature

fun SIMM_RISK_WEIGHTS :: "AssetClass \<Rightarrow> SensitivityKind \<Rightarrow> real" where
  "SIMM_RISK_WEIGHTS INTEREST_RATE Delta = 0.005"
| "SIMM_RISK_WEIGHTS INTEREST_RATE Vega = 0.01"
| "SIMM_RISK_WEIGHTS INTEREST_RATE Curvature = 0.01"
| "SIMM_RISK_WEIGHTS CREDIT Delta = 0.05"
| "SIMM_RISK_WEIGHTS CREDIT Vega = 0.10"
| "SIMM_RISK_WEIGHTS CREDIT Curvature = 0.10"
| "SIMM_RISK_WEIGHTS EQUITY Delta = 0.15"
| "SIMM_RISK_WEIGHTS EQUITY Vega = 0.20"
| "SIMM_RISK_WEIGHTS EQUITY Curvature = 0.20"
| "SIMM_RISK_WEIGHTS COMMODITY Delta = 0.18"
| "SIMM_RISK_WEIGHTS COMMODITY Vega = 0.30"
| "SIMM_RISK_WEIGHTS COMMODITY Curvature = 0.30"
| "SIMM_RISK_WEIGHTS FX Delta = 0.04"
| "SIMM_RISK_WEIGHTS FX Vega = 0.05"
| "SIMM_RISK_WEIGHTS FX Curvature = 0.05"

definition get_maturity_bucket :: "real \<Rightarrow> MaturityBucket" where
  "get_maturity_bucket maturity =
     (if maturity < 2 then Bucket_0_2
      else if maturity < 5 then Bucket_2_5
      else Bucket_5_plus)"

text \<open>The grouping loop shared by all engines: trades by asset class, classes in the order of
  their first trade, trades in their order in the netting set.\<close>

definition group_by_asset_class :: "('t \<Rightarrow> AssetClass) \<Rightarrow> 't list \<Rightarrow> (AssetClass, 't list) dict" where
  "group_by_asset_class cls trades = foldl (\<lambda>d t. dict_append (cls t) t d) [] trades"

text \<open>The inner loop of \<open>calculate_grid_margin\<close>: the maturity bucket and its threshold are
  computed for each trade and not used.\<close>

definition grid_gross_notional :: "AssetClass \<Rightarrow> IM_Trade list \<Rightarrow> real" where
  "grid_gross_notional asset_class trades =
     foldl (\<lambda>gross_notional trade.
              let maturity_bucket = get_maturity_bucket (im_maturity trade);
                  threshold = GRID_THRESHOLDS asset_class maturity_bucket
              in gross_notional + \<bar>im_notional trade\<bar>) 0 trades"

text \<open>The items of a dict have distinct keys, so the loop that assigns
  \<open>margins[asset_class]\<close> once for each item is a map over the items.\<close>

definition calculate_grid_margin :: "IM_NettingSet \<Rightarrow> real \<times> (AssetClass, real) dict" where
  "calculate_grid_margin netting_set =
     (let trades_by_asset_class = group_by_asset_class im_asset_class (im_ns_trades netting_set);
          margins = map (\<lambda>(asset_class, trades).
                      (asset_class,
                       grid_gross_notional asset_class trades * GRID_THRESHOLDS asset_class Bucket_2_5))
                    trades_by_asset_class;
          total_margin = sum_list (dict_values margins)
      in (total_margin, margins))"

text \<open>The inner loop of \<open>calculate_simm_margin\<close>, on the triple
  \<open>(delta_sum, vega_sum, curvature_sum)\<close>.\<close>

definition simm_sums :: "IM_Trade list \<Rightarrow> real \<times> real \<times> real" where
  "simm_sums trades =
     foldl (\<lambda>(delta_sum, vega_sum, curvature_sum) trade.
              let delta = (case im_delta trade of Some d \<Rightarrow> d | None \<Rightarrow> 1.0);
                  delta_sum = delta_sum + delta * im_notional trade;
                  vega_sum = (if im_product trade \<in> {OPTION, SWAPTION}
                              then vega_sum + (case im_vega trade of Some v \<Rightarrow> v | None \<Rightarrow> 0.1) * im_notional trade
                              else vega_sum);
                  curvature_sum = (if im_product trade \<in> {OPTION, SWAPTION}
                              then curvature_sum + (case im_curvature trade of Some c \<Rightarrow> c | None \<Rightarrow> 0.01) * im_notional trade
                              else curvature_sum)
              in (delta_sum, vega_sum, curvature_sum)) (0, 0, 0) trades"

text \<open>The outer loop of \<open>calculate_simm_margin\<close>, on the state
  \<open>(margins, total_delta, total_vega, total_curvature)\<close>.\<close>

definition simm_class_step ::
  "(AssetClass, real) dict \<times> real \<times> real \<times> real \<Rightarrow> AssetClass \<times> IM_Trade list
   \<Rightarrow> (AssetClass, real) dict \<times> real \<times> real \<times> real" where
  "simm_class_step st item =
     (case st of (margins, total_delta, total_vega, total_curvature) \<Rightarrow>
      case item of (asset_class, trades) \<Rightarrow>
      case simm_sums trades of (delta_sum, vega_sum, curvature_sum) \<Rightarrow>
        let delta_margin = \<bar>delta_sum\<bar> * SIMM_RISK_WEIGHTS asset_class Delta;
            vega_margin = \<bar>vega_sum\<bar> * SIMM_RISK_WEIGHTS asset_class Vega;
            curvature_margin = \<bar>curvature_sum\<bar> * SIMM_RISK_WEIGHTS asset_class Curvature;
            margin = delta_margin + vega_margin + curvature_margin
        in (dict_set asset_class margin margins,
            total_delta + delta_margin, total_vega + vega_margin,
            total_curvature + curvature_margin))"

definition calculate_simm_margin ::
  "IM_NettingSet \<Rightarrow> real \<times> (AssetClass, real) dict \<times> SensitivityBreakdown" where
  "calculate_simm_margin netting_set =
     (let trades_by_asset_class = group_by_asset_class im_asset_class (im_ns_trades netting_set)
      in case foldl simm_class_step ([], 0, 0, 0) trades_by_asset_class of
           (margins, total_delta, total_vega, total_curvature) \<Rightarrow>
             (sum_list (dict_values margins), margins,
              \<lparr>sb_delta = total_delta, sb_vega = total_vega, sb_curvature = total_curvature\<rparr>))"

text \<open>The state of the loop over netting sets in \<open>calculate_initial_margin\<close>.\<close>

record IM_State =
  ims_total_margin :: real
  ims_all_margins :: "(AssetClass, real) dict"
  ims_netting_set_results :: "(string, real \<times> (AssetClass, real) dict) dict"
  ims_sensitivity_breakdown :: "SensitivityBreakdown option"

definition im_accumulate ::
  "IM_State \<Rightarrow> IM_NettingSet \<Rightarrow> real \<Rightarrow> (AssetClass, real) dict \<Rightarrow> IM_State" where
  "im_accumulate st netting_set margin margins =
     st\<lparr>ims_total_margin := ims_total_margin st + margin,
        ims_all_margins := foldl (\<lambda>all (asset_class, asset_margin). dict_add asset_class asset_margin all)
                             (ims_all_margins st) margins,
        ims_netting_set_results :=
          dict_set (im_ns_id netting_set) (margin, margins) (ims_netting_set_results st)\<rparr>"

definition im_netting_set_step :: "IM_CalculationMethod \<Rightarrow> IM_State \<Rightarrow> IM_NettingSet \<Rightarrow> IM_State" where
  "im_netting_set_step calculation_method st netting_set =
     (case calculation_method of
        GRID \<Rightarrow>
          (case calculate_grid_margin netting_set of (margin, margins) \<Rightarrow>
             im_accumulate st netting_set margin margins)
      | SIMM \<Rightarrow>
          (case calculate_simm_margin netting_set of (margin, margins, netting_sensitivity) \<Rightarrow>
             let sensitivity_breakdown =
                   (case ims_sensitivity_breakdown st of
                      None \<Rightarrow> netting_sensitivity
                    | Some sb \<Rightarrow>
                        \<lparr>sb_delta = sb_delta sb + sb_delta netting_sensitivity,
                         sb_vega = sb_vega sb + sb_vega netting_sensitivity,
                         sb_curvature = sb_curvature sb + sb_curvature netting_sensitivity\<rparr>)
             in im_accumulate (st\<lparr>ims_sensitivity_breakdown := Some sensitivity_breakdown\<rparr>)
                  netting_set margin margins))"

definition im_percentage :: "real \<Rightarrow> real \<Rightarrow> real" where
  "im_percentage total_margin margin =
     (if total_margin > 0 then (margin / total_margin) * 100 else 0.0)"

definition calculate_initial_margin ::
  "IM_CalculationMethod \<Rightarrow> IM_NettingSet list \<Rightarrow> InitialMarginResult" where
  "calculate_initial_margin calculation_method netting_sets =
     (let st = foldl (im_netting_set_step calculation_method)
                 \<lparr>ims_total_margin = 0, ims_all_margins = [], ims_netting_set_results = [],
                  ims_sensitivity_breakdown = None\<rparr> netting_sets;
          asset_class_breakdown =
            map (\<lambda>(asset_class, margin).
                   \<lparr>imb_asset_class = asset_class, imb_margin = margin,
                    imb_percentage = im_percentage (ims_total_margin st) margin\<rparr>)
                (ims_all_margins st)
      in \<lparr>imr_total_margin = ims_total_margin st,
          imr_calculation_method = calculation_method,
          imr_asset_class_breakdown = asset_class_breakdown,
          imr_sensitivity_breakdown = ims_sensitivity_breakdown st,
          imr_netting_set_results = ims_netting_set_results st\<rparr>)"

section \<open>PFE profile engine (\<open>services/pfe.py\<close>)\<close>

datatype PFE_CalculationMethod = SA_CCR | INTERNAL_MODEL | HISTORICAL

datatype PFE_TimeHorizon =
  ONE_WEEK | ONE_MONTH | THREE_MONTH | SIX_MONTH | ONE_YEAR | TWO_YEAR | FIVE_YEAR

datatype PFE_ConfidenceLevel = CL_95 | CL_97_5 | CL_99

text \<open>The PFE schema's \<open>Trade\<close> has no option fields (no underlying price, strike, option type,
  volatility or rate). pydantic rejects a trade whose notional or maturity is not positive.\<close>

record PFE_Trade =
  pfe_id :: string
  pfe_asset_class :: AssetClass
  pfe_transaction_type :: TransactionType
  pfe_notional :: real
  pfe_maturity :: real
  pfe_market_value :: real
  pfe_supervisory_delta :: "real option"
  pfe_supervisory_factor :: "real option"
  pfe_maturity_factor :: "real option"

record Collateral =
  col_id :: string
  col_amount :: real
  col_currency :: string
  col_haircut :: real

record PFE_NettingSet =
  pfe_ns_id :: string
  pfe_ns_trades :: "PFE_Trade list"
  pfe_ns_collateral :: "Collateral list"

record ExposureProfile =
  ep_time_point :: string
  ep_expected_exposure :: real
  ep_potential_future_exposure :: real

record PFE_AssetClassBreakdown =
  pfb_asset_class :: AssetClass
  pfb_exposure :: real
  pfb_percentage :: real

record PFEResult =
  total_pfe :: real
  total_expected_exposure :: real
  pfr_calculation_method :: PFE_CalculationMethod
  pfr_time_horizon :: PFE_TimeHorizon
  pfr_confidence_level :: PFE_ConfidenceLevel
  pfr_exposure_profile :: "ExposureProfile list"
  pfr_asset_class_breakdown :: "PFE_AssetClassBreakdown list"
  pfr_netting_set_results :: "(string, real \<times> real \<times> (AssetClass, real) dict) dict"

fun PFE_SUPERVISORY_FACTORS :: "AssetClass \<Rightarrow> real" where
  "PFE_SUPERVISORY_FACTORS INTEREST_RATE = 0.005"
| "PFE_SUPERVISORY_FACTORS CREDIT = 0.05"
| "PFE_SUPERVISORY_FACTORS EQUITY = 0.32"
| "PFE_SUPERVISORY_FACTORS COMMODITY = 0.18"
| "PFE_SUPERVISORY_FACTORS FX = 0.04"

fun TIME_HORIZON_YEARS :: "PFE_TimeHorizon \<Rightarrow> real" where
  "TIME_HORIZON_YEARS ONE_WEEK = 1/52"
| "TIME_HORIZON_YEARS ONE_MONTH = 1/12"
| "TIME_HORIZON_YEARS THREE_MONTH = 3/12"
| "TIME_HORIZON_YEARS SIX_MONTH = 6/12"
| "TIME_HORIZON_YEARS ONE_YEAR = 1.0"
| "TIME_HORIZON_YEARS TWO_YEAR = 2.0"
| "TIME_HORIZON_YEARS FIVE_YEAR = 5.0"

fun PFE_CONFIDENCE_LEVELS :: "PFE_ConfidenceLevel \<Rightarrow> real" where
  "PFE_CONFIDENCE_LEVELS CL_95 = 1.645"
| "PFE_CONFIDENCE_LEVELS CL_97_5 = 1.96"
| "PFE_CONFIDENCE_LEVELS CL_99 = 2.326"

definition pfe_calculate_supervisory_delta :: "PFE_Trade \<Rightarrow> real" where
  "pfe_calculate_supervisory_delta trade =
     (case pfe_supervisory_delta trade of
        Some d \<Rightarrow> d
      | None \<Rightarrow>
          if pfe_transaction_type trade \<notin> {OPTION, SWAPTION} then 1.0
          else 0.5)"

text \<open>\<open>math.sqrt\<close> raises on a negative number; the maturity is positive by the schema, so
  its argument \<open>min(maturity, 1.0) / 1.0\<close> is positive for every trade the engine receives.\<close>

definition pfe_calculate_maturity_factor :: "PFE_Trade \<Rightarrow> real" where
  "pfe_calculate_maturity_factor trade =
     (case pfe_maturity_factor trade of
        Some m \<Rightarrow> m
      | None \<Rightarrow> (let maturity = min (pfe_maturity trade) 1.0 in sqrt (maturity / 1.0)))"

definition calculate_collateral_value :: "Collateral list \<Rightarrow> real" where
  "calculate_collateral_value collateral =
     sum_list (map (\<lambda>c. (1 - col_haircut c) * col_amount c) collateral)"

definition pfe_calculate_replacement_cost :: "PFE_NettingSet \<Rightarrow> real" where
  "pfe_calculate_replacement_cost netting_set =
     (let total_market_value = sum_list (map pfe_market_value (pfe_ns_trades netting_set));
          collateral_value = calculate_collateral_value (pfe_ns_collateral netting_set)
      in max (total_market_value - collateral_value) 0)"

definition pfe_effective_notional :: "PFE_Trade list \<Rightarrow> real" where
  "pfe_effective_notional trades =
     foldl (\<lambda>effective_notional trade.
              let supervisory_delta = pfe_calculate_supervisory_delta trade;
                  maturity_factor = pfe_calculate_maturity_factor trade
              in effective_notional + supervisory_delta * pfe_notional trade * maturity_factor)
           0 trades"

definition pfe_calculate_add_on :: "PFE_NettingSet \<Rightarrow> (AssetClass, real) dict" where
  "pfe_calculate_add_on netting_set =
     (let trades_by_asset_class = group_by_asset_class pfe_asset_class (pfe_ns_trades netting_set)
      in map (\<lambda>(asset_class, trades).
                let supervisory_factor = PFE_SUPERVISORY_FACTORS asset_class
                in (asset_class, supervisory_factor * pfe_effective_notional trades))
             trades_by_asset_class)"

text \<open>The \<open>if total_add_on == 0\<close> block of
  \<open>calculate_potential_future_exposure_sa_ccr\<close>. \<open>min(1.0, ...)\<close> bounds \<open>exp_term\<close>
  from above only, so \<open>math.exp(-exp_term)\<close> raises \<open>OverflowError\<close> when the replacement
  cost is large against a negative total add-on.\<close>

definition pfe_multiplier :: "real \<Rightarrow> real \<Rightarrow> error + real" where
  "pfe_multiplier replacement_cost total_add_on =
     (if total_add_on = 0 then Inr 1.0
      else (let floor = 0.05;
                exp_term = min 1.0 (replacement_cost / (2.0 * total_add_on))
            in case math_exp (- exp_term) of
                 Inl e \<Rightarrow> Inl e
               | Inr x \<Rightarrow> Inr (floor + (1.0 - floor) * x)))"

definition calculate_potential_future_exposure_sa_ccr ::
  "PFE_NettingSet \<Rightarrow> PFE_TimeHorizon \<Rightarrow> PFE_ConfidenceLevel
   \<Rightarrow> error + real \<times> (AssetClass, real) dict" where
  "calculate_potential_future_exposure_sa_ccr netting_set time_horizon confidence_level =
     (let add_ons = pfe_calculate_add_on netting_set;
          total_add_on = sum_list (dict_values add_ons);
          replacement_cost = pfe_calculate_replacement_cost netting_set
      in case pfe_multiplier replacement_cost total_add_on of
           Inl e \<Rightarrow> Inl e
         | Inr multiplier \<Rightarrow>
             (let pfe = multiplier * total_add_on;
                  time_factor = sqrt (TIME_HORIZON_YEARS time_horizon);
                  pfe = pfe * time_factor;
                  confidence_factor = PFE_CONFIDENCE_LEVELS confidence_level / 1.96;
                  pfe = pfe * confidence_factor
              in Inr (pfe, add_ons)))"

text \<open>\<open>float(s)\<close> on a string of decimal digits; any other string is a \<open>ValueError\<close> here
  (the engine only passes the digit strings of its fixed time points).\<close>

definition digit_of :: "char \<Rightarrow> nat option" where
  "digit_of c = map_of (zip ''0123456789'' [0, 1, 2, 3, 4, 5, 6, 7, 8, 9]) c"

fun digits_value :: "nat \<Rightarrow> string \<Rightarrow> nat option" where
  "digits_value acc [] = Some acc"
| "digits_value acc (c # cs) =
     (case digit_of c of None \<Rightarrow> None | Some d \<Rightarrow> digits_value (10 * acc + d) cs)"

definition py_float :: "string \<Rightarrow> error + real" where
  "py_float s =
     (if s = [] then Inl ValueError
      else case digits_value 0 s of None \<Rightarrow> Inl ValueError | Some n \<Rightarrow> Inr (real n))"

definition time_point_to_years :: "string \<Rightarrow> error + real" where
  "time_point_to_years time_point =
     (case py_float (butlast time_point) of
        Inl e \<Rightarrow> Inl e
      | Inr val \<Rightarrow>
          (let unit = last time_point
           in if unit = CHR ''d'' then Inr (val / 365)
              else if unit = CHR ''w'' then Inr (val / 52)
              else if unit = CHR ''m'' then Inr (val / 12)
              else if unit = CHR ''y'' then Inr val
              else Inl ValueError))"

text \<open>The list comprehension \<open>[tp for tp in time_points if time_point_to_years(tp) <= h]\<close>.\<close>

fun filter_time_points :: "real \<Rightarrow> string list \<Rightarrow> error + string list" where
  "filter_time_points h [] = Inr []"
| "filter_time_points h (tp # tps) =
     (case time_point_to_years tp of
        Inl e \<Rightarrow> Inl e
      | Inr years \<Rightarrow>
          (case filter_time_points h tps of
             Inl e \<Rightarrow> Inl e
           | Inr rest \<Rightarrow> Inr (if years \<le> h then tp # rest else rest)))"

text \<open>The loop over the time points of \<open>generate_exposure_profile\<close>. A time point is a
  number of days, weeks, months or years that is not negative, so the argument of
  \<open>math.exp(-2 * years)\<close> is never positive and the call never overflows.\<close>

fun exposure_points :: "real \<Rightarrow> real \<Rightarrow> real \<Rightarrow> string list \<Rightarrow> error + ExposureProfile list" where
  "exposure_points replacement_cost time_horizon_years pfe [] = Inr []"
| "exposure_points replacement_cost time_horizon_years pfe (time_point # time_points) =
     (case time_point_to_years time_point of
        Inl e \<Rightarrow> Inl e
      | Inr years \<Rightarrow>
          (let expected_exposure = replacement_cost * exp (- 2 * years);
               time_factor = sqrt (years / time_horizon_years);
               time_profile_factor =
                 (if years < time_horizon_years then 4 * years * (1 - years / time_horizon_years)
                  else 0.0);
               potential_future_exposure = pfe * time_factor * time_profile_factor;
               point = \<lparr>ep_time_point = time_point, ep_expected_exposure = expected_exposure,
                        ep_potential_future_exposure = potential_future_exposure\<rparr>
           in case exposure_points replacement_cost time_horizon_years pfe time_points of
                Inl e \<Rightarrow> Inl e
              | Inr rest \<Rightarrow> Inr (point # rest)))"

definition generate_exposure_profile ::
  "PFE_NettingSet \<Rightarrow> PFE_TimeHorizon \<Rightarrow> real \<Rightarrow> error + ExposureProfile list" where
  "generate_exposure_profile netting_set time_horizon pfe =
     (let time_horizon_years = TIME_HORIZON_YEARS time_horizon
      in case (if time_horizon_years \<le> 1/12 then Inr [''1d'', ''1w'', ''2w'', ''3w'', ''1m'']
               else if time_horizon_years \<le> 3/12 then Inr [''1d'', ''1w'', ''2w'', ''1m'', ''2m'', ''3m'']
               else if time_horizon_years \<le> 1.0 then Inr [''1d'', ''1w'', ''1m'', ''3m'', ''6m'', ''9m'', ''1y'']
               else filter_time_points time_horizon_years
                      [''1d'', ''1m'', ''3m'', ''6m'', ''1y'', ''2y'', ''3y'', ''5y'']) of
           Inl e \<Rightarrow> Inl e
         | Inr time_points \<Rightarrow>
             exposure_points (pfe_calculate_replacement_cost netting_set) time_horizon_years pfe
               time_points)"

definition calculate_potential_future_exposure_internal_model ::
  "PFE_NettingSet \<Rightarrow> PFE_TimeHorizon \<Rightarrow> PFE_ConfidenceLevel
   \<Rightarrow> error + real \<times> (AssetClass, real) dict \<times> ExposureProfile list" where
  "calculate_potential_future_exposure_internal_model netting_set time_horizon confidence_level =
     (case calculate_potential_future_exposure_sa_ccr netting_set time_horizon confidence_level of
        Inl e \<Rightarrow> Inl e
      | Inr (pfe, add_ons) \<Rightarrow>
          let adjustment_factor = 0.8;
              pfe = pfe * adjustment_factor
          in case generate_exposure_profile netting_set time_horizon pfe of
               Inl e \<Rightarrow> Inl e
             | Inr exposure_profile \<Rightarrow> Inr (pfe, add_ons, exposure_profile))"

definition calculate_potential_future_exposure_historical ::
  "PFE_NettingSet \<Rightarrow> PFE_TimeHorizon \<Rightarrow> PFE_ConfidenceLevel
   \<Rightarrow> error + real \<times> (AssetClass, real) dict \<times> ExposureProfile list" where
  "calculate_potential_future_exposure_historical netting_set time_horizon confidence_level =
     (case calculate_potential_future_exposure_sa_ccr netting_set time_horizon confidence_level of
        Inl e \<Rightarrow> Inl e
      | Inr (pfe, add_ons) \<Rightarrow>
          let adjustment_factor = 1.1;
              pfe = pfe * adjustment_factor
          in case generate_exposure_profile netting_set time_horizon pfe of
               Inl e \<Rightarrow> Inl e
             | Inr exposure_profile \<Rightarrow> Inr (pfe, add_ons, exposure_profile))"

text \<open>The method dispatch at the head of the loop body of \<open>calculate_pfe\<close>.\<close>

definition pfe_by_method ::
  "PFE_CalculationMethod \<Rightarrow> PFE_NettingSet \<Rightarrow> PFE_TimeHorizon \<Rightarrow> PFE_ConfidenceLevel
   \<Rightarrow> error + real \<times> (AssetClass, real) dict \<times> ExposureProfile list" where
  "pfe_by_method calculation_method netting_set time_horizon confidence_level =
     (case calculation_method of
        SA_CCR \<Rightarrow>
          (case calculate_potential_future_exposure_sa_ccr netting_set time_horizon confidence_level of
             Inl e \<Rightarrow> Inl e
           | Inr (pfe, add_ons) \<Rightarrow>
               (case generate_exposure_profile netting_set time_horizon pfe of
                  Inl e \<Rightarrow> Inl e
                | Inr exposure_profile \<Rightarrow> Inr (pfe, add_ons, exposure_profile)))
      | INTERNAL_MODEL \<Rightarrow>
          calculate_potential_future_exposure_internal_model netting_set time_horizon confidence_level
      | HISTORICAL \<Rightarrow>
          calculate_potential_future_exposure_historical netting_set time_horizon confidence_level)"

text \<open>Adding a netting set's profile to the accumulated one, point by point;
  \<open>exposure_profiles[i]\<close> raises \<open>IndexError\<close> past the end of the accumulated list.\<close>

fun combine_profiles :: "ExposureProfile list \<Rightarrow> ExposureProfile list \<Rightarrow> error + ExposureProfile list" where
  "combine_profiles acc [] = Inr acc"
| "combine_profiles [] (profile # profiles) = Inl IndexError"
| "combine_profiles (a # acc) (profile # profiles) =
     (case combine_profiles acc profiles of
        Inl e \<Rightarrow> Inl e
      | Inr rest \<Rightarrow>
          Inr (a\<lparr>ep_expected_exposure := ep_expected_exposure a + ep_expected_exposure profile,
                 ep_potential_future_exposure :=
                   ep_potential_future_exposure a + ep_potential_future_exposure profile\<rparr> # rest))"

record PFE_State =
  pfs_total_pfe :: real
  pfs_total_expected_exposure :: real
  pfs_all_add_ons :: "(AssetClass, real) dict"
  pfs_netting_set_results :: "(string, real \<times> real \<times> (AssetClass, real) dict) dict"
  pfs_exposure_profiles :: "ExposureProfile list"

definition pfe_netting_set_step ::
  "PFE_CalculationMethod \<Rightarrow> PFE_TimeHorizon \<Rightarrow> PFE_ConfidenceLevel
   \<Rightarrow> PFE_State \<Rightarrow> PFE_NettingSet \<Rightarrow> error + PFE_State" where
  "pfe_netting_set_step calculation_method time_horizon confidence_level st netting_set =
     (case pfe_by_method calculation_method netting_set time_horizon confidence_level of
        Inl e \<Rightarrow> Inl e
      | Inr (pfe, add_ons, exposure_profile) \<Rightarrow>
          let expected_exposure = pfe_calculate_replacement_cost netting_set
          in case (if pfs_exposure_profiles st = [] then Inr exposure_profile
                   else combine_profiles (pfs_exposure_profiles st) exposure_profile) of
               Inl e \<Rightarrow> Inl e
             | Inr exposure_profiles \<Rightarrow>
                 Inr \<lparr>pfs_total_pfe = pfs_total_pfe st + pfe,
                      pfs_total_expected_exposure = pfs_total_expected_exposure st + expected_exposure,
                      pfs_all_add_ons =
                        foldl (\<lambda>all (asset_class, add_on). dict_add asset_class add_on all)
                          (pfs_all_add_ons st) add_ons,
                      pfs_netting_set_results =
                        dict_set (pfe_ns_id netting_set) (pfe, expected_exposure, add_ons)
                          (pfs_netting_set_results st),
                      pfs_exposure_profiles = exposure_profiles\<rparr>)"

fun pfe_netting_set_loop ::
  "PFE_CalculationMethod \<Rightarrow> PFE_TimeHorizon \<Rightarrow> PFE_ConfidenceLevel
   \<Rightarrow> PFE_State \<Rightarrow> PFE_NettingSet list \<Rightarrow> error + PFE_State" where
  "pfe_netting_set_loop m h c st [] = Inr st"
| "pfe_netting_set_loop m h c st (netting_set # netting_sets) =
     (case pfe_netting_set_step m h c st netting_set of
        Inl e \<Rightarrow> Inl e
      | Inr st' \<Rightarrow> pfe_netting_set_loop m h c st' netting_sets)"

definition pfe_percentage :: "real \<Rightarrow> real \<Rightarrow> real" where
  "pfe_percentage total_add_on add_on =
     (if total_add_on > 0 then (add_on / total_add_on) * 100 else 0.0)"

record PFEInput =
  pfi_netting_sets :: "PFE_NettingSet list"
  pfi_calculation_method :: PFE_CalculationMethod
  pfi_time_horizon :: PFE_TimeHorizon
  pfi_confidence_level :: PFE_ConfidenceLevel

definition calculate_pfe :: "PFEInput \<Rightarrow> error + PFEResult" where
  "calculate_pfe input_data =
     (case pfe_netting_set_loop (pfi_calculation_method input_data) (pfi_time_horizon input_data)
             (pfi_confidence_level input_data)
             \<lparr>pfs_total_pfe = 0, pfs_total_expected_exposure = 0, pfs_all_add_ons = [],
              pfs_netting_set_results = [], pfs_exposure_profiles = []\<rparr>
             (pfi_netting_sets input_data) of
        Inl e \<Rightarrow> Inl e
      | Inr st \<Rightarrow>
          (let total_add_on = sum_list (dict_values (pfs_all_add_ons st));
               asset_class_breakdown =
                 map (\<lambda>(asset_class, add_on).
                        \<lparr>pfb_asset_class = asset_class, pfb_exposure = add_on,
                         pfb_percentage = pfe_percentage total_add_on add_on\<rparr>)
                     (pfs_all_add_ons st)
           in Inr \<lparr>total_pfe = pfs_total_pfe st,
                   total_expected_exposure = pfs_total_expected_exposure st,
                   pfr_calculation_method = pfi_calculation_method input_data,
                   pfr_time_horizon = pfi_time_horizon input_data,
                   pfr_confidence_level = pfi_confidence_level input_data,
                   pfr_exposure_profile = pfs_exposure_profiles st,
                   pfr_asset_class_breakdown = asset_class_breakdown,
                   pfr_netting_set_results = pfs_netting_set_results st\<rparr>))"

section \<open>Pricer and SA-CCR exposure engine (\<open>services/saccr.py\<close>)\<close>

datatype OptionType = CALL | PUT

datatype OptionStyle = EUROPEAN | AMERICAN

record Transaction =
  tx_id :: string
  tx_asset_class :: AssetClass
  tx_transaction_type :: TransactionType
  tx_notional :: real
  tx_maturity :: real
  tx_underlying_price :: "real option"
  tx_strike_price :: "real option"
  tx_option_type :: "OptionType option"
  tx_option_style :: "OptionStyle option"
  tx_volatility :: "real option"
  tx_interest_rate :: "real option"
  tx_supervisory_delta :: "real option"
  tx_supervisory_factor :: "real option"
  tx_maturity_factor :: "real option"

record SACCR_NettingSet =
  sns_id :: string
  sns_transactions :: "Transaction list"
  sns_collateral :: real

text \<open>
  \<open>scipy.stats.norm.pdf\<close> and \<open>norm.cdf\<close> are library functions: the density and the
  distribution function of the standard normal law. The distribution function is written
  here by its power series around 0,
  \<open>\<Phi>(x) = 1/2 + (1/\<surd>(2\<pi>)) \<Sum>\<^sub>n (-1)\<^sup>n x\<^bsup>2n+1\<^esup> / (n! 2\<^sup>n (2n+1))\<close>,
  the termwise integral of the series of the density.
\<close>

definition norm_pdf :: "real \<Rightarrow> real" where
  "norm_pdf x = exp (- (x\<^sup>2) / 2) / sqrt (2 * pi)"

definition norm_cdf_term :: "real \<Rightarrow> nat \<Rightarrow> real" where
  "norm_cdf_term x n = x ^ (2 * n + 1) / (fact n * 2 ^ n * real (2 * n + 1))"

definition norm_cdf :: "real \<Rightarrow> real" where
  "norm_cdf x = 1 / 2 + (1 / sqrt (2 * pi)) * (\<Sum>n. (- 1) ^ n * norm_cdf_term x n)"

text \<open>
  \<open>calculate_black_scholes\<close>. Python raises \<open>ZeroDivisionError\<close> on a float division by
  zero and \<open>ValueError\<close> when \<open>math.log\<close> or \<open>math.sqrt\<close> is applied outside its domain;
  the tests below are in the order in which the expression for \<open>d1\<close> is evaluated.
\<close>

definition calculate_black_scholes ::
  "OptionType \<Rightarrow> real \<Rightarrow> real \<Rightarrow> real \<Rightarrow> real \<Rightarrow> real \<Rightarrow> error + real \<times> real \<times> real" where
  "calculate_black_scholes option_type underlying_price strike_price time_to_maturity volatility
     interest_rate =
     (if strike_price = 0 then Inl ZeroDivisionError
      else if underlying_price / strike_price \<le> 0 then Inl ValueError
      else if time_to_maturity < 0 then Inl ValueError
      else if volatility * sqrt time_to_maturity = 0 then Inl ZeroDivisionError
      else
        (let d1 = (ln (underlying_price / strike_price)
                    + (interest_rate + 0.5 * volatility\<^sup>2) * time_to_maturity)
                  / (volatility * sqrt time_to_maturity);
             d2 = d1 - volatility * sqrt time_to_maturity;
             price = (if option_type = CALL
                      then underlying_price * norm_cdf d1
                           - strike_price * exp (- interest_rate * time_to_maturity) * norm_cdf d2
                      else strike_price * exp (- interest_rate * time_to_maturity) * norm_cdf (- d2)
                           - underlying_price * norm_cdf (- d1));
             delta = (if option_type = CALL then norm_cdf d1 else norm_cdf d1 - 1);
             gamma = norm_pdf d1 / (underlying_price * volatility * sqrt time_to_maturity)
         in Inr (price, delta, gamma)))"

fun SACCR_SUPERVISORY_FACTORS :: "AssetClass \<Rightarrow> real" where
  "SACCR_SUPERVISORY_FACTORS INTEREST_RATE = 0.005"
| "SACCR_SUPERVISORY_FACTORS CREDIT = 0.05"
| "SACCR_SUPERVISORY_FACTORS EQUITY = 0.32"
| "SACCR_SUPERVISORY_FACTORS COMMODITY = 0.18"
| "SACCR_SUPERVISORY_FACTORS FX = 0.04"

definition saccr_calculate_supervisory_delta :: "Transaction \<Rightarrow> error + real" where
  "saccr_calculate_supervisory_delta transaction =
     (case tx_supervisory_delta transaction of
        Some d \<Rightarrow> Inr d
      | None \<Rightarrow>
          if tx_transaction_type transaction \<notin> {OPTION, SWAPTION} then Inr 1.0
          else
            (case (tx_underlying_price transaction, tx_strike_price transaction,
                   tx_option_type transaction, tx_volatility transaction,
                   tx_interest_rate transaction) of
               (Some underlying_price, Some strike_price, Some option_type, Some volatility,
                Some interest_rate) \<Rightarrow>
                 (case calculate_black_scholes option_type underlying_price strike_price
                         (tx_maturity transaction) volatility interest_rate of
                    Inl e \<Rightarrow> Inl e
                  | Inr (price, delta, gamma) \<Rightarrow>
                      Inr (if option_type = PUT then - delta else delta))
             | _ \<Rightarrow> Inl ValueError))"

definition saccr_calculate_maturity_factor :: "Transaction \<Rightarrow> real" where
  "saccr_calculate_maturity_factor transaction =
     (case tx_maturity_factor transaction of
        Some m \<Rightarrow> m
      | None \<Rightarrow> (let maturity = min (tx_maturity transaction) 1.0 in sqrt (maturity / 1.0)))"

definition calculate_adjusted_notional :: "Transaction \<Rightarrow> real" where
  "calculate_adjusted_notional transaction = tx_notional transaction"

text \<open>The loop of \<open>calculate_replacement_cost\<close> over the transactions, on \<open>total_value\<close>.\<close>

fun saccr_total_value :: "real \<Rightarrow> Transaction list \<Rightarrow> error + real" where
  "saccr_total_value total_value [] = Inr total_value"
| "saccr_total_value total_value (transaction # transactions) =
     (if tx_transaction_type transaction \<in> {OPTION, SWAPTION} then
        (case (tx_underlying_price transaction, tx_strike_price transaction,
               tx_option_type transaction, tx_volatility transaction,
               tx_interest_rate transaction) of
           (Some underlying_price, Some strike_price, Some option_type, Some volatility,
            Some interest_rate) \<Rightarrow>
             (case calculate_black_scholes option_type underlying_price strike_price
                     (tx_maturity transaction) volatility interest_rate of
                Inl e \<Rightarrow> Inl e
              | Inr (price, delta, gamma) \<Rightarrow>
                  saccr_total_value (total_value + price * tx_notional transaction) transactions)
         | _ \<Rightarrow> saccr_total_value (total_value + 0.1 * tx_notional transaction) transactions)
      else saccr_total_value (total_value + 0.05 * tx_notional transaction) transactions)"

definition saccr_calculate_replacement_cost :: "SACCR_NettingSet \<Rightarrow> error + real" where
  "saccr_calculate_replacement_cost netting_set =
     (case saccr_total_value 0 (sns_transactions netting_set) of
        Inl e \<Rightarrow> Inl e
      | Inr total_value \<Rightarrow> Inr (max (total_value - sns_collateral netting_set) 0))"

text \<open>The inner loop of \<open>calculate_add_on\<close>, on \<open>effective_notional\<close>.\<close>

fun saccr_effective_notional :: "real \<Rightarrow> Transaction list \<Rightarrow> error + real" where
  "saccr_effective_notional effective_notional [] = Inr effective_notional"
| "saccr_effective_notional effective_notional (transaction # transactions) =
     (case saccr_calculate_supervisory_delta transaction of
        Inl e \<Rightarrow> Inl e
      | Inr supervisory_delta \<Rightarrow>
          (let maturity_factor = saccr_calculate_maturity_factor transaction;
               adjusted_notional = calculate_adjusted_notional transaction
           in saccr_effective_notional
                (effective_notional + supervisory_delta * adjusted_notional * maturity_factor)
                transactions))"

text \<open>The outer loop of \<open>calculate_add_on\<close> over the items of the grouping (distinct
  keys, so each assignment \<open>add_ons[asset_class] = add_on\<close> appends an entry).\<close>

fun saccr_add_on_items :: "(AssetClass, Transaction list) dict \<Rightarrow> error + (AssetClass, real) dict" where
  "saccr_add_on_items [] = Inr []"
| "saccr_add_on_items ((asset_class, transactions) # items) =
     (let supervisory_factor = SACCR_SUPERVISORY_FACTORS asset_class
      in case saccr_effective_notional 0 transactions of
           Inl e \<Rightarrow> Inl e
         | Inr effective_notional \<Rightarrow>
             (case saccr_add_on_items items of
                Inl e \<Rightarrow> Inl e
              | Inr add_ons \<Rightarrow> Inr ((asset_class, supervisory_factor * effective_notional) # add_ons)))"

definition saccr_calculate_add_on :: "SACCR_NettingSet \<Rightarrow> error + (AssetClass, real) dict" where
  "saccr_calculate_add_on netting_set =
     saccr_add_on_items (group_by_asset_class tx_asset_class (sns_transactions netting_set))"

text \<open>The \<open>if total_add_on == 0\<close> block of \<open>calculate_potential_future_exposure\<close>; as in
  the PFE profile engine, \<open>math.exp(-exp_term)\<close> raises \<open>OverflowError\<close> when \<open>exp_term\<close>
  is below about \<open>-709.78\<close>.\<close>

definition saccr_multiplier :: "real \<Rightarrow> real \<Rightarrow> error + real" where
  "saccr_multiplier replacement_cost total_add_on =
     (if total_add_on = 0 then Inr 1.0
      else (let floor = 0.05;
                exp_term = min 1.0 (replacement_cost / (2.0 * total_add_on))
            in case math_exp (- exp_term) of
                 Inl e \<Rightarrow> Inl e
               | Inr x \<Rightarrow> Inr (floor + (1.0 - floor) * x)))"

definition calculate_potential_future_exposure ::
  "SACCR_NettingSet \<Rightarrow> error + real \<times> (AssetClass, real) dict" where
  "calculate_potential_future_exposure netting_set =
     (case saccr_calculate_add_on netting_set of
        Inl e \<Rightarrow> Inl e
      | Inr add_ons \<Rightarrow>
          (let total_add_on = sum_list (dict_values add_ons)
           in case saccr_calculate_replacement_cost netting_set of
                Inl e \<Rightarrow> Inl e
              | Inr replacement_cost \<Rightarrow>
                  (case saccr_multiplier replacement_cost total_add_on of
                     Inl e \<Rightarrow> Inl e
                   | Inr multiplier \<Rightarrow>
                       (let pfe = multiplier * total_add_on
                        in Inr (pfe, add_ons)))))"

section \<open>VaR engine (\<open>services/var.py\<close>)\<close>

datatype VaR_AssetClass = VaR_EQUITY | VaR_FX | VaR_INTEREST_RATE | VaR_COMMODITY | VaR_CRYPTO

datatype VaRMethod = VaR_HISTORICAL | PARAMETRIC | MONTE_CARLO

datatype VaR_TimeHorizon = ONE_DAY | TEN_DAY | VaR_ONE_MONTH | VaR_THREE_MONTH

datatype VaR_ConfidenceLevel = CL_90 | VaR_CL_95 | VaR_CL_97_5 | VaR_CL_99

text \<open>pydantic rejects a position whose quantity or price is not positive, and a volatility
  that is given and not positive; the list of positions may be empty, the ids need not be
  distinct, and the correlation map may hold any key (the position's own id included) and any
  value.\<close>

record Position =
  pos_id :: string
  pos_asset_class :: VaR_AssetClass
  pos_ticker :: string
  pos_quantity :: real
  pos_price :: real
  pos_volatility :: "real option"
  pos_correlation :: "(string, real) dict option"

record Portfolio =
  pf_id :: string
  pf_positions :: "Position list"

record AssetVar =
  av_asset_id :: string
  av_ticker :: string
  av_asset_class :: VaR_AssetClass
  av_var :: real
  av_position_value :: real

text \<open>A float computed by numpy is \<open>nan\<close> or \<open>\<plusminus>inf\<close> after a division by zero, where
  plain Python floats raise \<open>ZeroDivisionError\<close>. A result field that may hold such a value
  is a \<^typ>\<open>real option\<close>, \<open>None\<close> standing for "not a finite number"; no finite value is
  ever computed from such a field.\<close>

definition np_div :: "real \<Rightarrow> real \<Rightarrow> real option" where
  "np_div a b = (if b = 0 then None else Some (a / b))"

definition py_div :: "real \<Rightarrow> real \<Rightarrow> error + real" where
  "py_div a b = (if b = 0 then Inl ZeroDivisionError else Inr (a / b))"

record AssetContribution =
  ac_asset_id :: string
  ac_ticker :: string
  ac_asset_class :: VaR_AssetClass
  ac_var_contribution :: "real option"
  ac_var_contribution_percentage :: "real option"

record StressScenario =
  ss_name :: string
  ss_description :: string
  ss_var :: real
  ss_var_increase :: real
  ss_var_increase_percentage :: "real option"

fun VaR_CONFIDENCE_LEVELS :: "VaR_ConfidenceLevel \<Rightarrow> real" where
  "VaR_CONFIDENCE_LEVELS CL_90 = 1.282"
| "VaR_CONFIDENCE_LEVELS VaR_CL_95 = 1.645"
| "VaR_CONFIDENCE_LEVELS VaR_CL_97_5 = 1.96"
| "VaR_CONFIDENCE_LEVELS VaR_CL_99 = 2.326"

fun TIME_HORIZON_FACTORS :: "VaR_TimeHorizon \<Rightarrow> real" where
  "TIME_HORIZON_FACTORS ONE_DAY = 1.0"
| "TIME_HORIZON_FACTORS TEN_DAY = sqrt 10"
| "TIME_HORIZON_FACTORS VaR_ONE_MONTH = sqrt 22"
| "TIME_HORIZON_FACTORS VaR_THREE_MONTH = sqrt 66"

text \<open>\<open>float(confidence_level.value.strip('%')) / 100\<close>.\<close>

fun confidence_percentile :: "VaR_ConfidenceLevel \<Rightarrow> real" where
  "confidence_percentile CL_90 = 90 / 100"
| "confidence_percentile VaR_CL_95 = 95 / 100"
| "confidence_percentile VaR_CL_97_5 = 97.5 / 100"
| "confidence_percentile VaR_CL_99 = 99 / 100"

definition calculate_portfolio_value :: "Portfolio \<Rightarrow> real" where
  "calculate_portfolio_value portfolio =
     sum_list (map (\<lambda>position. pos_quantity position * pos_price position)
                 (pf_positions portfolio))"

text \<open>The correlation matrix, built by the same statements in \<open>calculate_parametric_var\<close>
  (lines 150-161) and in \<open>calculate_monte_carlo_var\<close> (lines 356-367): every entry 0.5, the
  diagonal filled with 1.0, then for every position \<open>i\<close> with a non-empty correlation map and
  every position \<open>j\<close> whose id is a key of that map, the entries \<open>[i, j]\<close> and \<open>[j, i]\<close> are
  overwritten with the mapped value.\<close>

definition matrix_set :: "real list list \<Rightarrow> nat \<Rightarrow> nat \<Rightarrow> real \<Rightarrow> real list list" where
  "matrix_set M i j v = M[i := (M ! i)[j := v]]"

definition initial_correlation_matrix :: "nat \<Rightarrow> real list list" where
  "initial_correlation_matrix n =
     map (\<lambda>i. map (\<lambda>j. if i = j then 1.0 else 0.5) [0..<n]) [0..<n]"

definition correlation_row_update ::
  "Position list \<Rightarrow> (string, real) dict \<Rightarrow> nat \<Rightarrow> real list list \<Rightarrow> real list list" where
  "correlation_row_update positions correlation i M =
     foldl (\<lambda>M j. case map_of correlation (pos_id (positions ! j)) of
                      None \<Rightarrow> M
                    | Some v \<Rightarrow> matrix_set (matrix_set M i j v) j i v)
           M [0..<length positions]"

definition build_correlation_matrix :: "Position list \<Rightarrow> real list list" where
  "build_correlation_matrix positions =
     foldl (\<lambda>M i. case pos_correlation (positions ! i) of
                      None \<Rightarrow> M
                    | Some correlation \<Rightarrow>
                        if correlation = [] then M
                        else correlation_row_update positions correlation i M)
           (initial_correlation_matrix (length positions)) [0..<length positions]"

text \<open>\<open>position.volatility if position.volatility is not None else 0.2\<close>, and
  \<open>position.volatility or 0.2\<close> (which also replaces a volatility of 0).\<close>

definition volatility_or_default :: "Position \<Rightarrow> real" where
  "volatility_or_default position =
     (case pos_volatility position of None \<Rightarrow> 0.2 | Some v \<Rightarrow> v)"

definition volatility_or_0_2 :: "Position \<Rightarrow> real" where
  "volatility_or_0_2 position =
     (case pos_volatility position of None \<Rightarrow> 0.2 | Some v \<Rightarrow> if v = 0 then 0.2 else v)"

definition parametric_asset_vars :: "Position list \<Rightarrow> real \<Rightarrow> real \<Rightarrow> AssetVar list" where
  "parametric_asset_vars positions z_score time_factor =
     map (\<lambda>position.
            let position_volatility = volatility_or_default position;
                position_value = pos_quantity position * pos_price position;
                position_var = position_value * position_volatility * z_score * time_factor
                                 / sqrt 252
            in \<lparr>av_asset_id = pos_id position, av_ticker = pos_ticker position,
                av_asset_class = pos_asset_class position, av_var = position_var,
                av_position_value = position_value\<rparr>) positions"

text \<open>\<open>np.outer(np.sqrt(variance_vector), np.sqrt(variance_vector)) * correlation_matrix\<close>.\<close>

definition variance_covariance_matrix :: "Position list \<Rightarrow> real list list \<Rightarrow> real list list" where
  "variance_covariance_matrix positions correlation_matrix =
     (let variance_vector = map (\<lambda>position. (volatility_or_0_2 position)\<^sup>2) positions;
          n = length positions
      in map (\<lambda>i. map (\<lambda>j. sqrt (variance_vector ! i) * sqrt (variance_vector ! j)
                              * (correlation_matrix ! i ! j)) [0..<n]) [0..<n])"

text \<open>\<open>weights.T @ variance_matrix @ weights\<close>: first the row vector times the matrix, then
  its product with the weights.\<close>

definition quadratic_form :: "real list \<Rightarrow> real list list \<Rightarrow> real" where
  "quadratic_form weights M =
     (let n = length weights;
          u = map (\<lambda>j. sum_list (map (\<lambda>i. weights ! i * (M ! i ! j)) [0..<n])) [0..<n]
      in sum_list (map (\<lambda>j. u ! j * weights ! j) [0..<n]))"

text \<open>The contribution loop of \<open>calculate_parametric_var\<close>: \<open>mcr\<close> is a numpy float, its
  division by \<open>math.sqrt(portfolio_variance)\<close> and the division of the component VaR by the
  diversified VaR follow numpy's rules.\<close>

definition parametric_contributions ::
  "AssetVar list \<Rightarrow> real list \<Rightarrow> real list list \<Rightarrow> real \<Rightarrow> real \<Rightarrow> AssetContribution list" where
  "parametric_contributions asset_vars weights variance_matrix portfolio_variance diversified_var =
     map (\<lambda>i. let asset = asset_vars ! i;
                  mcr = foldl (\<lambda>mcr j. mcr + weights ! j * (variance_matrix ! i ! j)) 0
                          [0..<length asset_vars];
                  mcr = np_div mcr (sqrt portfolio_variance);
                  component_var = map_option (\<lambda>m. weights ! i * m * diversified_var) mcr
              in \<lparr>ac_asset_id = av_asset_id asset, ac_ticker = av_ticker asset,
                  ac_asset_class = av_asset_class asset,
                  ac_var_contribution = component_var,
                  ac_var_contribution_percentage =
                    Option.bind component_var
                      (\<lambda>c. map_option (\<lambda>q. q * 100) (np_div c diversified_var))\<rparr>)
         [0..<length asset_vars]"

text \<open>\<open>calculate_parametric_var\<close>. \<open>math.sqrt\<close> raises \<open>ValueError\<close> on a negative
  portfolio variance. The weights divide by the portfolio value, which is positive for every
  non-empty list of positions that pydantic accepts.\<close>

definition calculate_parametric_var ::
  "Portfolio \<Rightarrow> VaR_ConfidenceLevel \<Rightarrow> VaR_TimeHorizon
   \<Rightarrow> error + real \<times> AssetContribution list \<times> real" where
  "calculate_parametric_var portfolio confidence_level time_horizon =
     (let z_score = VaR_CONFIDENCE_LEVELS confidence_level;
          time_factor = TIME_HORIZON_FACTORS time_horizon;
          portfolio_value = calculate_portfolio_value portfolio;
          asset_vars = parametric_asset_vars (pf_positions portfolio) z_score time_factor;
          undiversified_var = sum_list (map av_var asset_vars);
          correlation_matrix = build_correlation_matrix (pf_positions portfolio);
          variance_matrix = variance_covariance_matrix (pf_positions portfolio) correlation_matrix;
          position_values = map (\<lambda>position. pos_quantity position * pos_price position)
                              (pf_positions portfolio);
          weights = map (\<lambda>v. v / portfolio_value) position_values;
          portfolio_variance = quadratic_form weights variance_matrix
      in if portfolio_variance < 0 then Inl ValueError
         else
           (let diversified_var = portfolio_value * sqrt portfolio_variance * z_score * time_factor
                                    / sqrt 252;
                diversification_benefit = undiversified_var - diversified_var;
                asset_contributions =
                  parametric_contributions asset_vars weights variance_matrix portfolio_variance
                    diversified_var
            in Inr (diversified_var, asset_contributions, diversification_benefit)))"

text \<open>
  The simulations draw from numpy's global generator after \<open>np.random.seed(42)\<close>. The
  generator is outside the repository: the sequence of standard normal deviates it produces
  after seeding is the parameter \<open>gauss\<close>, and \<open>np.random.normal(loc, scale, size)\<close>, which
  numpy computes as \<open>loc + scale * deviate\<close>, takes the next \<open>size\<close> deviates from position
  \<open>offset\<close>. \<open>np.linalg.cholesky\<close> is the parameter \<open>cholesky\<close>, \<open>None\<close> when it raises
  \<open>LinAlgError\<close>. The distribution statistics of the result (mean, median, standard
  deviation, skewness, kurtosis, minimum, maximum of the simulated series) are left out of the
  model.
\<close>

definition np_random_normal :: "(nat \<Rightarrow> real) \<Rightarrow> nat \<Rightarrow> real \<Rightarrow> real \<Rightarrow> nat \<Rightarrow> real list" where
  "np_random_normal gauss offset loc scale count =
     map (\<lambda>t. loc + scale * gauss (offset + t)) [0..<count]"

definition dict_get :: "('k, 'v) dict \<Rightarrow> 'k \<Rightarrow> error + 'v" where
  "dict_get d k = (case map_of d k of None \<Rightarrow> Inl KeyError | Some v \<Rightarrow> Inr v)"

definition bind_error :: "error + 'a \<Rightarrow> ('a \<Rightarrow> error + 'b) \<Rightarrow> error + 'b" where
  "bind_error m f = (case m of Inl e \<Rightarrow> Inl e | Inr x \<Rightarrow> f x)"

text \<open>A loop that builds a list and stops at the first exception.\<close>

fun map_error :: "('a \<Rightarrow> error + 'b) \<Rightarrow> 'a list \<Rightarrow> error + 'b list" where
  "map_error f [] = Inr []"
| "map_error f (x # xs) =
     bind_error (f x) (\<lambda>y. bind_error (map_error f xs) (\<lambda>ys. Inr (y # ys)))"

text \<open>\<open>np.mean\<close>, \<open>np.std\<close> (population standard deviation) and the off-diagonal entry of
  \<open>np.corrcoef\<close> (covariances with divisor \<open>N - 1\<close>, divided by both standard deviations,
  clipped to \<open>[-1, 1]\<close>).\<close>

definition np_mean :: "real list \<Rightarrow> real" where
  "np_mean xs = sum_list xs / real (length xs)"

definition centered_product :: "real list \<Rightarrow> real list \<Rightarrow> real" where
  "centered_product xs ys =
     sum_list (map2 (\<lambda>x y. (x - np_mean xs) * (y - np_mean ys)) xs ys)"

definition np_std :: "real list \<Rightarrow> real" where
  "np_std xs = sqrt (centered_product xs xs / real (length xs))"

definition np_corrcoef :: "real list \<Rightarrow> real list \<Rightarrow> real option" where
  "np_corrcoef xs ys =
     (let n = length xs
      in if n \<le> 1 then None
         else
           (let cxx = centered_product xs xs / real (n - 1);
                cyy = centered_product ys ys / real (n - 1);
                cxy = centered_product xs ys / real (n - 1)
            in if cxx = 0 \<or> cyy = 0 then None
               else Some (min 1 (max (- 1) (cxy / sqrt cxx / sqrt cyy)))))"

text \<open>\<open>beta = np.corrcoef(a, p)[0, 1] * (np.std(a) / np.std(p))\<close>.\<close>

definition simulation_beta :: "real list \<Rightarrow> real list \<Rightarrow> real option" where
  "simulation_beta asset_returns portfolio_returns =
     Option.bind (np_corrcoef asset_returns portfolio_returns)
       (\<lambda>c. map_option (\<lambda>q. c * q) (np_div (np_std asset_returns) (np_std portfolio_returns)))"

text \<open>The body of the contribution loop shared by \<open>calculate_historical_var\<close> and
  \<open>calculate_monte_carlo_var\<close>; \<open>position_value / portfolio_value\<close> divides two Python
  floats.\<close>

definition simulation_contribution ::
  "AssetVar \<Rightarrow> real list \<Rightarrow> real list \<Rightarrow> real \<Rightarrow> real \<Rightarrow> error + AssetContribution" where
  "simulation_contribution asset asset_returns portfolio_returns portfolio_value var =
     bind_error (py_div (av_position_value asset) portfolio_value) (\<lambda>w.
       let beta = simulation_beta asset_returns portfolio_returns;
           component_var = map_option (\<lambda>b. w * b * var) beta
       in Inr \<lparr>ac_asset_id = av_asset_id asset, ac_ticker = av_ticker asset,
               ac_asset_class = av_asset_class asset,
               ac_var_contribution = component_var,
               ac_var_contribution_percentage =
                 Option.bind component_var (\<lambda>c. map_option (\<lambda>q. q * 100) (np_div c var))\<rparr>)"

text \<open>
  \<open>sorted_returns[var_index]\<close> with \<open>var_index = int(n * (1 - confidence_percentile))\<close>. Here
  the rounding of the floats decides the index, so the model takes the floats themselves. The
  floats nearest to 0.9, 0.95, 0.975 and 0.99 are \<open>0.9 + (1 / 2 ^ 52) / 10\<close>,
  \<open>0.95 - (1 / 2 ^ 50) / 20\<close>, \<open>0.975 - (1 / 2 ^ 50) / 40\<close> and \<open>0.99 - (1 / 2 ^ 50) / 100\<close>;
  their differences from 1 are floats again (Python prints them as 0.09999999999999998,
  0.050000000000000044, 0.025000000000000022 and 0.010000000000000009). For a count below
  \<open>2 ^ 40\<close> the rounded product with the count has the integer part of the exact product,
  which \<open>int\<close> returns: 49 and not 50 for 500 returns at 90%.
\<close>

fun one_minus_confidence_percentile :: "VaR_ConfidenceLevel \<Rightarrow> real" where
  "one_minus_confidence_percentile CL_90 = (1 - 1 / 2 ^ 52) / 10"
| "one_minus_confidence_percentile VaR_CL_95 = (1 + 1 / 2 ^ 50) / 20"
| "one_minus_confidence_percentile VaR_CL_97_5 = (1 + 1 / 2 ^ 50) / 40"
| "one_minus_confidence_percentile VaR_CL_99 = (1 + 1 / 2 ^ 50) / 100"

definition var_index :: "nat \<Rightarrow> VaR_ConfidenceLevel \<Rightarrow> nat" where
  "var_index n confidence_level =
     nat \<lfloor>real n * one_minus_confidence_percentile confidence_level\<rfloor>"

definition sorted_at :: "real list \<Rightarrow> nat \<Rightarrow> error + real" where
  "sorted_at xs i = (if i < length xs then Inr (sort xs ! i) else Inl IndexError)"

subsection \<open>\<open>calculate_historical_var\<close>\<close>

fun historical_returns ::
  "(nat \<Rightarrow> real) \<Rightarrow> nat \<Rightarrow> Position list \<Rightarrow> (string, real list) dict \<Rightarrow> (string, real list) dict" where
  "historical_returns gauss offset [] returns = returns"
| "historical_returns gauss offset (position # positions) returns =
     (let position_volatility = volatility_or_default position;
          daily_volatility = position_volatility / sqrt 252;
          position_returns = np_random_normal gauss offset 0 daily_volatility 500
      in historical_returns gauss (offset + 500) positions
           (dict_set (pos_id position) position_returns returns))"

text \<open>The loop that accumulates \<open>portfolio_returns\<close> and fills \<open>position_values\<close>.\<close>

fun historical_portfolio_returns ::
  "real \<Rightarrow> (string, real list) dict \<Rightarrow> Position list \<Rightarrow> real list \<times> (string, real) dict
   \<Rightarrow> error + real list \<times> (string, real) dict" where
  "historical_portfolio_returns portfolio_value returns [] st = Inr st"
| "historical_portfolio_returns portfolio_value returns (position # positions) st =
     (case st of (portfolio_returns, position_values) \<Rightarrow>
        let position_value = pos_quantity position * pos_price position;
            position_values = dict_set (pos_id position) position_value position_values
        in bind_error (py_div position_value portfolio_value) (\<lambda>w.
           bind_error (dict_get returns (pos_id position)) (\<lambda>rs.
             historical_portfolio_returns portfolio_value returns positions
               (map2 (\<lambda>p r. p + w * r) portfolio_returns rs, position_values))))"

definition historical_asset_var ::
  "(string, real list) dict \<Rightarrow> (string, real) dict \<Rightarrow> nat \<Rightarrow> real \<Rightarrow> Position \<Rightarrow> error + AssetVar" where
  "historical_asset_var returns position_values index time_factor position =
     bind_error (dict_get position_values (pos_id position)) (\<lambda>position_value.
     bind_error (dict_get returns (pos_id position)) (\<lambda>position_returns.
     bind_error (sorted_at position_returns index) (\<lambda>q.
       let position_var_return = - q;
           position_var = position_value * position_var_return * time_factor
       in Inr \<lparr>av_asset_id = pos_id position, av_ticker = pos_ticker position,
               av_asset_class = pos_asset_class position, av_var = position_var,
               av_position_value = position_value\<rparr>)))"

definition calculate_historical_var ::
  "(nat \<Rightarrow> real) \<Rightarrow> Portfolio \<Rightarrow> VaR_ConfidenceLevel \<Rightarrow> VaR_TimeHorizon
   \<Rightarrow> error + real \<times> AssetContribution list \<times> real" where
  "calculate_historical_var gauss portfolio confidence_level time_horizon =
     (let time_factor = TIME_HORIZON_FACTORS time_horizon;
          portfolio_value = calculate_portfolio_value portfolio;
          num_days = 500;
          returns = historical_returns gauss 0 (pf_positions portfolio) []
      in bind_error (historical_portfolio_returns portfolio_value returns (pf_positions portfolio)
                       (replicate num_days 0, [])) (\<lambda>(portfolio_returns, position_values).
         let index = var_index num_days confidence_level
         in bind_error (sorted_at portfolio_returns index) (\<lambda>q.
            let var_return = - q;
                var = portfolio_value * var_return * time_factor
            in bind_error (map_error (historical_asset_var returns position_values index time_factor)
                             (pf_positions portfolio)) (\<lambda>asset_vars.
               let undiversified_var = sum_list (map av_var asset_vars);
                   diversification_benefit = undiversified_var - var
               in bind_error (map_error (\<lambda>asset.
                                 bind_error (dict_get returns (av_asset_id asset)) (\<lambda>asset_returns.
                                   simulation_contribution asset asset_returns portfolio_returns
                                     portfolio_value var)) asset_vars) (\<lambda>asset_contributions.
                  Inr (var, asset_contributions, diversification_benefit))))))"

subsection \<open>\<open>calculate_monte_carlo_var\<close>\<close>

definition volatility_vector :: "Position list \<Rightarrow> real list" where
  "volatility_vector positions = map volatility_or_default positions"

definition mat_vec :: "real list list \<Rightarrow> real list \<Rightarrow> real list" where
  "mat_vec L z = map (\<lambda>row. sum_list (map2 (\<lambda>a b. a * b) row z)) L"

text \<open>The scaled returns of simulation \<open>i\<close>.\<close>

definition mc_scaled_returns ::
  "(nat \<Rightarrow> real) \<Rightarrow> real list list \<Rightarrow> real list \<Rightarrow> nat \<Rightarrow> nat \<Rightarrow> real list" where
  "mc_scaled_returns gauss chol vols n i =
     (let z = np_random_normal gauss (i * n) 0 1 n;
          correlated_returns = mat_vec chol z;
          daily_volatility = map (\<lambda>v. v / sqrt 252) vols
      in map2 (\<lambda>c d. c * d) correlated_returns daily_volatility)"

text \<open>The inner loop of a simulation, on \<open>portfolio_return\<close>, with the index \<open>j\<close> of
  \<open>enumerate\<close>.\<close>

fun mc_portfolio_return ::
  "real \<Rightarrow> real list \<Rightarrow> nat \<Rightarrow> Position list \<Rightarrow> real \<Rightarrow> error + real" where
  "mc_portfolio_return portfolio_value scaled_returns j [] portfolio_return = Inr portfolio_return"
| "mc_portfolio_return portfolio_value scaled_returns j (position # positions) portfolio_return =
     (let position_value = pos_quantity position * pos_price position
      in bind_error (py_div position_value portfolio_value) (\<lambda>w.
           mc_portfolio_return portfolio_value scaled_returns (j + 1) positions
             (portfolio_return + w * scaled_returns ! j)))"

definition mc_asset_var :: "real list list \<Rightarrow> nat \<Rightarrow> real \<Rightarrow> Position list \<Rightarrow> nat \<Rightarrow> error + AssetVar" where
  "mc_asset_var asset_returns index time_factor positions j =
     (let position = positions ! j;
          position_value = pos_quantity position * pos_price position
      in bind_error (sorted_at (asset_returns ! j) index) (\<lambda>q.
           let position_var_return = - q;
               position_var = position_value * position_var_return * time_factor
           in Inr \<lparr>av_asset_id = pos_id position, av_ticker = pos_ticker position,
                   av_asset_class = pos_asset_class position, av_var = position_var,
                   av_position_value = position_value\<rparr>))"

definition calculate_monte_carlo_var ::
  "(real list list \<Rightarrow> real list list option) \<Rightarrow> (nat \<Rightarrow> real) \<Rightarrow> Portfolio
   \<Rightarrow> VaR_ConfidenceLevel \<Rightarrow> VaR_TimeHorizon \<Rightarrow> nat
   \<Rightarrow> error + real \<times> AssetContribution list \<times> real" where
  "calculate_monte_carlo_var cholesky gauss portfolio confidence_level time_horizon num_simulations =
     (let time_factor = TIME_HORIZON_FACTORS time_horizon;
          portfolio_value = calculate_portfolio_value portfolio;
          positions = pf_positions portfolio;
          n = length positions;
          correlation_matrix = build_correlation_matrix positions;
          vols = volatility_vector positions
      in case cholesky correlation_matrix of
           None \<Rightarrow> Inl LinAlgError
         | Some chol \<Rightarrow>
             (let scaled = map (mc_scaled_returns gauss chol vols n) [0..<num_simulations];
                  asset_returns = map (\<lambda>j. map (\<lambda>s. s ! j) scaled) [0..<n]
              in bind_error (map_error (\<lambda>s. mc_portfolio_return portfolio_value s 0 positions 0)
                               scaled) (\<lambda>portfolio_returns.
                 let index = var_index num_simulations confidence_level
                 in bind_error (sorted_at portfolio_returns index) (\<lambda>q.
                    let var_return = - q;
                        var = portfolio_value * var_return * time_factor
                    in bind_error (map_error (mc_asset_var asset_returns index time_factor positions)
                                     [0..<n]) (\<lambda>asset_vars.
                       let undiversified_var = sum_list (map av_var asset_vars);
                           diversification_benefit = undiversified_var - var
                       in bind_error (map_error (\<lambda>j.
                                         simulation_contribution (asset_vars ! j) (asset_returns ! j)
                                           portfolio_returns portfolio_value var)
                                        [0..<length asset_vars]) (\<lambda>asset_contributions.
                          Inr (var, asset_contributions, diversification_benefit)))))))"

subsection \<open>\<open>calculate_stress_scenarios\<close>\<close>

record Scenario =
  sc_name :: string
  sc_description :: string
  sc_volatility_multiplier :: real
  sc_correlation_increase :: real
  sc_asset_class_impacts :: "(VaR_AssetClass, real) dict option"

definition MARKET_CRASH :: Scenario where
  "MARKET_CRASH =
     \<lparr>sc_name = ''Market Crash'',
      sc_description = ''Simulates a severe market crash similar to 2008 financial crisis'',
      sc_volatility_multiplier = 3.0, sc_correlation_increase = 0.2,
      sc_asset_class_impacts = None\<rparr>"

definition INTEREST_RATE_SPIKE :: Scenario where
  "INTEREST_RATE_SPIKE =
     \<lparr>sc_name = ''Interest Rate Spike'',
      sc_description = ''Simulates a sudden increase in interest rates'',
      sc_volatility_multiplier = 2.0, sc_correlation_increase = 0.1,
      sc_asset_class_impacts =
        Some [(VaR_INTEREST_RATE, 2.5), (VaR_EQUITY, 1.5), (VaR_FX, 1.2), (VaR_COMMODITY, 1.0),
              (VaR_CRYPTO, 1.3)]\<rparr>"

definition LIQUIDITY_CRISIS :: Scenario where
  "LIQUIDITY_CRISIS =
     \<lparr>sc_name = ''Liquidity Crisis'',
      sc_description = ''Simulates a market-wide liquidity crisis'',
      sc_volatility_multiplier = 2.5, sc_correlation_increase = 0.3,
      sc_asset_class_impacts =
        Some [(VaR_INTEREST_RATE, 1.5), (VaR_EQUITY, 2.0), (VaR_FX, 1.8), (VaR_COMMODITY, 1.5),
              (VaR_CRYPTO, 3.0)]\<rparr>"

definition STRESS_SCENARIOS :: "Scenario list" where
  "STRESS_SCENARIOS = [MARKET_CRASH, INTEREST_RATE_SPIKE, LIQUIDITY_CRISIS]"

text \<open>The body of the loop over the positions: the asset-class multiplier, then the stressed
  copy of one position. A position without an explicit volatility keeps \<open>None\<close>, and an
  absent or empty correlation map becomes \<open>None\<close>.\<close>

definition asset_class_multiplier :: "Scenario \<Rightarrow> Position \<Rightarrow> real" where
  "asset_class_multiplier scenario position =
     (case sc_asset_class_impacts scenario of
        None \<Rightarrow> 1.0
      | Some impacts \<Rightarrow>
          (case map_of impacts (pos_asset_class position) of
             None \<Rightarrow> 1.0 | Some m \<Rightarrow> m))"

definition stressed_position :: "Scenario \<Rightarrow> Position \<Rightarrow> Position" where
  "stressed_position scenario position =
     (let asset_class_multiplier = asset_class_multiplier scenario position;
          stressed_volatility =
            (case pos_volatility position of
               None \<Rightarrow> None
             | Some v \<Rightarrow> Some (v * sc_volatility_multiplier scenario * asset_class_multiplier));
          stressed_correlation =
            (case pos_correlation position of
               None \<Rightarrow> None
             | Some correlation \<Rightarrow>
                 if correlation = [] then None
                 else Some (map (\<lambda>(asset_id, corr).
                                   (asset_id, min 1.0 (corr + sc_correlation_increase scenario)))
                              correlation))
      in \<lparr>pos_id = pos_id position, pos_asset_class = pos_asset_class position,
          pos_ticker = pos_ticker position, pos_quantity = pos_quantity position,
          pos_price = pos_price position, pos_volatility = stressed_volatility,
          pos_correlation = stressed_correlation\<rparr>)"

definition stressed_portfolio :: "Scenario \<Rightarrow> Portfolio \<Rightarrow> Portfolio" where
  "stressed_portfolio scenario portfolio =
     \<lparr>pf_id = pf_id portfolio,
      pf_positions = map (stressed_position scenario) (pf_positions portfolio)\<rparr>"

text \<open>The loop over the scenarios, on \<open>stress_results\<close>. The stressed VaR is a numpy float,
  so the percentage follows numpy's division.\<close>

fun stress_loop ::
  "(real list list \<Rightarrow> real list list option) \<Rightarrow> (nat \<Rightarrow> real) \<Rightarrow> Portfolio
   \<Rightarrow> VaR_ConfidenceLevel \<Rightarrow> VaR_TimeHorizon \<Rightarrow> real \<Rightarrow> Scenario list \<Rightarrow> StressScenario list
   \<Rightarrow> error + StressScenario list" where
  "stress_loop cholesky gauss portfolio confidence_level time_horizon base_var [] stress_results =
     Inr stress_results"
| "stress_loop cholesky gauss portfolio confidence_level time_horizon base_var
     (scenario # scenarios) stress_results =
     (let stressed = stressed_portfolio scenario portfolio
      in if length (pf_positions stressed) > 0 then
           (case calculate_monte_carlo_var cholesky gauss stressed confidence_level time_horizon
                   5000 of
              Inl e \<Rightarrow> Inl e
            | Inr (stressed_var, contributions, benefit) \<Rightarrow>
                (let var_increase = stressed_var - base_var;
                     var_increase_percentage =
                       map_option (\<lambda>q. q * 100) (np_div var_increase base_var)
                 in stress_loop cholesky gauss portfolio confidence_level time_horizon base_var
                      scenarios
                      (stress_results @
                         [\<lparr>ss_name = sc_name scenario, ss_description = sc_description scenario,
                           ss_var = stressed_var, ss_var_increase = var_increase,
                           ss_var_increase_percentage = var_increase_percentage\<rparr>])))
         else stress_loop cholesky gauss portfolio confidence_level time_horizon base_var
                scenarios stress_results)"

definition calculate_stress_scenarios ::
  "(real list list \<Rightarrow> real list list option) \<Rightarrow> (nat \<Rightarrow> real) \<Rightarrow> Portfolio
   \<Rightarrow> VaR_ConfidenceLevel \<Rightarrow> VaR_TimeHorizon \<Rightarrow> real \<Rightarrow> error + StressScenario list" where
  "calculate_stress_scenarios cholesky gauss portfolio confidence_level time_horizon base_var =
     stress_loop cholesky gauss portfolio confidence_level time_horizon base_var
       STRESS_SCENARIOS []"

subsection \<open>\<open>calculate_var\<close>\<close>

record VaRInput =
  vi_portfolio :: Portfolio
  vi_method :: VaRMethod
  vi_time_horizon :: VaR_TimeHorizon
  vi_confidence_level :: VaR_ConfidenceLevel
  vi_num_simulations :: nat
  vi_include_stress_scenarios :: bool

record VaRResult =
  vr_var :: real
  vr_var_percentage :: "real option"
  vr_portfolio_value :: real
  vr_method :: VaRMethod
  vr_time_horizon :: VaR_TimeHorizon
  vr_confidence_level :: VaR_ConfidenceLevel
  vr_asset_contributions :: "AssetContribution list"
  vr_diversification_benefit :: real
  vr_diversification_benefit_percentage :: "real option"
  vr_stress_scenarios :: "StressScenario list option"

text \<open>The two percentages at lines 615-619. Under the parametric method the operands are
  Python floats and a zero denominator raises; under the two simulation methods \<open>var\<close> is a
  numpy float and a zero denominator gives \<open>nan\<close> or \<open>\<plusminus>inf\<close>.\<close>

definition var_percentages ::
  "VaRMethod \<Rightarrow> real \<Rightarrow> real \<Rightarrow> real \<Rightarrow> error + real option \<times> real option" where
  "var_percentages calculation_method var portfolio_value diversification_benefit =
     (if calculation_method = PARAMETRIC then
        bind_error (py_div var portfolio_value) (\<lambda>q.
        bind_error (py_div diversification_benefit (var + diversification_benefit)) (\<lambda>q'.
          Inr (Some (q * 100), Some (q' * 100))))
      else
        Inr (map_option (\<lambda>q. q * 100) (np_div var portfolio_value),
             map_option (\<lambda>q. q * 100)
               (np_div diversification_benefit (var + diversification_benefit))))"

definition calculate_var ::
  "(real list list \<Rightarrow> real list list option) \<Rightarrow> (nat \<Rightarrow> real) \<Rightarrow> VaRInput \<Rightarrow> error + VaRResult" where
  "calculate_var cholesky gauss input_data =
     (let portfolio = vi_portfolio input_data;
          calculation_method = vi_method input_data;
          confidence_level = vi_confidence_level input_data;
          time_horizon = vi_time_horizon input_data;
          portfolio_value = calculate_portfolio_value portfolio
      in bind_error
           (case calculation_method of
              PARAMETRIC \<Rightarrow> calculate_parametric_var portfolio confidence_level time_horizon
            | VaR_HISTORICAL \<Rightarrow>
                calculate_historical_var gauss portfolio confidence_level time_horizon
            | MONTE_CARLO \<Rightarrow>
                calculate_monte_carlo_var cholesky gauss portfolio confidence_level time_horizon
                  (vi_num_simulations input_data))
           (\<lambda>(var, asset_contributions, diversification_benefit).
         bind_error (var_percentages calculation_method var portfolio_value diversification_benefit)
           (\<lambda>(var_percentage, diversification_benefit_percentage).
         bind_error
           (if vi_include_stress_scenarios input_data then
              bind_error (calculate_stress_scenarios cholesky gauss portfolio confidence_level
                            time_horizon var) (\<lambda>s. Inr (Some s))
            else Inr None)
           (\<lambda>stress_scenarios.
              Inr \<lparr>vr_var = var, vr_var_percentage = var_percentage,
                   vr_portfolio_value = portfolio_value, vr_method = calculation_method,
                   vr_time_horizon = time_horizon, vr_confidence_level = confidence_level,
                   vr_asset_contributions = asset_contributions,
                   vr_diversification_benefit = diversification_benefit,
                   vr_diversification_benefit_percentage = diversification_benefit_percentage,
                   vr_stress_scenarios = stress_scenarios\<rparr>))))"

subsection \<open>The stressed portfolio in the words of the specification\<close>

text \<open>
  Follows the spec's words, for comparison with \<open>stressed_position\<close>: "every position's
  volatility is multiplied by the scenario's volatility factor (and its per-asset-class factor
  where given)", the volatility of a position being the supplied one or the default 0.20 when
  absent; the correlations are stressed as in the code.
\<close>

definition spec_stressed_position :: "Scenario \<Rightarrow> Position \<Rightarrow> Position" where
  "spec_stressed_position scenario position =
     (stressed_position scenario position)
       \<lparr>pos_volatility :=
          Some (volatility_or_default position * sc_volatility_multiplier scenario
                  * asset_class_multiplier scenario position)\<rparr>"

definition spec_stressed_portfolio :: "Scenario \<Rightarrow> Portfolio \<Rightarrow> Portfolio" where
  "spec_stressed_portfolio scenario portfolio =
     \<lparr>pf_id = pf_id portfolio,
      pf_positions = map (spec_stressed_position scenario) (pf_positions portfolio)\<rparr>"

subsection \<open>A predicate on matrices, for the statements about the correlation matrix\<close>

text \<open>\<open>M\<close> is an \<open>n \<times> n\<close> matrix, symmetric, with the diagonal entry 1 at every index
  in \<open>D\<close>.\<close>

definition symmetric_with_unit_diagonal :: "nat \<Rightarrow> nat set \<Rightarrow> real list list \<Rightarrow> bool" where
  "symmetric_with_unit_diagonal n D M \<longleftrightarrow>
     length M = n \<and> (\<forall>a<n. length (M ! a) = n) \<and>
     (\<forall>a<n. \<forall>b<n. M ! a ! b = M ! b ! a) \<and> (\<forall>a\<in>D. a < n \<longrightarrow> M ! a ! a = 1)"

section \<open>Concrete inputs\<close>

text \<open>One equity trade of notional 1,000,000 and maturity one year, alone in its netting set.\<close>

definition grid_example_trade :: IM_Trade where
  "grid_example_trade =
     \<lparr>im_id = ''T1'', im_asset_class = EQUITY, im_product = SWAP, im_notional = 1000000,
      im_maturity = 1, im_market_value = 0, im_delta = None, im_vega = None,
      im_curvature = None\<rparr>"

definition grid_example_netting_set :: IM_NettingSet where
  "grid_example_netting_set = \<lparr>im_ns_id = ''NS1'', im_ns_trades = [grid_example_trade]\<rparr>"

text \<open>One interest-rate swap of notional 1,000,000 and maturity 3 years, market value 0, no
  overrides, no collateral (PFE schema).\<close>

definition pfe_example_trade :: PFE_Trade where
  "pfe_example_trade =
     \<lparr>pfe_id = ''T1'', pfe_asset_class = INTEREST_RATE, pfe_transaction_type = SWAP,
      pfe_notional = 1000000, pfe_maturity = 3, pfe_market_value = 0,
      pfe_supervisory_delta = None, pfe_supervisory_factor = None, pfe_maturity_factor = None\<rparr>"

definition pfe_example_netting_set :: PFE_NettingSet where
  "pfe_example_netting_set =
     \<lparr>pfe_ns_id = ''NS1'', pfe_ns_trades = [pfe_example_trade], pfe_ns_collateral = []\<rparr>"

definition pfe_example_input :: PFEInput where
  "pfe_example_input =
     \<lparr>pfi_netting_sets = [pfe_example_netting_set], pfi_calculation_method = SA_CCR,
      pfi_time_horizon = ONE_YEAR, pfi_confidence_level = CL_97_5\<rparr>"

text \<open>The same swap as a short position: supervisory delta override \<open>-1\<close>.\<close>

definition pfe_short_trade :: PFE_Trade where
  "pfe_short_trade = pfe_example_trade\<lparr>pfe_supervisory_delta := Some (- 1)\<rparr>"

definition pfe_short_input :: PFEInput where
  "pfe_short_input =
     \<lparr>pfi_netting_sets =
        [\<lparr>pfe_ns_id = ''NS1'', pfe_ns_trades = [pfe_short_trade], pfe_ns_collateral = []\<rparr>],
      pfi_calculation_method = SA_CCR, pfi_time_horizon = ONE_YEAR,
      pfi_confidence_level = CL_97_5\<rparr>"

text \<open>An at-the-money equity call: S = K = 100, T = 1, \<open>\<sigma>\<close> = 0.20, r = 0.05, as an SA-CCR
  transaction and, with the same id, class, type, notional, maturity and (absent) overrides,
  as a PFE trade.\<close>

definition saccr_option_transaction :: Transaction where
  "saccr_option_transaction =
     \<lparr>tx_id = ''O1'', tx_asset_class = EQUITY, tx_transaction_type = OPTION,
      tx_notional = 1000000, tx_maturity = 1, tx_underlying_price = Some 100,
      tx_strike_price = Some 100, tx_option_type = Some CALL, tx_option_style = Some EUROPEAN,
      tx_volatility = Some 0.2, tx_interest_rate = Some 0.05, tx_supervisory_delta = None,
      tx_supervisory_factor = None, tx_maturity_factor = None\<rparr>"

definition pfe_option_trade :: PFE_Trade where
  "pfe_option_trade =
     \<lparr>pfe_id = ''O1'', pfe_asset_class = EQUITY, pfe_transaction_type = OPTION,
      pfe_notional = 1000000, pfe_maturity = 1, pfe_market_value = 0,
      pfe_supervisory_delta = None, pfe_supervisory_factor = None, pfe_maturity_factor = None\<rparr>"

text \<open>SA-CCR transactions: an interest-rate swap without overrides, the same swap with a
  supervisory delta override, an option that lacks its volatility, and two netting sets.\<close>

definition saccr_swap_transaction :: Transaction where
  "saccr_swap_transaction =
     \<lparr>tx_id = ''S1'', tx_asset_class = INTEREST_RATE, tx_transaction_type = SWAP,
      tx_notional = 1000000, tx_maturity = 3, tx_underlying_price = None,
      tx_strike_price = None, tx_option_type = None, tx_option_style = None,
      tx_volatility = None, tx_interest_rate = None, tx_supervisory_delta = None,
      tx_supervisory_factor = None, tx_maturity_factor = None\<rparr>"

definition saccr_override_transaction :: Transaction where
  "saccr_override_transaction = saccr_swap_transaction\<lparr>tx_supervisory_delta := Some (- 1)\<rparr>"

definition saccr_incomplete_option :: Transaction where
  "saccr_incomplete_option = saccr_option_transaction\<lparr>tx_volatility := None\<rparr>"

definition saccr_swap_netting_set :: SACCR_NettingSet where
  "saccr_swap_netting_set =
     \<lparr>sns_id = ''NS1'', sns_transactions = [saccr_swap_transaction], sns_collateral = 0\<rparr>"

definition saccr_empty_netting_set :: SACCR_NettingSet where
  "saccr_empty_netting_set = \<lparr>sns_id = ''NS0'', sns_transactions = [], sns_collateral = 0\<rparr>"

definition pfe_empty_netting_set :: PFE_NettingSet where
  "pfe_empty_netting_set = \<lparr>pfe_ns_id = ''NS0'', pfe_ns_trades = [], pfe_ns_collateral = []\<rparr>"

text \<open>A long interest-rate swap of notional 1,000,000 against a short one (supervisory delta
  override \<open>-1\<close>) of notional 1,001,000, both of maturity 3 years and without collateral: the
  total add-on is \<open>0.005 * (1000000 - 1001000) = -5\<close>. In the SA-CCR schema the replacement
  cost is \<open>0.05 * 2001000 = 100050\<close>; in the PFE schema each trade has the market value
  5,000 and the replacement cost is 10,000.\<close>

definition saccr_offsetting_netting_set :: SACCR_NettingSet where
  "saccr_offsetting_netting_set =
     \<lparr>sns_id = ''NS2'',
      sns_transactions =
        [saccr_swap_transaction,
         saccr_swap_transaction\<lparr>tx_id := ''S2'', tx_notional := 1001000,
                                  tx_supervisory_delta := Some (- 1)\<rparr>],
      sns_collateral = 0\<rparr>"

definition pfe_offsetting_netting_set :: PFE_NettingSet where
  "pfe_offsetting_netting_set =
     \<lparr>pfe_ns_id = ''NS2'',
      pfe_ns_trades =
        [pfe_example_trade\<lparr>pfe_market_value := 5000\<rparr>,
         pfe_example_trade\<lparr>pfe_id := ''T2'', pfe_notional := 1001000, pfe_market_value := 5000,
                             pfe_supervisory_delta := Some (- 1)\<rparr>],
      pfe_ns_collateral = []\<rparr>"

text \<open>VaR portfolios: one equity position of 10 units at price 100 without volatility or
  correlations; the same position with a correlation entry keyed by its own id; the same
  position with an explicit volatility; and the empty portfolio, with the default (historical)
  method.\<close>

definition var_single_position :: Position where
  "var_single_position =
     \<lparr>pos_id = ''A'', pos_asset_class = VaR_EQUITY, pos_ticker = ''AAA'', pos_quantity = 10,
      pos_price = 100, pos_volatility = None, pos_correlation = None\<rparr>"

definition var_single_portfolio :: Portfolio where
  "var_single_portfolio = \<lparr>pf_id = ''P1'', pf_positions = [var_single_position]\<rparr>"

definition var_self_correlated_position :: Position where
  "var_self_correlated_position = var_single_position\<lparr>pos_correlation := Some [(''A'', 0.3)]\<rparr>"

definition var_self_correlated_portfolio :: Portfolio where
  "var_self_correlated_portfolio =
     \<lparr>pf_id = ''P2'', pf_positions = [var_self_correlated_position]\<rparr>"

definition var_explicit_position :: Position where
  "var_explicit_position =
     var_single_position\<lparr>pos_volatility := Some 0.3, pos_correlation := Some [(''B'', 0.9)]\<rparr>"

definition var_explicit_portfolio :: Portfolio where
  "var_explicit_portfolio = \<lparr>pf_id = ''P3'', pf_positions = [var_explicit_position]\<rparr>"

definition var_empty_portfolio :: Portfolio where
  "var_empty_portfolio = \<lparr>pf_id = ''P0'', pf_positions = []\<rparr>"

definition var_empty_input :: VaRInput where
  "var_empty_input =
     \<lparr>vi_portfolio = var_empty_portfolio, vi_method = VaR_HISTORICAL, vi_time_horizon = ONE_DAY,
      vi_confidence_level = VaR_CL_95, vi_num_simulations = 10000,
      vi_include_stress_scenarios = False\<rparr>"

text \<open>Sample values of the two parameters of the simulation methods, for evaluating them on
  one-position portfolios: a Cholesky routine that returns its argument (the factor of the
  1 x 1 matrix \<open>[[1]]\<close> is \<open>[[1]]\<close>), and a generator whose every deviate is -1.\<close>

definition unit_cholesky :: "real list list \<Rightarrow> real list list option" where
  "unit_cholesky M = Some M"

definition constant_deviates :: "nat \<Rightarrow> real" where
  "constant_deviates k = - 1"

section \<open>Auxiliary facts about dictionaries and grouping\<close>

lemma map_of_dict_append:
  "map_of (dict_append k x d) c =
     (if c = k then Some ((case map_of d k of Some xs \<Rightarrow> xs | None \<Rightarrow> []) @ [x]) else map_of d c)"
  by (induction k x d rule: dict_append.induct) auto

lemma keys_dict_append:
  "map fst (dict_append k x d) = (if k \<in> fst ` set d then map fst d else map fst d @ [k])"
  by (induction k x d rule: dict_append.induct) auto

lemma group_fold_map_of:
  "map_of (foldl (\<lambda>d t. dict_append (cls t) t d) d ts) c =
     (case map_of d c of
        Some xs \<Rightarrow> Some (xs @ filter (\<lambda>t. cls t = c) ts)
      | None \<Rightarrow> if c \<in> cls ` set ts then Some (filter (\<lambda>t. cls t = c) ts) else None)"
proof (induction ts arbitrary: d)
  case Nil
  then show ?case by (simp split: option.splits)
next
  case (Cons t ts)
  show ?case
    by (simp add: Cons.IH map_of_dict_append split: option.splits)
qed

lemma group_fold_distinct:
  "distinct (map fst d) \<Longrightarrow> distinct (map fst (foldl (\<lambda>d t. dict_append (cls t) t d) d ts))"
proof (induction ts arbitrary: d)
  case Nil
  then show ?case by simp
next
  case (Cons t ts)
  have "distinct (map fst (dict_append (cls t) t d))"
    using Cons.prems by (simp add: keys_dict_append)
  then show ?case using Cons.IH by simp
qed

lemma group_map_of:
  "map_of (group_by_asset_class cls ts) c =
     (if c \<in> cls ` set ts then Some (filter (\<lambda>t. cls t = c) ts) else None)"
  by (simp add: group_by_asset_class_def group_fold_map_of)

lemma group_distinct: "distinct (map fst (group_by_asset_class cls ts))"
  by (simp add: group_by_asset_class_def group_fold_distinct)

lemma foldl_add_sum_list:
  "foldl (\<lambda>a t. a + f t) (a::real) ts = a + sum_list (map f ts)"
  by (induction ts arbitrary: a) simp_all

lemma grid_gross_notional_eq:
  "grid_gross_notional ac trades = sum_list (map (\<lambda>t. \<bar>im_notional t\<bar>) trades)"
  by (simp add: grid_gross_notional_def Let_def foldl_add_sum_list)

lemma map_of_map_items:
  "map_of (map (\<lambda>(k, v). (k, f k v)) d) c = map_option (f c) (map_of d c)"
  by (induction d) auto

lemma grid_margin_map_of:
  "map_of (snd (calculate_grid_margin netting_set)) asset_class =
     (if \<exists>t \<in> set (im_ns_trades netting_set). im_asset_class t = asset_class
      then Some (sum_list (map (\<lambda>t. \<bar>im_notional t\<bar>)
                   (filter (\<lambda>t. im_asset_class t = asset_class) (im_ns_trades netting_set)))
                 * GRID_THRESHOLDS asset_class Bucket_2_5)
      else None)"
  by (auto simp add: calculate_grid_margin_def Let_def map_of_map_items group_map_of
        grid_gross_notional_eq)

lemma time_point_values:
  "time_point_to_years ''1d'' = Inr (1 / 365)"
  "time_point_to_years ''1w'' = Inr (1 / 52)"
  "time_point_to_years ''2w'' = Inr (2 / 52)"
  "time_point_to_years ''3w'' = Inr (3 / 52)"
  "time_point_to_years ''1m'' = Inr (1 / 12)"
  "time_point_to_years ''2m'' = Inr (2 / 12)"
  "time_point_to_years ''3m'' = Inr (3 / 12)"
  "time_point_to_years ''6m'' = Inr (6 / 12)"
  "time_point_to_years ''9m'' = Inr (9 / 12)"
  "time_point_to_years ''1y'' = Inr 1"
  "time_point_to_years ''2y'' = Inr 2"
  "time_point_to_years ''3y'' = Inr 3"
  "time_point_to_years ''5y'' = Inr 5"
  by (simp_all add: time_point_to_years_def py_float_def digit_of_def)

lemma exposure_points_total:
  "list_all (\<lambda>tp. \<not> isl (time_point_to_years tp)) tps \<Longrightarrow>
   \<exists>ps. exposure_points rc h pfe tps = Inr ps \<and> map ep_time_point ps = tps"
proof (induction tps)
  case Nil
  then show ?case by simp
next
  case (Cons tp tps)
  then obtain y ps where y: "time_point_to_years tp = Inr y"
    and ps: "exposure_points rc h pfe tps = Inr ps" "map ep_time_point ps = tps"
    by (cases "time_point_to_years tp") auto
  then show ?case by (simp add: Let_def)
qed

lemma profile_time_points_total:
  "\<exists>tps. tps \<noteq> [] \<and> list_all (\<lambda>tp. \<not> isl (time_point_to_years tp)) tps \<and>
     (if TIME_HORIZON_YEARS time_horizon \<le> 1/12 then Inr [''1d'', ''1w'', ''2w'', ''3w'', ''1m'']
      else if TIME_HORIZON_YEARS time_horizon \<le> 3/12 then Inr [''1d'', ''1w'', ''2w'', ''1m'', ''2m'', ''3m'']
      else if TIME_HORIZON_YEARS time_horizon \<le> 1.0 then Inr [''1d'', ''1w'', ''1m'', ''3m'', ''6m'', ''9m'', ''1y'']
      else filter_time_points (TIME_HORIZON_YEARS time_horizon)
             [''1d'', ''1m'', ''3m'', ''6m'', ''1y'', ''2y'', ''3y'', ''5y'']) = Inr tps"
  by (cases time_horizon) (simp_all add: time_point_values)

lemma generate_exposure_profile_total:
  "\<exists>n>0. \<forall>netting_set pfe. \<exists>ps.
      generate_exposure_profile netting_set time_horizon pfe = Inr ps \<and> length ps = n"
proof -
  obtain tps where tps: "tps \<noteq> []"
      "list_all (\<lambda>tp. \<not> isl (time_point_to_years tp)) tps"
      "(if TIME_HORIZON_YEARS time_horizon \<le> 1/12 then Inr [''1d'', ''1w'', ''2w'', ''3w'', ''1m'']
      else if TIME_HORIZON_YEARS time_horizon \<le> 3/12 then Inr [''1d'', ''1w'', ''2w'', ''1m'', ''2m'', ''3m'']
      else if TIME_HORIZON_YEARS time_horizon \<le> 1.0 then Inr [''1d'', ''1w'', ''1m'', ''3m'', ''6m'', ''9m'', ''1y'']
      else filter_time_points (TIME_HORIZON_YEARS time_horizon)
             [''1d'', ''1m'', ''3m'', ''6m'', ''1y'', ''2y'', ''3y'', ''5y'']) = Inr tps"
    using profile_time_points_total [of time_horizon] by blast
  have "\<exists>ps. generate_exposure_profile netting_set time_horizon pfe = Inr ps \<and>
          length ps = length tps" for netting_set pfe
  proof -
    obtain ps where ps: "exposure_points (pfe_calculate_replacement_cost netting_set)
           (TIME_HORIZON_YEARS time_horizon) pfe tps = Inr ps" "map ep_time_point ps = tps"
      using exposure_points_total [OF tps(2)] by blast
    have "generate_exposure_profile netting_set time_horizon pfe = Inr ps"
      unfolding generate_exposure_profile_def Let_def tps(3) using ps(1) by simp
    then show ?thesis using ps(2) by (metis length_map)
  qed
  then show ?thesis using tps(1) by (intro exI [of _ "length tps"]) simp
qed

lemma combine_profiles_total:
  "length ps \<le> length acc \<Longrightarrow>
   \<exists>r. combine_profiles acc ps = Inr r \<and> length r = length acc"
proof (induction acc ps rule: combine_profiles.induct)
  case (3 a acc profile profiles)
  then obtain r where "combine_profiles acc profiles = Inr r" "length r = length acc"
    by auto
  then show ?case by simp
qed simp_all

lemma math_exp_value: "x \<le> 709.782712893384 \<Longrightarrow> math_exp x = Inr (exp x)"
  by (simp add: math_exp_def)

lemma math_exp_overflow: "709.782712893384 < x \<Longrightarrow> math_exp x = Inl OverflowError"
  by (simp add: math_exp_def)

lemma exp_term_bound:
  assumes "0 \<le> replacement_cost" and "0 < total_add_on"
  shows "- min 1 (replacement_cost / (2 * total_add_on)) \<le> (709.782712893384 :: real)"
proof -
  have "0 \<le> replacement_cost / (2 * total_add_on)" using assms by simp
  then have "0 \<le> min 1 (replacement_cost / (2 * total_add_on))" by simp
  then have "- min 1 (replacement_cost / (2 * total_add_on)) \<le> 0" by simp
  also have "(0 :: real) \<le> 709.782712893384" by simp
  finally show ?thesis .
qed

lemma pfe_multiplier_cases:
  "(total_add_on = 0 \<longrightarrow> pfe_multiplier replacement_cost total_add_on = Inr 1) \<and>
   (total_add_on \<noteq> 0 \<and>
    - min 1 (replacement_cost / (2 * total_add_on)) \<le> 709.782712893384 \<longrightarrow>
      pfe_multiplier replacement_cost total_add_on =
        Inr (0.05 + 0.95 * exp (- min 1 (replacement_cost / (2 * total_add_on))))) \<and>
   (total_add_on \<noteq> 0 \<and>
    709.782712893384 < - min 1 (replacement_cost / (2 * total_add_on)) \<longrightarrow>
      pfe_multiplier replacement_cost total_add_on = Inl OverflowError)"
  by (simp add: pfe_multiplier_def math_exp_def Let_def)

lemma pfe_sa_ccr_value:
  "calculate_potential_future_exposure_sa_ccr netting_set time_horizon confidence_level =
     map_sum id
       (\<lambda>multiplier.
          (multiplier * sum_list (dict_values (pfe_calculate_add_on netting_set))
             * sqrt (TIME_HORIZON_YEARS time_horizon)
             * (PFE_CONFIDENCE_LEVELS confidence_level / 1.96),
           pfe_calculate_add_on netting_set))
       (pfe_multiplier (pfe_calculate_replacement_cost netting_set)
          (sum_list (dict_values (pfe_calculate_add_on netting_set))))"
  by (simp add: calculate_potential_future_exposure_sa_ccr_def Let_def split: sum.split)

lemma pfe_sa_ccr_add_ons:
  "calculate_potential_future_exposure_sa_ccr netting_set h c = Inr (pfe, add_ons) \<Longrightarrow>
   add_ons = pfe_calculate_add_on netting_set"
  unfolding pfe_sa_ccr_value
  by (cases "pfe_multiplier (pfe_calculate_replacement_cost netting_set)
          (sum_list (dict_values (pfe_calculate_add_on netting_set)))") simp_all

lemma pfe_sa_ccr_returns:
  "pfe_multiplier (pfe_calculate_replacement_cost netting_set)
     (sum_list (dict_values (pfe_calculate_add_on netting_set))) = Inr multiplier \<Longrightarrow>
   calculate_potential_future_exposure_sa_ccr netting_set h c =
     Inr (multiplier * sum_list (dict_values (pfe_calculate_add_on netting_set))
            * sqrt (TIME_HORIZON_YEARS h) * (PFE_CONFIDENCE_LEVELS c / 1.96),
          pfe_calculate_add_on netting_set)"
  unfolding pfe_sa_ccr_value by simp

lemma pfe_sa_ccr_raises:
  "pfe_multiplier (pfe_calculate_replacement_cost netting_set)
     (sum_list (dict_values (pfe_calculate_add_on netting_set))) = Inl e \<Longrightarrow>
   calculate_potential_future_exposure_sa_ccr netting_set h c = Inl e"
  unfolding pfe_sa_ccr_value by simp

lemma pfe_by_method_total:
  "\<exists>n>0. \<forall>netting_set pfe add_ons.
      calculate_potential_future_exposure_sa_ccr netting_set h c = Inr (pfe, add_ons) \<longrightarrow>
      (\<exists>ps. pfe_by_method m netting_set h c =
         Inr (pfe * (case m of SA_CCR \<Rightarrow> 1 | INTERNAL_MODEL \<Rightarrow> 0.8 | HISTORICAL \<Rightarrow> 1.1),
              add_ons, ps) \<and> length ps = n)"
proof -
  obtain n where n: "n > 0"
    "\<And>netting_set pfe. \<exists>ps. generate_exposure_profile netting_set h pfe = Inr ps \<and> length ps = n"
    using generate_exposure_profile_total [of h] by blast
  have "\<exists>ps. pfe_by_method m netting_set h c =
         Inr (pfe * (case m of SA_CCR \<Rightarrow> 1 | INTERNAL_MODEL \<Rightarrow> 0.8 | HISTORICAL \<Rightarrow> 1.1),
              add_ons, ps) \<and> length ps = n"
    if sa: "calculate_potential_future_exposure_sa_ccr netting_set h c = Inr (pfe, add_ons)"
    for netting_set pfe add_ons
  proof (cases m)
    case SA_CCR
    obtain ps where "generate_exposure_profile netting_set h pfe = Inr ps" "length ps = n"
      using n(2) by blast
    then show ?thesis using SA_CCR sa by (simp add: pfe_by_method_def)
  next
    case INTERNAL_MODEL
    obtain ps where "generate_exposure_profile netting_set h (pfe * 0.8) = Inr ps" "length ps = n"
      using n(2) by blast
    then show ?thesis using INTERNAL_MODEL sa
      by (simp add: pfe_by_method_def calculate_potential_future_exposure_internal_model_def Let_def)
  next
    case HISTORICAL
    obtain ps where "generate_exposure_profile netting_set h (pfe * 1.1) = Inr ps" "length ps = n"
      using n(2) by blast
    then show ?thesis using HISTORICAL sa
      by (simp add: pfe_by_method_def calculate_potential_future_exposure_historical_def Let_def)
  qed
  then show ?thesis using n(1) by blast
qed

lemma pfe_by_method_raises:
  "calculate_potential_future_exposure_sa_ccr netting_set h c = Inl e \<Longrightarrow>
   pfe_by_method m netting_set h c = Inl e"
  by (cases m)
     (simp_all add: pfe_by_method_def calculate_potential_future_exposure_internal_model_def
        calculate_potential_future_exposure_historical_def)

lemma pfe_by_method_add_ons:
  assumes "pfe_by_method m netting_set h c = Inr (pfe, add_ons, ps)"
  shows "add_ons = pfe_calculate_add_on netting_set"
proof (cases "calculate_potential_future_exposure_sa_ccr netting_set h c")
  case (Inl e)
  from pfe_by_method_raises [OF this, of m] show ?thesis using assms by simp
next
  case (Inr r)
  obtain pfe0 add_ons0 where r: "r = (pfe0, add_ons0)" by (cases r)
  have sa: "calculate_potential_future_exposure_sa_ccr netting_set h c = Inr (pfe0, add_ons0)"
    using Inr r by simp
  obtain n where "\<forall>netting_set pfe add_ons.
      calculate_potential_future_exposure_sa_ccr netting_set h c = Inr (pfe, add_ons) \<longrightarrow>
      (\<exists>ps. pfe_by_method m netting_set h c =
         Inr (pfe * (case m of SA_CCR \<Rightarrow> 1 | INTERNAL_MODEL \<Rightarrow> 0.8 | HISTORICAL \<Rightarrow> 1.1),
              add_ons, ps) \<and> length ps = n)"
    using pfe_by_method_total [of h c m] by blast
  then obtain ps0 where "pfe_by_method m netting_set h c =
         Inr (pfe0 * (case m of SA_CCR \<Rightarrow> 1 | INTERNAL_MODEL \<Rightarrow> 0.8 | HISTORICAL \<Rightarrow> 1.1),
              add_ons0, ps0)"
    using sa by blast
  then have "add_ons = add_ons0" using assms by simp
  then show ?thesis using pfe_sa_ccr_add_ons [OF sa] by simp
qed

lemma pfe_netting_set_loop_total:
  "n > 0 \<Longrightarrow>
   \<forall>netting_set \<in> set nss. \<exists>pfe add_ons ps.
      pfe_by_method m netting_set h c = Inr (pfe, add_ons, ps) \<and> length ps = n \<Longrightarrow>
   pfs_exposure_profiles st = [] \<or> length (pfs_exposure_profiles st) = n \<Longrightarrow>
   \<exists>st'. pfe_netting_set_loop m h c st nss = Inr st'"
proof (induction nss arbitrary: st)
  case Nil
  then show ?case by simp
next
  case (Cons ns nss)
  obtain pfe add_ons ps where m: "pfe_by_method m ns h c = Inr (pfe, add_ons, ps)"
    "length ps = n"
    using Cons.prems(2) by auto
  obtain eps where eps: "(if pfs_exposure_profiles st = [] then Inr ps
                   else combine_profiles (pfs_exposure_profiles st) ps) = Inr eps"
     "length eps = n"
  proof (cases "pfs_exposure_profiles st = []")
    case True
    then show ?thesis using that m(2) by simp
  next
    case False
    then have "length ps \<le> length (pfs_exposure_profiles st)" using Cons.prems(3) m(2) by simp
    from combine_profiles_total [OF this] show ?thesis using that False Cons.prems(3) by auto
  qed
  obtain st1 where st1: "pfe_netting_set_step m h c st ns = Inr st1"
    "pfs_exposure_profiles st1 = eps"
    using m eps(1) by (simp add: pfe_netting_set_step_def Let_def)
  have 1: "pfs_exposure_profiles st1 = [] \<or> length (pfs_exposure_profiles st1) = n"
    using st1(2) eps(2) by simp
  have 2: "\<forall>netting_set \<in> set nss. \<exists>pfe add_ons ps.
      pfe_by_method m netting_set h c = Inr (pfe, add_ons, ps) \<and> length ps = n"
    using Cons.prems(2) by simp
  from Cons.IH [OF Cons.prems(1) 2 1] show ?case using st1(1) by simp
qed

lemma pfe_netting_set_step_add_ons:
  assumes "pfe_netting_set_step m h c st ns = Inr st1"
  shows "pfs_all_add_ons st1 =
     foldl (\<lambda>all (asset_class, add_on). dict_add asset_class add_on all)
       (pfs_all_add_ons st) (pfe_calculate_add_on ns)"
proof (cases "pfe_by_method m ns h c")
  case (Inl e)
  then show ?thesis using assms by (simp add: pfe_netting_set_step_def)
next
  case (Inr r)
  obtain pfe add_ons ps where r: "r = (pfe, add_ons, ps)" by (cases r)
  have ao: "add_ons = pfe_calculate_add_on ns"
    using pfe_by_method_add_ons [of m ns h c pfe add_ons ps] Inr r by simp
  show ?thesis
  proof (cases "if pfs_exposure_profiles st = [] then Inr ps
                else combine_profiles (pfs_exposure_profiles st) ps")
    case (Inl e)
    then show ?thesis using assms Inr r
      by (simp add: pfe_netting_set_step_def Let_def split: if_splits)
  next
    case eps: (Inr eps)
    then show ?thesis using assms Inr r ao
      by (auto simp add: pfe_netting_set_step_def Let_def split: if_splits)
  qed
qed

lemma pfe_netting_set_loop_add_ons:
  "pfe_netting_set_loop m h c st nss = Inr st' \<Longrightarrow>
   pfs_all_add_ons st' =
     foldl (\<lambda>all netting_set.
                 foldl (\<lambda>all (asset_class, add_on). dict_add asset_class add_on all) all
                   (pfe_calculate_add_on netting_set))
       (pfs_all_add_ons st) nss"
proof (induction nss arbitrary: st)
  case Nil
  then show ?case by simp
next
  case (Cons ns nss)
  obtain st1 where st1: "pfe_netting_set_step m h c st ns = Inr st1"
    "pfe_netting_set_loop m h c st1 nss = Inr st'"
    using Cons.prems by (cases "pfe_netting_set_step m h c st ns") simp_all
  show ?case
    using Cons.IH [OF st1(2)] pfe_netting_set_step_add_ons [OF st1(1)] by simp
qed

lemma sum_dict_add:
  "sum_list (map snd (dict_add k v d)) = sum_list (map snd d) + v"
  by (induction k v d rule: dict_add.induct) auto

lemma sum_merge_add_ons:
  "sum_list (map snd (foldl (\<lambda>all (asset_class, add_on). dict_add asset_class add_on all) d xs))
     = sum_list (map snd d) + sum_list (map snd xs)"
  by (induction xs arbitrary: d) (auto simp add: sum_dict_add)

lemma sum_list_percentages:
  "tot \<noteq> 0 \<Longrightarrow> sum_list (map snd d) = tot \<Longrightarrow>
   sum_list (map (\<lambda>(k, v). (v / tot) * 100) d) = (100::real)"
proof -
  assume t: "tot \<noteq> 0" and s: "sum_list (map snd d) = tot"
  have "sum_list (map (\<lambda>(k, v). (v / tot) * 100) d) = sum_list (map snd d) / tot * 100" for d :: "('a \<times> real) list"
    by (induction d) (auto simp add: add_divide_distrib distrib_right)
  then show ?thesis using t s by simp
qed

lemma values_nonneg_dict_set:
  "\<forall>x \<in> set d. 0 \<le> snd x \<Longrightarrow> (0::real) \<le> v \<Longrightarrow> \<forall>x \<in> set (dict_set k v d). 0 \<le> snd x"
  by (induction k v d rule: dict_set.induct) auto

lemma grid_margins_nonneg:
  "\<forall>x \<in> set (snd (calculate_grid_margin ns)). 0 \<le> snd x"
proof -
  have "0 \<le> GRID_THRESHOLDS ac Bucket_2_5" for ac by (cases ac) simp_all
  moreover have "0 \<le> grid_gross_notional ac ts" for ac ts
    by (auto simp add: grid_gross_notional_eq intro!: sum_list_nonneg)
  ultimately show ?thesis
    by (auto simp add: calculate_grid_margin_def Let_def)
qed

lemma simm_weights_nonneg: "0 \<le> SIMM_RISK_WEIGHTS ac k"
  by (cases ac; cases k) simp_all

lemma simm_class_step_nonneg:
  assumes "\<forall>x \<in> set (fst st). 0 \<le> snd x"
  shows "\<forall>x \<in> set (fst (simm_class_step st item)). 0 \<le> snd x"
proof -
  obtain margins td tv tc where st: "st = (margins, td, tv, tc)" by (cases st) auto
  obtain ac trades where item: "item = (ac, trades)" by (cases item)
  obtain ds vs cs where sums: "simm_sums trades = (ds, vs, cs)" by (cases "simm_sums trades") auto
  have m: "0 \<le> \<bar>ds\<bar> * SIMM_RISK_WEIGHTS ac Delta + \<bar>vs\<bar> * SIMM_RISK_WEIGHTS ac Vega
             + \<bar>cs\<bar> * SIMM_RISK_WEIGHTS ac Curvature"
    by (intro add_nonneg_nonneg mult_nonneg_nonneg simm_weights_nonneg) simp_all
  have "\<forall>x \<in> set margins. 0 \<le> snd x" using assms st by simp
  from values_nonneg_dict_set [OF this m]
  show ?thesis using st item sums by (simp add: simm_class_step_def Let_def)
qed

lemma simm_fold_nonneg:
  "\<forall>x \<in> set (fst st). 0 \<le> snd x \<Longrightarrow>
   \<forall>x \<in> set (fst (foldl simm_class_step st items)). 0 \<le> snd x"
proof (induction items arbitrary: st)
  case Nil
  then show ?case by simp
next
  case (Cons item items)
  from simm_class_step_nonneg [OF Cons.prems, of item] Cons.IH show ?case by simp
qed

lemma simm_margins_nonneg:
  "\<forall>x \<in> set (fst (snd (calculate_simm_margin ns))). 0 \<le> snd x"
proof -
  have "\<forall>x \<in> set (fst (foldl simm_class_step ([], 0, 0, 0)
           (group_by_asset_class im_asset_class (im_ns_trades ns)))). 0 \<le> snd x"
    by (rule simm_fold_nonneg) simp
  then show ?thesis
    by (auto simp add: calculate_simm_margin_def Let_def split: prod.splits)
qed

lemma grid_total: "fst (calculate_grid_margin ns) = sum_list (map snd (snd (calculate_grid_margin ns)))"
  by (simp add: calculate_grid_margin_def Let_def dict_values_def)

lemma simm_total:
  "fst (calculate_simm_margin ns) = sum_list (map snd (fst (snd (calculate_simm_margin ns))))"
  by (simp add: calculate_simm_margin_def Let_def dict_values_def split: prod.splits)

lemma im_accumulate_fields:
  "ims_total_margin (im_accumulate st ns m ms) = ims_total_margin st + m"
  "ims_all_margins (im_accumulate st ns m ms) =
     foldl (\<lambda>all (asset_class, asset_margin). dict_add asset_class asset_margin all)
       (ims_all_margins st) ms"
  by (simp_all add: im_accumulate_def)

lemma im_step_fields:
  "\<exists>margins. (\<forall>x \<in> set margins. 0 \<le> snd x) \<and>
     ims_total_margin (im_netting_set_step calculation_method st ns) =
       ims_total_margin st + sum_list (map snd margins) \<and>
     ims_all_margins (im_netting_set_step calculation_method st ns) =
       foldl (\<lambda>all (asset_class, asset_margin). dict_add asset_class asset_margin all)
         (ims_all_margins st) margins"
proof (cases calculation_method)
  case GRID
  obtain margin margins where g: "calculate_grid_margin ns = (margin, margins)"
    by (cases "calculate_grid_margin ns")
  have 1: "margin = sum_list (map snd margins)" using grid_total [of ns] g by simp
  have 2: "\<forall>x \<in> set margins. 0 \<le> snd x" using grid_margins_nonneg [of ns] g by simp
  have "im_netting_set_step calculation_method st ns = im_accumulate st ns margin margins"
    using GRID g by (simp add: im_netting_set_step_def)
  then show ?thesis using 1 2 by (intro exI [of _ margins]) (simp add: im_accumulate_fields)
next
  case SIMM
  obtain margin margins sens where g: "calculate_simm_margin ns = (margin, margins, sens)"
    by (cases "calculate_simm_margin ns")
  have 1: "margin = sum_list (map snd margins)" using simm_total [of ns] g by simp
  have 2: "\<forall>x \<in> set margins. 0 \<le> snd x" using simm_margins_nonneg [of ns] g by simp
  have "ims_total_margin (im_netting_set_step calculation_method st ns) = ims_total_margin st + margin"
    "ims_all_margins (im_netting_set_step calculation_method st ns) =
       foldl (\<lambda>all (asset_class, asset_margin). dict_add asset_class asset_margin all)
         (ims_all_margins st) margins"
    using SIMM g by (simp_all add: im_netting_set_step_def Let_def im_accumulate_fields)
  then show ?thesis using 1 2 by (intro exI [of _ margins]) simp
qed

lemma im_step_invariant:
  assumes "ims_total_margin st = sum_list (map snd (ims_all_margins st)) \<and> 0 \<le> ims_total_margin st"
  shows "ims_total_margin (im_netting_set_step calculation_method st ns) =
           sum_list (map snd (ims_all_margins (im_netting_set_step calculation_method st ns)))
         \<and> 0 \<le> ims_total_margin (im_netting_set_step calculation_method st ns)"
proof -
  obtain margins where m: "\<forall>x \<in> set margins. 0 \<le> snd x"
     "ims_total_margin (im_netting_set_step calculation_method st ns) =
       ims_total_margin st + sum_list (map snd margins)"
     "ims_all_margins (im_netting_set_step calculation_method st ns) =
       foldl (\<lambda>all (asset_class, asset_margin). dict_add asset_class asset_margin all)
         (ims_all_margins st) margins"
    using im_step_fields [of calculation_method st ns] by blast
  have "0 \<le> sum_list (map snd margins)" using m(1) by (auto intro!: sum_list_nonneg)
  then show ?thesis using assms unfolding m(2) m(3) sum_merge_add_ons by simp
qed

lemma im_loop_invariant:
  "ims_total_margin st = sum_list (map snd (ims_all_margins st)) \<and> 0 \<le> ims_total_margin st \<Longrightarrow>
   ims_total_margin (foldl (im_netting_set_step calculation_method) st nss) =
           sum_list (map snd (ims_all_margins (foldl (im_netting_set_step calculation_method) st nss)))
         \<and> 0 \<le> ims_total_margin (foldl (im_netting_set_step calculation_method) st nss)"
proof (induction nss arbitrary: st)
  case Nil
  then show ?case by simp
next
  case (Cons ns nss)
  have "ims_total_margin (im_netting_set_step calculation_method st ns) =
           sum_list (map snd (ims_all_margins (im_netting_set_step calculation_method st ns)))
         \<and> 0 \<le> ims_total_margin (im_netting_set_step calculation_method st ns)"
    using im_step_invariant [OF Cons.prems] .
  from Cons.IH [OF this] show ?case by simp
qed

lemma percentages_of_dict:
  fixes d :: "('k \<times> real) list"
  assumes "sum_list (map snd d) = tot"
  shows "(0 < tot \<longrightarrow> sum_list (map (\<lambda>(k, v). if tot > 0 then (v / tot) * 100 else 0.0) d) = 100) \<and>
         (\<not> 0 < tot \<longrightarrow> (\<forall>p \<in> set (map (\<lambda>(k, v). if tot > 0 then (v / tot) * 100 else 0.0) d). p = 0))"
proof (intro conjI impI)
  assume pos: "0 < tot"
  then have "map (\<lambda>(k, v). if tot > 0 then (v / tot) * 100 else 0.0) d = map (\<lambda>(k, v). (v / tot) * 100) d"
    by simp
  then show "sum_list (map (\<lambda>(k, v). if tot > 0 then (v / tot) * 100 else 0.0) d) = 100"
    using sum_list_percentages [of tot d] pos assms by simp
next
  assume "\<not> 0 < tot"
  then show "\<forall>p \<in> set (map (\<lambda>(k, v). if tot > 0 then (v / tot) * 100 else 0.0) d). p = 0"
    by auto
qed

lemma im_breakdown_percentages:
  "(imr_total_margin (calculate_initial_margin calculation_method netting_sets) \<noteq> 0 \<longrightarrow>
      sum_list (map imb_percentage
        (imr_asset_class_breakdown (calculate_initial_margin calculation_method netting_sets))) = 100) \<and>
   (imr_total_margin (calculate_initial_margin calculation_method netting_sets) = 0 \<longrightarrow>
      (\<forall>b \<in> set (imr_asset_class_breakdown (calculate_initial_margin calculation_method netting_sets)).
         imb_percentage b = 0))"
proof -
  define st where "st = foldl (im_netting_set_step calculation_method)
                 \<lparr>ims_total_margin = 0, ims_all_margins = [], ims_netting_set_results = [],
                  ims_sensitivity_breakdown = None\<rparr> netting_sets"
  have inv: "ims_total_margin st = sum_list (map snd (ims_all_margins st)) \<and> 0 \<le> ims_total_margin st"
    unfolding st_def by (rule im_loop_invariant) simp
  have pct: "map imb_percentage (imr_asset_class_breakdown (calculate_initial_margin calculation_method netting_sets))
     = map (\<lambda>(k, v). if ims_total_margin st > 0 then (v / ims_total_margin st) * 100 else 0.0) (ims_all_margins st)"
    unfolding calculate_initial_margin_def Let_def st_def [symmetric]
    by (simp add: case_prod_unfold comp_def im_percentage_def)
  have tot: "imr_total_margin (calculate_initial_margin calculation_method netting_sets) = ims_total_margin st"
    unfolding calculate_initial_margin_def Let_def st_def [symmetric] by simp
  have p: "(0 < ims_total_margin st \<longrightarrow>
        sum_list (map imb_percentage (imr_asset_class_breakdown (calculate_initial_margin calculation_method netting_sets))) = 100) \<and>
      (\<not> 0 < ims_total_margin st \<longrightarrow>
        (\<forall>p \<in> set (map imb_percentage (imr_asset_class_breakdown (calculate_initial_margin calculation_method netting_sets))). p = 0))"
    unfolding pct by (rule percentages_of_dict) (simp add: inv)
  show ?thesis unfolding tot using p inv by auto
qed

section \<open>Numerical enclosures for the pricer\<close>

subsection \<open>Alternating series\<close>

lemma tendsto_zero_by_inverse:
  fixes a :: "nat \<Rightarrow> real"
  assumes "\<And>n. 0 \<le> a n" "\<And>n. a n \<le> inverse (real (Suc n))"
  shows "a \<longlonglongrightarrow> 0"
proof (rule tendsto_sandwich [where f = "\<lambda>n. 0" and h = "\<lambda>n. inverse (real (Suc n))"])
  show "\<forall>\<^sub>F n in sequentially. 0 \<le> a n" using assms(1) by simp
  show "\<forall>\<^sub>F n in sequentially. a n \<le> inverse (real (Suc n))" using assms(2) by simp
  show "(\<lambda>n. 0::real) \<longlonglongrightarrow> 0" by simp
  show "(\<lambda>n. inverse (real (Suc n))) \<longlonglongrightarrow> 0" by (rule LIMSEQ_inverse_real_of_nat)
qed

text \<open>arctan\<close>

lemma arctan_term_nonneg: "0 \<le> x \<Longrightarrow> 0 \<le> 1 / real (n * 2 + 1) * x ^ (n * 2 + 1)" for x :: real
  by simp

lemma arctan_term_mono:
  fixes x :: real
  assumes "0 \<le> x" "x \<le> 1"
  shows "1 / real (Suc n * 2 + 1) * x ^ (Suc n * 2 + 1) \<le> 1 / real (n * 2 + 1) * x ^ (n * 2 + 1)"
proof (rule mult_mono)
  show "1 / real (Suc n * 2 + 1) \<le> 1 / real (n * 2 + 1)"
    by (intro divide_left_mono) simp_all
  show "x ^ (Suc n * 2 + 1) \<le> x ^ (n * 2 + 1)"
    using assms by (intro power_decreasing) simp_all
  show "0 \<le> 1 / real (n * 2 + 1)" by simp
  show "0 \<le> x ^ (Suc n * 2 + 1)" using assms by simp
qed

lemma arctan_bounds:
  fixes x :: real
  assumes "0 \<le> x" "x \<le> 1"
  shows "(\<Sum>i<2*n. (- 1) ^ i * (1 / real (i * 2 + 1) * x ^ (i * 2 + 1))) \<le> arctan x"
    and "arctan x \<le> (\<Sum>i<2*n+1. (- 1) ^ i * (1 / real (i * 2 + 1) * x ^ (i * 2 + 1)))"
proof -
  let ?a = "\<lambda>n. 1 / real (n * 2 + 1) * x ^ (n * 2 + 1)"
  have z: "?a \<longlonglongrightarrow> 0" using zeroseq_arctan_series [of x] assms by simp
  have nn: "\<And>n. 0 \<le> ?a n" using assms by simp
  have mono: "\<And>n. ?a (Suc n) \<le> ?a n" using arctan_term_mono [OF assms] .
  have eq: "arctan x = (\<Sum>k. (- 1) ^ k * ?a k)" using arctan_series [of x] assms by simp
  show "(\<Sum>i<2*n. (- 1) ^ i * ?a i) \<le> arctan x"
    unfolding eq by (rule summable_Leibniz'(2) [OF z nn mono])
  show "arctan x \<le> (\<Sum>i<2*n+1. (- 1) ^ i * ?a i)"
    unfolding eq by (rule summable_Leibniz'(4) [OF z nn mono])
qed

lemma arctan_fifth_bounds:
  "(19739550476 / 100000000000 :: real) \<le> arctan (1 / 5)"
  "arctan (1 / 5) \<le> (19739556166 / 100000000000 :: real)"
proof -
  have "(\<Sum>i<2*2. (- 1) ^ i * (1 / real (i * 2 + 1) * (1 / 5 :: real) ^ (i * 2 + 1))) \<le> arctan (1 / 5)"
    by (rule arctan_bounds) simp_all
  then show "(19739550476 / 100000000000 :: real) \<le> arctan (1 / 5)"
    by (simp add: eval_nat_numeral)
  have "arctan (1 / 5) \<le> (\<Sum>i<2*2+1. (- 1) ^ i * (1 / real (i * 2 + 1) * (1 / 5 :: real) ^ (i * 2 + 1)))"
    by (rule arctan_bounds) simp_all
  then show "arctan (1 / 5) \<le> (19739556166 / 100000000000 :: real)"
    by (simp add: eval_nat_numeral)
qed

lemma arctan_239_bounds:
  "(418407 / 100000000 :: real) \<le> arctan (1 / 239)"
  "arctan (1 / 239) \<le> (1 / 239 :: real)"
proof -
  have "(\<Sum>i<2*1. (- 1) ^ i * (1 / real (i * 2 + 1) * (1 / 239 :: real) ^ (i * 2 + 1))) \<le> arctan (1 / 239)"
    by (rule arctan_bounds) simp_all
  then show "(418407 / 100000000 :: real) \<le> arctan (1 / 239)"
    by (simp add: eval_nat_numeral)
  have "arctan (1 / 239) \<le> (\<Sum>i<2*0+1. (- 1) ^ i * (1 / real (i * 2 + 1) * (1 / 239 :: real) ^ (i * 2 + 1)))"
    by (rule arctan_bounds) simp_all
  then show "arctan (1 / 239) \<le> (1 / 239 :: real)"
    by simp
qed

lemma pi_bounds: "(3.14159 :: real) \<le> pi" "pi \<le> (3.1416 :: real)"
proof -
  have m: "pi = 16 * arctan (1 / 5) - 4 * arctan (1 / 239)"
    using machin by simp
  show "(3.14159 :: real) \<le> pi"
    unfolding m using arctan_fifth_bounds(1) arctan_239_bounds(2) by simp
  show "pi \<le> (3.1416 :: real)"
    unfolding m using arctan_fifth_bounds(2) arctan_239_bounds(1) by simp
qed

lemma sqrt_two_pi_bounds: "(2.50662 :: real) \<le> sqrt (2 * pi)" "sqrt (2 * pi) \<le> (2.50664 :: real)"
proof -
  have "(2.50662 :: real)\<^sup>2 \<le> 2 * pi" using pi_bounds(1) by (simp add: power2_eq_square)
  then show "(2.50662 :: real) \<le> sqrt (2 * pi)" by (rule real_le_rsqrt)
  have "2 * pi \<le> (2.50664 :: real)\<^sup>2" using pi_bounds(2) by (simp add: power2_eq_square)
  then show "sqrt (2 * pi) \<le> (2.50664 :: real)" by (intro real_le_lsqrt) simp_all
qed

lemma norm_cdf_term_nonneg: "0 \<le> x \<Longrightarrow> 0 \<le> norm_cdf_term x n"
  by (simp add: norm_cdf_term_def)

lemma norm_cdf_term_mono:
  assumes "0 \<le> x" "x \<le> 1"
  shows "norm_cdf_term x (Suc n) \<le> norm_cdf_term x n"
proof -
  have p: "x ^ (2 * Suc n + 1) \<le> x ^ (2 * n + 1)"
    using assms by (intro power_decreasing) simp_all
  have d: "fact n * 2 ^ n * real (2 * n + 1) \<le> fact (Suc n) * 2 ^ Suc n * real (2 * Suc n + 1)"
    by (intro mult_mono) (simp_all add: fact_mono)
  have pos: "0 < fact n * 2 ^ n * real (2 * n + 1)" by simp
  show ?thesis unfolding norm_cdf_term_def
    using p d pos assms by (intro frac_le) simp_all
qed

lemma norm_cdf_term_le_inverse:
  assumes "0 \<le> x" "x \<le> 1"
  shows "norm_cdf_term x n \<le> inverse (real (Suc n))"
proof -
  have p: "x ^ (2 * n + 1) \<le> 1" using assms by (intro power_le_one) simp_all
  have d: "real (Suc n) \<le> fact n * 2 ^ n * real (2 * n + 1)"
  proof -
    have "real (Suc n) \<le> 1 * 1 * real (2 * n + 1)" by simp
    also have "\<dots> \<le> fact n * 2 ^ n * real (2 * n + 1)"
      by (intro mult_mono) (simp_all add: fact_ge_1)
    finally show ?thesis .
  qed
  have "norm_cdf_term x n \<le> 1 / real (Suc n)"
    unfolding norm_cdf_term_def using p d by (intro frac_le) simp_all
  then show ?thesis by (simp add: inverse_eq_divide)
qed

lemma norm_cdf_series_bounds:
  assumes "0 \<le> x" "x \<le> 1"
  shows "(\<Sum>i<2*n. (- 1) ^ i * norm_cdf_term x i) \<le> (\<Sum>i. (- 1) ^ i * norm_cdf_term x i)"
    and "(\<Sum>i. (- 1) ^ i * norm_cdf_term x i) \<le> (\<Sum>i<2*n+1. (- 1) ^ i * norm_cdf_term x i)"
proof -
  have z: "norm_cdf_term x \<longlonglongrightarrow> 0"
  proof (rule tendsto_zero_by_inverse)
    show "0 \<le> norm_cdf_term x n" for n using assms by (simp add: norm_cdf_term_nonneg)
    show "norm_cdf_term x n \<le> inverse (real (Suc n))" for n
      using norm_cdf_term_le_inverse [OF assms] .
  qed
  have nn: "\<And>n. 0 \<le> norm_cdf_term x n" using assms by (simp add: norm_cdf_term_nonneg)
  have mono: "\<And>n. norm_cdf_term x (Suc n) \<le> norm_cdf_term x n"
    using norm_cdf_term_mono [OF assms] .
  show "(\<Sum>i<2*n. (- 1) ^ i * norm_cdf_term x i) \<le> (\<Sum>i. (- 1) ^ i * norm_cdf_term x i)"
    by (rule summable_Leibniz'(2) [OF z nn mono])
  show "(\<Sum>i. (- 1) ^ i * norm_cdf_term x i) \<le> (\<Sum>i<2*n+1. (- 1) ^ i * norm_cdf_term x i)"
    by (rule summable_Leibniz'(4) [OF z nn mono])
qed

lemma norm_cdf_series_035:
  "(0.342983 :: real) \<le> (\<Sum>i. (- 1) ^ i * norm_cdf_term 0.35 i)"
  "(\<Sum>i. (- 1) ^ i * norm_cdf_term 0.35 i) \<le> (0.342986 :: real)"
proof -
  have "(\<Sum>i<2*2. (- 1) ^ i * norm_cdf_term 0.35 i) \<le> (\<Sum>i. (- 1) ^ i * norm_cdf_term 0.35 i)"
    by (rule norm_cdf_series_bounds) simp_all
  moreover have "(0.342983 :: real) \<le> (\<Sum>i<2*2. (- 1) ^ i * norm_cdf_term 0.35 i)"
    by (simp add: norm_cdf_term_def eval_nat_numeral)
  ultimately show "(0.342983 :: real) \<le> (\<Sum>i. (- 1) ^ i * norm_cdf_term 0.35 i)" by linarith
  have "(\<Sum>i. (- 1) ^ i * norm_cdf_term 0.35 i) \<le> (\<Sum>i<2*1+1. (- 1) ^ i * norm_cdf_term 0.35 i)"
    by (rule norm_cdf_series_bounds) simp_all
  moreover have "(\<Sum>i<2*1+1. (- 1) ^ i * norm_cdf_term 0.35 i) \<le> (0.342986 :: real)"
    by (simp add: norm_cdf_term_def eval_nat_numeral)
  ultimately show "(\<Sum>i. (- 1) ^ i * norm_cdf_term 0.35 i) \<le> (0.342986 :: real)" by linarith
qed

lemma norm_cdf_series_015:
  "(0.149437 :: real) \<le> (\<Sum>i. (- 1) ^ i * norm_cdf_term 0.15 i)"
  "(\<Sum>i. (- 1) ^ i * norm_cdf_term 0.15 i) \<le> (0.14944 :: real)"
proof -
  have "(\<Sum>i<2*1. (- 1) ^ i * norm_cdf_term 0.15 i) \<le> (\<Sum>i. (- 1) ^ i * norm_cdf_term 0.15 i)"
    by (rule norm_cdf_series_bounds) simp_all
  moreover have "(0.149437 :: real) \<le> (\<Sum>i<2*1. (- 1) ^ i * norm_cdf_term 0.15 i)"
    by (simp add: norm_cdf_term_def eval_nat_numeral)
  ultimately show "(0.149437 :: real) \<le> (\<Sum>i. (- 1) ^ i * norm_cdf_term 0.15 i)" by linarith
  have "(\<Sum>i. (- 1) ^ i * norm_cdf_term 0.15 i) \<le> (\<Sum>i<2*1+1. (- 1) ^ i * norm_cdf_term 0.15 i)"
    by (rule norm_cdf_series_bounds) simp_all
  moreover have "(\<Sum>i<2*1+1. (- 1) ^ i * norm_cdf_term 0.15 i) \<le> (0.14944 :: real)"
    by (simp add: norm_cdf_term_def eval_nat_numeral)
  ultimately show "(\<Sum>i. (- 1) ^ i * norm_cdf_term 0.15 i) \<le> (0.14944 :: real)" by linarith
qed

text \<open>For a positive series value s in [lo, hi], 1/2 + s / sqrt(2 pi) lies between
  1/2 + lo / 2.50664 and 1/2 + hi / 2.50662.\<close>

lemma norm_cdf_enclosure:
  assumes "0 \<le> lo" "lo \<le> (\<Sum>i. (- 1) ^ i * norm_cdf_term x i)"
    "(\<Sum>i. (- 1) ^ i * norm_cdf_term x i) \<le> hi"
  shows "1 / 2 + lo / 2.50664 \<le> norm_cdf x" "norm_cdf x \<le> 1 / 2 + hi / 2.50662"
proof -
  let ?s = "(\<Sum>i. (- 1) ^ i * norm_cdf_term x i)"
  have s0: "0 \<le> ?s" using assms by linarith
  have "lo / 2.50664 \<le> ?s / sqrt (2 * pi)"
    using assms sqrt_two_pi_bounds by (intro frac_le) simp_all
  then show "1 / 2 + lo / 2.50664 \<le> norm_cdf x" by (simp add: norm_cdf_def)
  have "?s / sqrt (2 * pi) \<le> hi / 2.50662"
    using assms s0 sqrt_two_pi_bounds by (intro frac_le) simp_all
  then show "norm_cdf x \<le> 1 / 2 + hi / 2.50662" by (simp add: norm_cdf_def)
qed

lemma norm_cdf_035: "(0.63682 :: real) \<le> norm_cdf 0.35" "norm_cdf 0.35 \<le> (0.63684 :: real)"
proof -
  have "1 / 2 + 0.342983 / 2.50664 \<le> norm_cdf 0.35"
    by (rule norm_cdf_enclosure(1) [OF _ norm_cdf_series_035]) simp
  then show "(0.63682 :: real) \<le> norm_cdf 0.35" by simp
  have "norm_cdf 0.35 \<le> 1 / 2 + 0.342986 / 2.50662"
    by (rule norm_cdf_enclosure(2) [OF _ norm_cdf_series_035]) simp
  then show "norm_cdf 0.35 \<le> (0.63684 :: real)" by simp
qed

lemma norm_cdf_015: "(0.55961 :: real) \<le> norm_cdf 0.15" "norm_cdf 0.15 \<le> (0.55962 :: real)"
proof -
  have "1 / 2 + 0.149437 / 2.50664 \<le> norm_cdf 0.15"
    by (rule norm_cdf_enclosure(1) [OF _ norm_cdf_series_015]) simp
  then show "(0.55961 :: real) \<le> norm_cdf 0.15" by simp
  have "norm_cdf 0.15 \<le> 1 / 2 + 0.14944 / 2.50662"
    by (rule norm_cdf_enclosure(2) [OF _ norm_cdf_series_015]) simp
  then show "norm_cdf 0.15 \<le> (0.55962 :: real)" by simp
qed

subsection \<open>exp (-x)\<close>

lemma exp_minus_bounds:
  fixes x :: real
  assumes "0 \<le> x" "x \<le> 1"
  shows "(\<Sum>i<2*n. (- 1) ^ i * (x ^ i / fact i)) \<le> exp (- x)"
    and "exp (- x) \<le> (\<Sum>i<2*n+1. (- 1) ^ i * (x ^ i / fact i))"
proof -
  let ?a = "\<lambda>n. x ^ n / fact n"
  have nn: "\<And>n. 0 \<le> ?a n" using assms by simp
  have mono: "?a (Suc n) \<le> ?a n" for n
  proof -
    have "x ^ Suc n \<le> x ^ n" using assms by (intro power_decreasing) simp_all
    moreover have "(fact n :: real) \<le> fact (Suc n)" by (intro fact_mono) simp
    ultimately show ?thesis using assms by (intro frac_le) simp_all
  qed
  have "summable (\<lambda>n. x ^ n /\<^sub>R fact n)" by (rule summable_exp_generic)
  then have "(\<lambda>n. x ^ n /\<^sub>R fact n) \<longlonglongrightarrow> 0" by (rule summable_LIMSEQ_zero)
  moreover have "(\<lambda>n. x ^ n /\<^sub>R fact n) = ?a"
    by (rule ext) (simp add: divide_inverse mult.commute)
  ultimately have z: "?a \<longlonglongrightarrow> 0" by simp
  have "(\<lambda>n. (- x) ^ n /\<^sub>R fact n) sums exp (- x)" by (rule exp_converges)
  moreover have "(\<lambda>n. (- x) ^ n /\<^sub>R fact n) = (\<lambda>n. (- 1) ^ n * ?a n)"
    by (rule ext) (simp add: power_minus [of x] divide_inverse mult.commute mult.left_commute)
  ultimately have "(\<lambda>n. (- 1) ^ n * ?a n) sums exp (- x)" by simp
  then have eq: "exp (- x) = (\<Sum>n. (- 1) ^ n * ?a n)" by (simp add: sums_unique)
  show "(\<Sum>i<2*n. (- 1) ^ i * ?a i) \<le> exp (- x)"
    unfolding eq by (rule summable_Leibniz'(2) [OF z nn mono])
  show "exp (- x) \<le> (\<Sum>i<2*n+1. (- 1) ^ i * ?a i)"
    unfolding eq by (rule summable_Leibniz'(4) [OF z nn mono])
qed

lemma exp_minus_005: "(0.951229 :: real) \<le> exp (- 0.05)" "exp (- 0.05) \<le> (0.95123 :: real)"
proof -
  have "(\<Sum>i<2*2. (- 1) ^ i * ((0.05::real) ^ i / fact i)) \<le> exp (- 0.05)"
    by (rule exp_minus_bounds) simp_all
  moreover have "(0.951229 :: real) \<le> (\<Sum>i<2*2. (- 1) ^ i * ((0.05::real) ^ i / fact i))"
    by (simp add: eval_nat_numeral)
  ultimately show "(0.951229 :: real) \<le> exp (- 0.05)" by linarith
  have "exp (- 0.05) \<le> (\<Sum>i<2*2+1. (- 1) ^ i * ((0.05::real) ^ i / fact i))"
    by (rule exp_minus_bounds) simp_all
  moreover have "(\<Sum>i<2*2+1. (- 1) ^ i * ((0.05::real) ^ i / fact i)) \<le> (0.95123 :: real)"
    by (simp add: eval_nat_numeral)
  ultimately show "exp (- 0.05) \<le> (0.95123 :: real)" by linarith
qed

lemma black_scholes_example_price:
  "\<bar>100 * norm_cdf 0.35 - 100 * exp (- 0.05) * norm_cdf 0.15 - 10.45\<bar> < (0.005 :: real)"
proof -
  define p where "p = exp (- 0.05) * norm_cdf 0.15"
  have lo: "(0.951229 :: real) * 0.55961 \<le> p"
    unfolding p_def using exp_minus_005(1) norm_cdf_015(1) by (intro mult_mono) simp_all
  have hi: "p \<le> (0.95123 :: real) * 0.55962"
    unfolding p_def using exp_minus_005 norm_cdf_015 by (intro mult_mono) simp_all
  have eq: "100 * exp (- 0.05) * norm_cdf 0.15 = 100 * p" by (simp add: p_def)
  define q where "q = 100 * norm_cdf 0.35 - 100 * p"
  have "10.445 < q" unfolding q_def using norm_cdf_035(1) hi by simp
  moreover have "q < 10.455" unfolding q_def using norm_cdf_035(2) lo by simp
  ultimately have "\<bar>q - 10.45\<bar> < 0.005" unfolding abs_less_iff by simp
  then show ?thesis unfolding eq q_def .
qed

lemma black_scholes_example_delta: "\<bar>norm_cdf 0.35 - 0.637\<bar> < (0.0005 :: real)"
  unfolding abs_less_iff using norm_cdf_035 by simp

lemma sqrt_quarter: "sqrt (1 / 4) = 1 / 2"
proof -
  have "sqrt ((1 / 2)\<^sup>2) = (1 / 2 :: real)" by (rule real_sqrt_unique) simp_all
  then show ?thesis by (simp add: power2_eq_square)
qed

lemma pfe_adjusted_values:
  assumes sa: "calculate_potential_future_exposure_sa_ccr netting_set time_horizon confidence_level
                 = Inr (pfe, add_ons)"
  shows "map_sum id fst
           (calculate_potential_future_exposure_internal_model netting_set time_horizon
              confidence_level) = Inr (pfe * 0.8)"
    and "map_sum id fst
           (calculate_potential_future_exposure_historical netting_set time_horizon
              confidence_level) = Inr (pfe * 1.1)"
proof -
  obtain ps where "generate_exposure_profile netting_set time_horizon (pfe * 0.8) = Inr ps"
    using generate_exposure_profile_total [of time_horizon] by blast
  then show "map_sum id fst
           (calculate_potential_future_exposure_internal_model netting_set time_horizon
              confidence_level) = Inr (pfe * 0.8)"
    using sa by (simp add: calculate_potential_future_exposure_internal_model_def Let_def)
  obtain qs where "generate_exposure_profile netting_set time_horizon (pfe * 1.1) = Inr qs"
    using generate_exposure_profile_total [of time_horizon] by blast
  then show "map_sum id fst
           (calculate_potential_future_exposure_historical netting_set time_horizon
              confidence_level) = Inr (pfe * 1.1)"
    using sa by (simp add: calculate_potential_future_exposure_historical_def Let_def)
qed

lemma pfe_example_add_on:
  "pfe_calculate_add_on pfe_example_netting_set = [(INTEREST_RATE, 5000)]"
  by (simp add: pfe_calculate_add_on_def pfe_example_netting_set_def pfe_example_trade_def
        group_by_asset_class_def pfe_effective_notional_def pfe_calculate_supervisory_delta_def
        pfe_calculate_maturity_factor_def Let_def)

lemma pfe_example_replacement_cost:
  "pfe_calculate_replacement_cost pfe_example_netting_set = 0"
  by (simp add: pfe_calculate_replacement_cost_def pfe_example_netting_set_def
        pfe_example_trade_def calculate_collateral_value_def Let_def)

lemma pfe_example_multiplier:
  "pfe_multiplier (pfe_calculate_replacement_cost pfe_example_netting_set)
     (sum_list (dict_values (pfe_calculate_add_on pfe_example_netting_set))) = Inr 1"
  by (simp add: pfe_example_add_on pfe_example_replacement_cost dict_values_def
        pfe_multiplier_def math_exp_def Let_def)

lemma pfe_example_total:
  "sum_list (dict_values (pfe_calculate_add_on pfe_example_netting_set)) = 5000"
  by (simp add: pfe_example_add_on dict_values_def)

lemma pfe_example_sa_ccr:
  "calculate_potential_future_exposure_sa_ccr pfe_example_netting_set THREE_MONTH CL_99 =
     Inr (5000 * (1 / 2) * (2.326 / 1.96), [(INTEREST_RATE, 5000)])"
  using pfe_sa_ccr_returns [OF pfe_example_multiplier, of THREE_MONTH CL_99]
  by (simp add: pfe_example_add_on dict_values_def sqrt_quarter)

lemma pfe_example_internal_model:
  "map_sum id fst
     (calculate_potential_future_exposure_internal_model pfe_example_netting_set THREE_MONTH CL_99)
   = Inr (5000 * (1 / 2) * (2.326 / 1.96) * 0.8)"
  by (rule pfe_adjusted_values(1) [OF pfe_example_sa_ccr])

lemma calculate_pfe_total:
  assumes "\<forall>netting_set \<in> set (pfi_netting_sets input_data).
             \<not> isl (pfe_multiplier (pfe_calculate_replacement_cost netting_set)
                      (sum_list (dict_values (pfe_calculate_add_on netting_set))))"
  shows "\<not> isl (calculate_pfe input_data)"
proof -
  let ?m = "pfi_calculation_method input_data"
  let ?h = "pfi_time_horizon input_data"
  let ?c = "pfi_confidence_level input_data"
  let ?st0 = "\<lparr>pfs_total_pfe = 0, pfs_total_expected_exposure = 0, pfs_all_add_ons = [],
              pfs_netting_set_results = [], pfs_exposure_profiles = []\<rparr>"
  obtain n where n: "n > 0"
    "\<And>netting_set pfe add_ons.
      calculate_potential_future_exposure_sa_ccr netting_set ?h ?c = Inr (pfe, add_ons) \<Longrightarrow>
      \<exists>ps. pfe_by_method ?m netting_set ?h ?c =
         Inr (pfe * (case ?m of SA_CCR \<Rightarrow> 1 | INTERNAL_MODEL \<Rightarrow> 0.8 | HISTORICAL \<Rightarrow> 1.1),
              add_ons, ps) \<and> length ps = n"
    using pfe_by_method_total [of ?h ?c ?m] by blast
  have all: "\<forall>netting_set \<in> set (pfi_netting_sets input_data). \<exists>pfe add_ons ps.
      pfe_by_method ?m netting_set ?h ?c = Inr (pfe, add_ons, ps) \<and> length ps = n"
  proof
    fix netting_set assume "netting_set \<in> set (pfi_netting_sets input_data)"
    with assms have "\<not> isl (pfe_multiplier (pfe_calculate_replacement_cost netting_set)
                      (sum_list (dict_values (pfe_calculate_add_on netting_set))))"
      by blast
    then obtain multiplier where
      "pfe_multiplier (pfe_calculate_replacement_cost netting_set)
         (sum_list (dict_values (pfe_calculate_add_on netting_set))) = Inr multiplier"
      by (cases "pfe_multiplier (pfe_calculate_replacement_cost netting_set)
         (sum_list (dict_values (pfe_calculate_add_on netting_set)))") simp_all
    from pfe_sa_ccr_returns [OF this, of ?h ?c] obtain pfe where
      "calculate_potential_future_exposure_sa_ccr netting_set ?h ?c =
         Inr (pfe, pfe_calculate_add_on netting_set)" by blast
    from n(2) [OF this] show "\<exists>pfe add_ons ps.
      pfe_by_method ?m netting_set ?h ?c = Inr (pfe, add_ons, ps) \<and> length ps = n"
      by blast
  qed
  have "pfs_exposure_profiles ?st0 = [] \<or> length (pfs_exposure_profiles ?st0) = n" by simp
  from pfe_netting_set_loop_total [OF n(1) all this]
  obtain st where "pfe_netting_set_loop ?m ?h ?c ?st0 (pfi_netting_sets input_data) = Inr st"
    by blast
  then show ?thesis unfolding calculate_pfe_def by (simp add: Let_def)
qed

lemma calculate_pfe_breakdown:
  assumes "calculate_pfe input_data = Inr result"
  shows "pfr_asset_class_breakdown result =
     map (\<lambda>(asset_class, add_on).
            \<lparr>pfb_asset_class = asset_class, pfb_exposure = add_on,
             pfb_percentage =
               pfe_percentage
                 (sum_list (map snd
                    (foldl (\<lambda>all netting_set.
                 foldl (\<lambda>all (asset_class, add_on). dict_add asset_class add_on all) all
                   (pfe_calculate_add_on netting_set))
                     [] (pfi_netting_sets input_data)))) add_on\<rparr>)
       (foldl (\<lambda>all netting_set.
                 foldl (\<lambda>all (asset_class, add_on). dict_add asset_class add_on all) all
                   (pfe_calculate_add_on netting_set))
          [] (pfi_netting_sets input_data))"
proof -
  let ?m = "pfi_calculation_method input_data"
  let ?h = "pfi_time_horizon input_data"
  let ?c = "pfi_confidence_level input_data"
  let ?st0 = "\<lparr>pfs_total_pfe = 0, pfs_total_expected_exposure = 0, pfs_all_add_ons = [],
              pfs_netting_set_results = [], pfs_exposure_profiles = []\<rparr>"
  obtain st where st: "pfe_netting_set_loop ?m ?h ?c ?st0 (pfi_netting_sets input_data) = Inr st"
    using assms unfolding calculate_pfe_def
    by (cases "pfe_netting_set_loop ?m ?h ?c ?st0 (pfi_netting_sets input_data)") simp_all
  have ao: "pfs_all_add_ons st =
       foldl (\<lambda>all netting_set.
                 foldl (\<lambda>all (asset_class, add_on). dict_add asset_class add_on all) all
                   (pfe_calculate_add_on netting_set))
          [] (pfi_netting_sets input_data)"
    using pfe_netting_set_loop_add_ons [OF st] by simp
  show ?thesis
    using assms unfolding calculate_pfe_def st using ao
    by (auto simp add: Let_def dict_values_def)
qed

lemma pfe_breakdown_percentages:
  assumes "calculate_pfe input_data = Inr result"
  shows "(0 < sum_list (map pfb_exposure (pfr_asset_class_breakdown result)) \<longrightarrow>
      sum_list (map pfb_percentage (pfr_asset_class_breakdown result)) = 100) \<and>
   (sum_list (map pfb_exposure (pfr_asset_class_breakdown result)) \<le> 0 \<longrightarrow>
      (\<forall>b \<in> set (pfr_asset_class_breakdown result). pfb_percentage b = 0))"
proof -
  define M where "M = foldl (\<lambda>all netting_set.
                 foldl (\<lambda>all (asset_class, add_on). dict_add asset_class add_on all) all
                   (pfe_calculate_add_on netting_set))
          [] (pfi_netting_sets input_data)"
  define bd where "bd = pfr_asset_class_breakdown result"
  have bd: "bd = map (\<lambda>(asset_class, add_on).
            \<lparr>pfb_asset_class = asset_class, pfb_exposure = add_on,
             pfb_percentage = pfe_percentage (sum_list (map snd M)) add_on\<rparr>) M"
    unfolding bd_def M_def by (rule calculate_pfe_breakdown [OF assms])
  have ex: "map pfb_exposure bd = map snd M"
    unfolding bd by (simp add: case_prod_unfold comp_def)
  have pc: "map pfb_percentage bd =
      map (\<lambda>(k, v). if sum_list (map snd M) > 0 then (v / sum_list (map snd M)) * 100 else 0.0) M"
    unfolding bd by (simp add: case_prod_unfold comp_def pfe_percentage_def)
  have p: "(0 < sum_list (map snd M) \<longrightarrow> sum_list (map pfb_percentage bd) = 100) \<and>
      (\<not> 0 < sum_list (map snd M) \<longrightarrow> (\<forall>p \<in> set (map pfb_percentage bd). p = 0))"
    unfolding pc by (rule percentages_of_dict) simp
  have "(0 < sum_list (map pfb_exposure bd) \<longrightarrow> sum_list (map pfb_percentage bd) = 100) \<and>
      (sum_list (map pfb_exposure bd) \<le> 0 \<longrightarrow> (\<forall>b \<in> set bd. pfb_percentage b = 0))"
    unfolding ex using p by auto
  then show ?thesis unfolding bd_def .
qed

lemma pfe_short_returns: "\<not> isl (calculate_pfe pfe_short_input)"
  by (rule calculate_pfe_total)
     (simp add: pfe_short_input_def pfe_calculate_add_on_def pfe_short_trade_def
        pfe_example_trade_def group_by_asset_class_def pfe_effective_notional_def
        pfe_calculate_supervisory_delta_def pfe_calculate_maturity_factor_def
        pfe_calculate_replacement_cost_def calculate_collateral_value_def dict_values_def
        pfe_multiplier_def math_exp_def Let_def)

lemma pfe_short_breakdown:
  "map_sum id pfr_asset_class_breakdown (calculate_pfe pfe_short_input) =
     Inr [\<lparr>pfb_asset_class = INTEREST_RATE, pfb_exposure = - 5000, pfb_percentage = 0\<rparr>]"
proof -
  have ao: "pfe_calculate_add_on
       \<lparr>pfe_ns_id = ''NS1'', pfe_ns_trades = [pfe_short_trade], pfe_ns_collateral = []\<rparr>
     = [(INTEREST_RATE, - 5000)]"
    by (simp add: pfe_calculate_add_on_def pfe_short_trade_def pfe_example_trade_def
        group_by_asset_class_def pfe_effective_notional_def pfe_calculate_supervisory_delta_def
        pfe_calculate_maturity_factor_def Let_def)
  obtain r where r: "calculate_pfe pfe_short_input = Inr r"
    using pfe_short_returns by (cases "calculate_pfe pfe_short_input") simp_all
  have "pfr_asset_class_breakdown r =
      [\<lparr>pfb_asset_class = INTEREST_RATE, pfb_exposure = - 5000, pfb_percentage = 0\<rparr>]"
    using calculate_pfe_breakdown [OF r]
    by (simp add: pfe_short_input_def ao pfe_percentage_def)
  then show ?thesis unfolding r by simp
qed

lemma pfe_example_returns: "\<not> isl (calculate_pfe pfe_example_input)"
  by (rule calculate_pfe_total) (simp add: pfe_example_input_def pfe_example_multiplier)

lemma pfe_example_breakdown:
  "map_sum id pfr_asset_class_breakdown (calculate_pfe pfe_example_input) =
     Inr [\<lparr>pfb_asset_class = INTEREST_RATE, pfb_exposure = 5000, pfb_percentage = 100\<rparr>]"
proof -
  obtain r where r: "calculate_pfe pfe_example_input = Inr r"
    using pfe_example_returns by (cases "calculate_pfe pfe_example_input") simp_all
  have "pfr_asset_class_breakdown r =
      [\<lparr>pfb_asset_class = INTEREST_RATE, pfb_exposure = 5000, pfb_percentage = 100\<rparr>]"
    using calculate_pfe_breakdown [OF r]
    by (simp add: pfe_example_input_def pfe_example_add_on pfe_percentage_def)
  then show ?thesis unfolding r by simp
qed

lemma black_scholes_call:
  assumes "0 < S" "0 < K" "0 < T" "0 < v"
  shows "calculate_black_scholes CALL S K T v r =
     Inr (S * norm_cdf ((ln (S / K) + (r + v\<^sup>2 / 2) * T) / (v * sqrt T))
            - K * exp (- r * T)
              * norm_cdf ((ln (S / K) + (r + v\<^sup>2 / 2) * T) / (v * sqrt T) - v * sqrt T),
          norm_cdf ((ln (S / K) + (r + v\<^sup>2 / 2) * T) / (v * sqrt T)),
          norm_pdf ((ln (S / K) + (r + v\<^sup>2 / 2) * T) / (v * sqrt T)) / (S * v * sqrt T))"
proof -
  have "\<not> S / K \<le> 0" using assms by (simp add: not_le)
  moreover have "v * sqrt T \<noteq> 0" using assms by simp
  ultimately show ?thesis using assms
    by (simp add: calculate_black_scholes_def Let_def)
qed

lemma black_scholes_example:
  "calculate_black_scholes CALL 100 100 1 0.2 0.05 =
     Inr (100 * norm_cdf 0.35 - 100 * exp (- 0.05) * norm_cdf 0.15, norm_cdf 0.35,
          norm_pdf 0.35 / 20)"
  by (simp add: calculate_black_scholes_def Let_def power2_eq_square)

lemma saccr_option_delta:
  "saccr_calculate_supervisory_delta saccr_option_transaction = Inr (norm_cdf 0.35)"
  using black_scholes_example
  by (simp add: saccr_calculate_supervisory_delta_def saccr_option_transaction_def)

lemma saccr_delta_rule:
  "(tx_supervisory_delta t = Some d \<longrightarrow> saccr_calculate_supervisory_delta t = Inr d) \<and>
   (tx_supervisory_delta t = None \<and> tx_transaction_type t \<notin> {OPTION, SWAPTION} \<longrightarrow>
      saccr_calculate_supervisory_delta t = Inr 1) \<and>
   (tx_supervisory_delta t = None \<and> tx_transaction_type t \<in> {OPTION, SWAPTION} \<and>
    tx_underlying_price t = Some S \<and> tx_strike_price t = Some K \<and> tx_option_type t = Some ot \<and>
    tx_volatility t = Some v \<and> tx_interest_rate t = Some r \<and>
    calculate_black_scholes ot S K (tx_maturity t) v r = Inr (price, delta, gamma) \<longrightarrow>
      saccr_calculate_supervisory_delta t = Inr (if ot = PUT then - delta else delta)) \<and>
   (tx_supervisory_delta t = None \<and> tx_transaction_type t \<in> {OPTION, SWAPTION} \<and>
    (tx_underlying_price t = None \<or> tx_strike_price t = None \<or> tx_option_type t = None \<or>
     tx_volatility t = None \<or> tx_interest_rate t = None) \<longrightarrow>
      saccr_calculate_supervisory_delta t = Inl ValueError)"
  by (auto simp add: saccr_calculate_supervisory_delta_def split: option.splits)

lemma pfe_delta_rule:
  "(pfe_supervisory_delta t = Some d \<longrightarrow> pfe_calculate_supervisory_delta t = d) \<and>
   (pfe_supervisory_delta t = None \<and> pfe_transaction_type t \<notin> {OPTION, SWAPTION} \<longrightarrow>
      pfe_calculate_supervisory_delta t = 1) \<and>
   (pfe_supervisory_delta t = None \<and> pfe_transaction_type t \<in> {OPTION, SWAPTION} \<longrightarrow>
      pfe_calculate_supervisory_delta t = 1 / 2)"
  by (auto simp add: pfe_calculate_supervisory_delta_def)

lemma saccr_pfe_value:
  assumes "saccr_calculate_add_on netting_set = Inr add_ons"
    and "saccr_calculate_replacement_cost netting_set = Inr replacement_cost"
  shows "calculate_potential_future_exposure netting_set =
     map_sum id (\<lambda>multiplier. (multiplier * sum_list (dict_values add_ons), add_ons))
       (saccr_multiplier replacement_cost (sum_list (dict_values add_ons)))"
  using assms by (simp add: calculate_potential_future_exposure_def Let_def split: sum.split)

lemma saccr_replacement_cost_nonneg:
  "saccr_calculate_replacement_cost netting_set = Inr replacement_cost \<Longrightarrow>
   0 \<le> replacement_cost"
  by (auto simp add: saccr_calculate_replacement_cost_def split: sum.splits)

lemma pfe_replacement_cost_nonneg: "0 \<le> pfe_calculate_replacement_cost netting_set"
  by (simp add: pfe_calculate_replacement_cost_def Let_def)

lemma saccr_multiplier_cases:
  "(total_add_on = 0 \<longrightarrow> saccr_multiplier replacement_cost total_add_on = Inr 1) \<and>
   (total_add_on \<noteq> 0 \<and>
    - min 1 (replacement_cost / (2 * total_add_on)) \<le> 709.782712893384 \<longrightarrow>
      saccr_multiplier replacement_cost total_add_on =
        Inr (0.05 + 0.95 * exp (- min 1 (replacement_cost / (2 * total_add_on))))) \<and>
   (total_add_on \<noteq> 0 \<and>
    709.782712893384 < - min 1 (replacement_cost / (2 * total_add_on)) \<longrightarrow>
      saccr_multiplier replacement_cost total_add_on = Inl OverflowError)"
  by (simp add: saccr_multiplier_def math_exp_def Let_def)

lemma saccr_swap_add_on:
  "saccr_calculate_add_on saccr_swap_netting_set = Inr [(INTEREST_RATE, 5000)]"
  by (simp add: saccr_calculate_add_on_def saccr_swap_netting_set_def saccr_swap_transaction_def
        group_by_asset_class_def saccr_calculate_supervisory_delta_def
        saccr_calculate_maturity_factor_def calculate_adjusted_notional_def Let_def)

lemma saccr_swap_replacement_cost:
  "saccr_calculate_replacement_cost saccr_swap_netting_set = Inr 50000"
  by (simp add: saccr_calculate_replacement_cost_def saccr_swap_netting_set_def
        saccr_swap_transaction_def)

lemma saccr_empty_values:
  "saccr_calculate_add_on saccr_empty_netting_set = Inr []"
  "saccr_calculate_replacement_cost saccr_empty_netting_set = Inr 0"
  by (simp_all add: saccr_calculate_add_on_def saccr_calculate_replacement_cost_def
        saccr_empty_netting_set_def group_by_asset_class_def)

lemma pfe_empty_add_on: "pfe_calculate_add_on pfe_empty_netting_set = []"
  by (simp add: pfe_calculate_add_on_def pfe_empty_netting_set_def group_by_asset_class_def)

lemma saccr_offsetting_values:
  "saccr_calculate_add_on saccr_offsetting_netting_set = Inr [(INTEREST_RATE, - 5)]"
  "saccr_calculate_replacement_cost saccr_offsetting_netting_set = Inr 100050"
  by (simp_all add: saccr_calculate_add_on_def saccr_calculate_replacement_cost_def
        saccr_offsetting_netting_set_def saccr_swap_transaction_def group_by_asset_class_def
        saccr_calculate_supervisory_delta_def saccr_calculate_maturity_factor_def
        calculate_adjusted_notional_def Let_def)

lemma pfe_offsetting_values:
  "pfe_calculate_add_on pfe_offsetting_netting_set = [(INTEREST_RATE, - 5)]"
  "pfe_calculate_replacement_cost pfe_offsetting_netting_set = 10000"
  by (simp_all add: pfe_calculate_add_on_def pfe_calculate_replacement_cost_def
        pfe_offsetting_netting_set_def pfe_example_trade_def group_by_asset_class_def
        pfe_effective_notional_def pfe_calculate_supervisory_delta_def
        pfe_calculate_maturity_factor_def calculate_collateral_value_def Let_def)

lemma offsetting_multipliers:
  "saccr_multiplier 100050 (- 5) = Inl OverflowError"
  "pfe_multiplier 10000 (- 5) = Inl OverflowError"
  by (simp_all add: saccr_multiplier_def pfe_multiplier_def math_exp_def Let_def)

lemma self_correlated_matrix:
  "build_correlation_matrix (pf_positions var_self_correlated_portfolio) = [[0.3]]"
  by (simp add: build_correlation_matrix_def correlation_row_update_def matrix_set_def
        initial_correlation_matrix_def var_self_correlated_portfolio_def
        var_self_correlated_position_def var_single_position_def)

lemma single_matrix:
  "build_correlation_matrix (pf_positions var_single_portfolio) = [[1]]"
  by (simp add: build_correlation_matrix_def correlation_row_update_def matrix_set_def
        initial_correlation_matrix_def var_single_portfolio_def var_single_position_def)

lemma sqrt_004: "sqrt (1 / 25) = 1 / 5"
proof -
  have "sqrt ((1 / 5)\<^sup>2) = (1 / 5 :: real)" by (rule real_sqrt_unique) simp_all
  then show ?thesis by (simp add: power2_eq_square)
qed

lemma single_parametric:
  "calculate_parametric_var var_single_portfolio VaR_CL_95 ONE_DAY =
     Inr (329 / sqrt 252,
          [\<lparr>ac_asset_id = ''A'', ac_ticker = ''AAA'', ac_asset_class = VaR_EQUITY,
            ac_var_contribution = Some (0.2 * (329 / sqrt 252)),
            ac_var_contribution_percentage = Some 20\<rparr>],
          0)"
  unfolding calculate_parametric_var_def single_matrix
  by (simp add: var_single_portfolio_def var_single_position_def calculate_portfolio_value_def
        parametric_asset_vars_def variance_covariance_matrix_def quadratic_form_def
        parametric_contributions_def volatility_or_default_def volatility_or_0_2_def
        np_div_def Let_def sqrt_004 power2_eq_square)

lemma sort_replicate: "sort (replicate n (x::real)) = replicate n x"
  by (rule sorted_sort_id) (simp add: sorted_replicate)

lemma sorted_at_replicate: "i < n \<Longrightarrow> sorted_at (replicate n x) i = Inr x"
  by (simp add: sorted_at_def sort_replicate)

lemma map_error_replicate:
  "f x = Inr y \<Longrightarrow> map_error f (replicate n x) = Inr (replicate n y)"
  by (induction n) (simp_all add: bind_error_def)

lemma var_index_values:
  "var_index 500 VaR_CL_95 = 25" "var_index 5000 VaR_CL_95 = 250"
proof -
  have "\<lfloor>(500 :: real) * ((1 + 1 / 2 ^ 50) / 20)\<rfloor> = 25" by (rule floor_unique) simp_all
  then show "var_index 500 VaR_CL_95 = 25" by (simp add: var_index_def)
  have "\<lfloor>(5000 :: real) * ((1 + 1 / 2 ^ 50) / 20)\<rfloor> = 250" by (rule floor_unique) simp_all
  then show "var_index 5000 VaR_CL_95 = 250" by (simp add: var_index_def)
qed

lemma var_index_90: "var_index 500 CL_90 = 49"
proof -
  have "\<lfloor>(500 :: real) * ((1 - 1 / 2 ^ 52) / 10)\<rfloor> = 49" by (rule floor_unique) simp_all
  then show ?thesis by (simp add: var_index_def)
qed

lemma empty_historical:
  "calculate_historical_var gauss var_empty_portfolio VaR_CL_95 ONE_DAY = Inr (0, [], 0)"
  by (simp add: calculate_historical_var_def var_empty_portfolio_def calculate_portfolio_value_def
        bind_error_def var_index_values sorted_at_replicate Let_def)

lemma empty_calculate_var:
  "calculate_var cholesky gauss var_empty_input =
     Inr \<lparr>vr_var = 0, vr_var_percentage = None, vr_portfolio_value = 0,
          vr_method = VaR_HISTORICAL, vr_time_horizon = ONE_DAY,
          vr_confidence_level = VaR_CL_95, vr_asset_contributions = [],
          vr_diversification_benefit = 0, vr_diversification_benefit_percentage = None,
          vr_stress_scenarios = None\<rparr>"
  by (simp add: calculate_var_def var_empty_input_def empty_historical var_percentages_def
        np_div_def bind_error_def Let_def)
     (simp add: var_empty_portfolio_def calculate_portfolio_value_def)

lemma np_mean_replicate: "0 < n \<Longrightarrow> np_mean (replicate n x) = x"
  by (simp add: np_mean_def sum_list_replicate)

lemma sum_list_all_zero: "\<forall>v \<in> set vs. v = (0::real) \<Longrightarrow> sum_list vs = 0"
  by (induction vs) simp_all

lemma centered_product_replicate:
  assumes "0 < n"
  shows "centered_product (replicate n x) ys = 0"
proof -
  have "\<forall>p \<in> set (zip (replicate n x) ys). fst p = x"
    by (auto dest: set_zip_leftD)
  then have "\<forall>v \<in> set (map2 (\<lambda>a b. (a - x) * (b - np_mean ys)) (replicate n x) ys). v = 0"
    by auto
  then have "sum_list (map2 (\<lambda>a b. (a - x) * (b - np_mean ys)) (replicate n x) ys) = 0"
    by (rule sum_list_all_zero)
  then show ?thesis
    using assms by (simp add: centered_product_def np_mean_replicate)
qed

lemma np_corrcoef_replicate: "np_corrcoef (replicate n x) ys = None"
  by (cases "n \<le> 1") (simp_all add: np_corrcoef_def centered_product_replicate Let_def)

lemma simulation_beta_replicate: "simulation_beta (replicate n x) ys = None"
  by (simp add: simulation_beta_def np_corrcoef_replicate)

lemma map_const_upt: "map (\<lambda>i. c) [0..<n] = replicate n c"
  by (simp add: map_replicate_const)

text \<open>Monte Carlo VaR of a one-position portfolio whose correlation matrix is [[1]], with the
  Cholesky routine returning its argument and every deviate equal to -1.\<close>

lemma monte_carlo_single_position:
  assumes p: "pf_positions portfolio = [position]"
    and v: "pos_quantity position * pos_price position \<noteq> 0"
    and m: "build_correlation_matrix [position] = [[1]]"
  shows "calculate_monte_carlo_var (\<lambda>M. Some M) (\<lambda>k. - 1) portfolio VaR_CL_95 ONE_DAY 5000 =
     Inr (pos_quantity position * pos_price position * (volatility_or_default position / sqrt 252),
          [\<lparr>ac_asset_id = pos_id position, ac_ticker = pos_ticker position,
            ac_asset_class = pos_asset_class position, ac_var_contribution = None,
            ac_var_contribution_percentage = None\<rparr>],
          0)"
proof -
  let ?r = "- (volatility_or_default position / sqrt 252)"
  have "mc_scaled_returns (\<lambda>k. - 1) [[1]] [volatility_or_default position] (Suc 0) i = [?r]" for i
    by (simp add: mc_scaled_returns_def np_random_normal_def mat_vec_def Let_def)
  then have "mc_scaled_returns (\<lambda>k. - 1) [[1]] [volatility_or_default position] (Suc 0)
      = (\<lambda>i. [?r])"
    by (intro ext)
  then have sc: "map (mc_scaled_returns (\<lambda>k. - 1) [[1]] [volatility_or_default position] (Suc 0))
      [0..<5000] = replicate 5000 [?r]"
    by (simp add: map_replicate_const)
  have pr: "mc_portfolio_return (pos_quantity position * pos_price position) [?r] 0 [position] 0
      = Inr ?r"
    using v by (simp add: py_div_def bind_error_def Let_def)
  have prs: "map_error (\<lambda>s. mc_portfolio_return (pos_quantity position * pos_price position) s 0
                 [position] 0) (replicate 5000 [?r]) = Inr (replicate 5000 ?r)"
    by (rule map_error_replicate) (rule pr)
  have av: "mc_asset_var [replicate 5000 ?r] 250 1 [position] 0 =
      Inr \<lparr>av_asset_id = pos_id position, av_ticker = pos_ticker position,
           av_asset_class = pos_asset_class position,
           av_var = pos_quantity position * pos_price position
                      * (volatility_or_default position / sqrt 252),
           av_position_value = pos_quantity position * pos_price position\<rparr>"
    by (simp add: mc_asset_var_def sorted_at_replicate bind_error_def Let_def)
  have ct: "simulation_contribution
       \<lparr>av_asset_id = pos_id position, av_ticker = pos_ticker position,
           av_asset_class = pos_asset_class position,
           av_var = pos_quantity position * pos_price position
                      * (volatility_or_default position / sqrt 252),
           av_position_value = pos_quantity position * pos_price position\<rparr>
       (replicate 5000 ?r) (replicate 5000 ?r) (pos_quantity position * pos_price position)
       (pos_quantity position * pos_price position * (volatility_or_default position / sqrt 252))
     = Inr \<lparr>ac_asset_id = pos_id position, ac_ticker = pos_ticker position,
            ac_asset_class = pos_asset_class position, ac_var_contribution = None,
            ac_var_contribution_percentage = None\<rparr>"
    using v by (simp add: simulation_contribution_def simulation_beta_replicate py_div_def
                  bind_error_def Let_def)
  show ?thesis
    unfolding calculate_monte_carlo_var_def p
    using ct
    by (simp add: calculate_portfolio_value_def p m volatility_vector_def sc map_const_upt prs
          var_index_values sorted_at_replicate av bind_error_def Let_def
          del: mc_portfolio_return.simps)
qed

lemma sample_parameters:
  "unit_cholesky = (\<lambda>M. Some M)" "constant_deviates = (\<lambda>k. - 1)"
  by (auto simp add: unit_cholesky_def constant_deviates_def)

lemma stress_empty:
  "pf_positions portfolio = [] \<Longrightarrow>
   calculate_stress_scenarios cholesky gauss portfolio cl th base_var = Inr []"
  by (simp add: calculate_stress_scenarios_def STRESS_SCENARIOS_def stressed_portfolio_def Let_def)

lemma stress_three:
  assumes "pf_positions portfolio \<noteq> []"
    and "calculate_monte_carlo_var cholesky gauss (stressed_portfolio MARKET_CRASH portfolio)
           cl th 5000 = Inr (v1, c1, b1)"
    and "calculate_monte_carlo_var cholesky gauss (stressed_portfolio INTEREST_RATE_SPIKE portfolio)
           cl th 5000 = Inr (v2, c2, b2)"
    and "calculate_monte_carlo_var cholesky gauss (stressed_portfolio LIQUIDITY_CRISIS portfolio)
           cl th 5000 = Inr (v3, c3, b3)"
  shows "calculate_stress_scenarios cholesky gauss portfolio cl th base_var =
     Inr [\<lparr>ss_name = sc_name MARKET_CRASH, ss_description = sc_description MARKET_CRASH,
           ss_var = v1, ss_var_increase = v1 - base_var,
           ss_var_increase_percentage = map_option (\<lambda>q. q * 100) (np_div (v1 - base_var) base_var)\<rparr>,
          \<lparr>ss_name = sc_name INTEREST_RATE_SPIKE,
           ss_description = sc_description INTEREST_RATE_SPIKE,
           ss_var = v2, ss_var_increase = v2 - base_var,
           ss_var_increase_percentage = map_option (\<lambda>q. q * 100) (np_div (v2 - base_var) base_var)\<rparr>,
          \<lparr>ss_name = sc_name LIQUIDITY_CRISIS, ss_description = sc_description LIQUIDITY_CRISIS,
           ss_var = v3, ss_var_increase = v3 - base_var,
           ss_var_increase_percentage = map_option (\<lambda>q. q * 100) (np_div (v3 - base_var) base_var)\<rparr>]"
proof -
  have ne: "pf_positions (stressed_portfolio sc portfolio) \<noteq> []" for sc
    using assms(1) by (simp add: stressed_portfolio_def)
  show ?thesis
    unfolding calculate_stress_scenarios_def STRESS_SCENARIOS_def
    by (simp add: ne assms(2-4) Let_def)
qed

lemma stressed_portfolio_fields:
  "map pos_volatility (pf_positions (stressed_portfolio scenario portfolio)) =
     map (\<lambda>position.
            map_option (\<lambda>v. v * sc_volatility_multiplier scenario
                              * asset_class_multiplier scenario position)
              (pos_volatility position)) (pf_positions portfolio)"
  "map pos_correlation (pf_positions (stressed_portfolio scenario portfolio)) =
     map (\<lambda>position.
            case pos_correlation position of
              None \<Rightarrow> None
            | Some correlation \<Rightarrow>
                if correlation = [] then None
                else Some (map (\<lambda>(asset_id, corr).
                                  (asset_id, min 1 (corr + sc_correlation_increase scenario)))
                             correlation)) (pf_positions portfolio)"
  "map (\<lambda>position. (pos_id position, pos_asset_class position, pos_ticker position,
                    pos_quantity position, pos_price position))
     (pf_positions (stressed_portfolio scenario portfolio)) =
   map (\<lambda>position. (pos_id position, pos_asset_class position, pos_ticker position,
                    pos_quantity position, pos_price position)) (pf_positions portfolio)"
  by (simp_all add: stressed_portfolio_def stressed_position_def Let_def comp_def
        option.map_sel split: option.splits)

lemma explicit_stressed_monte_carlo:
  assumes "scenario \<in> set STRESS_SCENARIOS"
  shows "calculate_monte_carlo_var unit_cholesky constant_deviates
       (stressed_portfolio scenario var_explicit_portfolio) VaR_CL_95 ONE_DAY 5000 =
     Inr (1000 * (0.3 * sc_volatility_multiplier scenario
                    * asset_class_multiplier scenario var_explicit_position / sqrt 252),
          [\<lparr>ac_asset_id = ''A'', ac_ticker = ''AAA'', ac_asset_class = VaR_EQUITY,
            ac_var_contribution = None, ac_var_contribution_percentage = None\<rparr>],
          0)"
proof -
  let ?p = "stressed_position scenario var_explicit_position"
  have p: "pf_positions (stressed_portfolio scenario var_explicit_portfolio) = [?p]"
    by (simp add: stressed_portfolio_def var_explicit_portfolio_def)
  have v: "pos_quantity ?p * pos_price ?p \<noteq> 0"
    by (simp add: stressed_position_def var_explicit_position_def var_single_position_def Let_def)
  have m: "build_correlation_matrix [?p] = [[1]]"
    by (simp add: build_correlation_matrix_def correlation_row_update_def matrix_set_def
          initial_correlation_matrix_def stressed_position_def var_explicit_position_def
          var_single_position_def Let_def)
  show ?thesis
    unfolding sample_parameters monte_carlo_single_position [OF p v m]
    by (simp add: stressed_position_def var_explicit_position_def var_single_position_def
          volatility_or_default_def Let_def)
qed

lemma scenario_multipliers:
  "sc_volatility_multiplier MARKET_CRASH = 3"
  "asset_class_multiplier MARKET_CRASH var_explicit_position = 1"
  "sc_volatility_multiplier INTEREST_RATE_SPIKE = 2"
  "asset_class_multiplier INTEREST_RATE_SPIKE var_explicit_position = 1.5"
  "sc_volatility_multiplier LIQUIDITY_CRISIS = 2.5"
  "asset_class_multiplier LIQUIDITY_CRISIS var_explicit_position = 2"
  by (simp_all add: MARKET_CRASH_def INTEREST_RATE_SPIKE_def LIQUIDITY_CRISIS_def
        asset_class_multiplier_def var_explicit_position_def var_single_position_def)

lemma explicit_stressed_values:
  "calculate_monte_carlo_var unit_cholesky constant_deviates
       (stressed_portfolio MARKET_CRASH var_explicit_portfolio) VaR_CL_95 ONE_DAY 5000 =
     Inr (1000 * (0.9 / sqrt 252),
          [\<lparr>ac_asset_id = ''A'', ac_ticker = ''AAA'', ac_asset_class = VaR_EQUITY,
            ac_var_contribution = None, ac_var_contribution_percentage = None\<rparr>], 0)"
  "calculate_monte_carlo_var unit_cholesky constant_deviates
       (stressed_portfolio INTEREST_RATE_SPIKE var_explicit_portfolio) VaR_CL_95 ONE_DAY 5000 =
     Inr (1000 * (0.9 / sqrt 252),
          [\<lparr>ac_asset_id = ''A'', ac_ticker = ''AAA'', ac_asset_class = VaR_EQUITY,
            ac_var_contribution = None, ac_var_contribution_percentage = None\<rparr>], 0)"
  "calculate_monte_carlo_var unit_cholesky constant_deviates
       (stressed_portfolio LIQUIDITY_CRISIS var_explicit_portfolio) VaR_CL_95 ONE_DAY 5000 =
     Inr (1000 * (1.5 / sqrt 252),
          [\<lparr>ac_asset_id = ''A'', ac_ticker = ''AAA'', ac_asset_class = VaR_EQUITY,
            ac_var_contribution = None, ac_var_contribution_percentage = None\<rparr>], 0)"
proof -
  have s: "MARKET_CRASH \<in> set STRESS_SCENARIOS" "INTEREST_RATE_SPIKE \<in> set STRESS_SCENARIOS"
    "LIQUIDITY_CRISIS \<in> set STRESS_SCENARIOS"
    by (simp_all add: STRESS_SCENARIOS_def)
  show "calculate_monte_carlo_var unit_cholesky constant_deviates
       (stressed_portfolio MARKET_CRASH var_explicit_portfolio) VaR_CL_95 ONE_DAY 5000 =
     Inr (1000 * (0.9 / sqrt 252),
          [\<lparr>ac_asset_id = ''A'', ac_ticker = ''AAA'', ac_asset_class = VaR_EQUITY,
            ac_var_contribution = None, ac_var_contribution_percentage = None\<rparr>], 0)"
    unfolding explicit_stressed_monte_carlo [OF s(1)] scenario_multipliers by simp
  show "calculate_monte_carlo_var unit_cholesky constant_deviates
       (stressed_portfolio INTEREST_RATE_SPIKE var_explicit_portfolio) VaR_CL_95 ONE_DAY 5000 =
     Inr (1000 * (0.9 / sqrt 252),
          [\<lparr>ac_asset_id = ''A'', ac_ticker = ''AAA'', ac_asset_class = VaR_EQUITY,
            ac_var_contribution = None, ac_var_contribution_percentage = None\<rparr>], 0)"
    unfolding explicit_stressed_monte_carlo [OF s(2)] scenario_multipliers by simp
  show "calculate_monte_carlo_var unit_cholesky constant_deviates
       (stressed_portfolio LIQUIDITY_CRISIS var_explicit_portfolio) VaR_CL_95 ONE_DAY 5000 =
     Inr (1000 * (1.5 / sqrt 252),
          [\<lparr>ac_asset_id = ''A'', ac_ticker = ''AAA'', ac_asset_class = VaR_EQUITY,
            ac_var_contribution = None, ac_var_contribution_percentage = None\<rparr>], 0)"
    unfolding explicit_stressed_monte_carlo [OF s(3)] scenario_multipliers by simp
qed

lemma single_stressed_unchanged:
  "stressed_portfolio MARKET_CRASH var_single_portfolio = var_single_portfolio"
  by (simp add: stressed_portfolio_def stressed_position_def var_single_portfolio_def
        var_single_position_def Let_def)

lemma single_volatility_vectors:
  "volatility_vector (pf_positions (stressed_portfolio MARKET_CRASH var_single_portfolio)) = [0.2]"
  "volatility_vector (pf_positions (spec_stressed_portfolio MARKET_CRASH var_single_portfolio)) = [0.6]"
  by (simp_all add: single_stressed_unchanged)
     (simp_all add: volatility_vector_def volatility_or_default_def var_single_portfolio_def
        var_single_position_def spec_stressed_portfolio_def spec_stressed_position_def
        stressed_position_def asset_class_multiplier_def MARKET_CRASH_def Let_def)

lemma single_monte_carlo:
  "map_sum id fst (calculate_monte_carlo_var unit_cholesky constant_deviates
       (stressed_portfolio MARKET_CRASH var_single_portfolio) VaR_CL_95 ONE_DAY 5000) =
     Inr (1000 * (0.2 / sqrt 252))"
  "map_sum id fst (calculate_monte_carlo_var unit_cholesky constant_deviates
       (spec_stressed_portfolio MARKET_CRASH var_single_portfolio) VaR_CL_95 ONE_DAY 5000) =
     Inr (1000 * (0.6 / sqrt 252))"
proof -
  have m1: "build_correlation_matrix [var_single_position] = [[1]]"
    using single_matrix by (simp add: var_single_portfolio_def)
  have p1: "pf_positions (stressed_portfolio MARKET_CRASH var_single_portfolio) = [var_single_position]"
    unfolding single_stressed_unchanged by (simp add: var_single_portfolio_def)
  have v1: "pos_quantity var_single_position * pos_price var_single_position \<noteq> 0"
    by (simp add: var_single_position_def)
  show "map_sum id fst (calculate_monte_carlo_var unit_cholesky constant_deviates
       (stressed_portfolio MARKET_CRASH var_single_portfolio) VaR_CL_95 ONE_DAY 5000) =
     Inr (1000 * (0.2 / sqrt 252))"
    unfolding sample_parameters monte_carlo_single_position [OF p1 v1 m1]
    by (simp add: var_single_position_def volatility_or_default_def)
  let ?q = "spec_stressed_position MARKET_CRASH var_single_position"
  have p2: "pf_positions (spec_stressed_portfolio MARKET_CRASH var_single_portfolio) = [?q]"
    by (simp add: spec_stressed_portfolio_def var_single_portfolio_def)
  have v2: "pos_quantity ?q * pos_price ?q \<noteq> 0"
    by (simp add: spec_stressed_position_def stressed_position_def var_single_position_def Let_def)
  have m2: "build_correlation_matrix [?q] = [[1]]"
    by (simp add: build_correlation_matrix_def correlation_row_update_def matrix_set_def
          initial_correlation_matrix_def spec_stressed_position_def stressed_position_def
          var_single_position_def Let_def)
  show "map_sum id fst (calculate_monte_carlo_var unit_cholesky constant_deviates
       (spec_stressed_portfolio MARKET_CRASH var_single_portfolio) VaR_CL_95 ONE_DAY 5000) =
     Inr (1000 * (0.6 / sqrt 252))"
    unfolding sample_parameters monte_carlo_single_position [OF p2 v2 m2]
    by (simp add: spec_stressed_position_def stressed_position_def var_single_position_def
          volatility_or_default_def asset_class_multiplier_def MARKET_CRASH_def Let_def)
qed

section \<open>The correlation matrix\<close>

lemma matrix_set_length: "length (matrix_set M i j v) = length M"
  by (simp add: matrix_set_def)

lemma matrix_set_row_length:
  "a < length M \<Longrightarrow> length (matrix_set M i j v ! a) = length (M ! a)"
  by (cases "a = i") (simp_all add: matrix_set_def)

lemma matrix_set_entry:
  "a < length M \<Longrightarrow> b < length (M ! a) \<Longrightarrow>
   matrix_set M i j v ! a ! b = (if a = i \<and> b = j then v else M ! a ! b)"
  by (cases "a = i"; cases "b = j") (simp_all add: matrix_set_def)

lemma if_chain: "(if P then v else if Q then v else z) = (if P \<or> Q then v else z)"
  by simp

lemma double_entry:
  assumes sq: "length M = n" "\<forall>a<n. length (M ! a) = n" and ab: "a < n" "b < n"
  shows "matrix_set (matrix_set M i j v) j i v ! a ! b =
      (if (a = j \<and> b = i) \<or> (a = i \<and> b = j) then v else M ! a ! b)"
proof -
  have 1: "a < length M" "b < length (M ! a)" using sq ab by auto
  have 2: "a < length (matrix_set M i j v)" "b < length (matrix_set M i j v ! a)"
    using 1 by (simp_all add: matrix_set_length matrix_set_row_length)
  show ?thesis
    unfolding matrix_set_entry [OF 2] matrix_set_entry [OF 1] by (rule if_chain)
qed

lemma symmetric_pair_update:
  assumes sq: "length M = n" "\<forall>a<n. length (M ! a) = n"
    and sym: "\<forall>a<n. \<forall>b<n. M ! a ! b = M ! b ! a"
  shows "length (matrix_set (matrix_set M i j v) j i v) = n"
    and "\<forall>a<n. length (matrix_set (matrix_set M i j v) j i v ! a) = n"
    and "\<forall>a<n. \<forall>b<n. matrix_set (matrix_set M i j v) j i v ! a ! b
                         = matrix_set (matrix_set M i j v) j i v ! b ! a"
    and "\<forall>a<n. \<forall>b<n. \<not> ((a = j \<and> b = i) \<or> (a = i \<and> b = j)) \<longrightarrow>
            matrix_set (matrix_set M i j v) j i v ! a ! b = M ! a ! b"
proof -
  show "length (matrix_set (matrix_set M i j v) j i v) = n"
    using sq(1) by (simp add: matrix_set_length)
  show "\<forall>a<n. length (matrix_set (matrix_set M i j v) j i v ! a) = n"
    using sq by (simp add: matrix_set_length matrix_set_row_length)
  show "\<forall>a<n. \<forall>b<n. matrix_set (matrix_set M i j v) j i v ! a ! b
                         = matrix_set (matrix_set M i j v) j i v ! b ! a"
  proof (intro allI impI)
    fix a b assume ab: "a < n" "b < n"
    have m: "M ! a ! b = M ! b ! a" using sym ab by blast
    show "matrix_set (matrix_set M i j v) j i v ! a ! b
                 = matrix_set (matrix_set M i j v) j i v ! b ! a"
    proof (cases "(a = j \<and> b = i) \<or> (a = i \<and> b = j)")
      case True
      then have T: "(b = j \<and> a = i) \<or> (b = i \<and> a = j)" by blast
      show ?thesis
        unfolding double_entry [OF sq ab] double_entry [OF sq ab(2) ab(1)]
        by (simp only: if_P [OF True] if_P [OF T])
    next
      case False
      then have F: "\<not> ((b = j \<and> a = i) \<or> (b = i \<and> a = j))" by blast
      show ?thesis
        unfolding double_entry [OF sq ab] double_entry [OF sq ab(2) ab(1)]
        by (simp only: if_not_P [OF False] if_not_P [OF F] m)
    qed
  qed
  show "\<forall>a<n. \<forall>b<n. \<not> ((a = j \<and> b = i) \<or> (a = i \<and> b = j)) \<longrightarrow>
            matrix_set (matrix_set M i j v) j i v ! a ! b = M ! a ! b"
  proof (intro allI impI)
    fix a b assume ab: "a < n" "b < n" and ne: "\<not> ((a = j \<and> b = i) \<or> (a = i \<and> b = j))"
    show "matrix_set (matrix_set M i j v) j i v ! a ! b = M ! a ! b"
      unfolding double_entry [OF sq ab] by (simp only: if_not_P [OF ne])
  qed
qed

lemma initial_matrix_properties:
  "length (initial_correlation_matrix n) = n"
  "\<forall>a<n. length (initial_correlation_matrix n ! a) = n"
  "\<forall>a<n. \<forall>b<n. initial_correlation_matrix n ! a ! b = initial_correlation_matrix n ! b ! a"
  "\<forall>a<n. initial_correlation_matrix n ! a ! a = 1"
  by (simp_all add: initial_correlation_matrix_def)

lemma bounded_allD: "\<forall>a<n. P a \<Longrightarrow> a < (n::nat) \<Longrightarrow> P a"
  by simp

lemma symmetric_with_unit_diagonalI:
  assumes "length M = n" and "\<forall>a<n. length (M ! a) = n"
    and "\<forall>a<n. \<forall>b<n. M ! a ! b = M ! b ! a" and "\<forall>a\<in>D. a < n \<longrightarrow> M ! a ! a = 1"
  shows "symmetric_with_unit_diagonal n D M"
  unfolding symmetric_with_unit_diagonal_def by (intro conjI) (rule assms)+

lemma symmetric_with_unit_diagonalD:
  assumes "symmetric_with_unit_diagonal n D M"
  shows "length M = n" and "\<forall>a<n. length (M ! a) = n"
    and "\<forall>a<n. \<forall>b<n. M ! a ! b = M ! b ! a" and "\<forall>a\<in>D. a < n \<longrightarrow> M ! a ! a = 1"
proof -
  from assms have 1: "length M = n \<and> (\<forall>a<n. length (M ! a) = n) \<and>
     (\<forall>a<n. \<forall>b<n. M ! a ! b = M ! b ! a) \<and> (\<forall>a\<in>D. a < n \<longrightarrow> M ! a ! a = 1)"
    unfolding symmetric_with_unit_diagonal_def .
  from 1 show "length M = n" by (rule conjunct1)
  from 1 have 2: "(\<forall>a<n. length (M ! a) = n) \<and>
     (\<forall>a<n. \<forall>b<n. M ! a ! b = M ! b ! a) \<and> (\<forall>a\<in>D. a < n \<longrightarrow> M ! a ! a = 1)"
    by (rule conjunct2)
  from 2 show "\<forall>a<n. length (M ! a) = n" by (rule conjunct1)
  from 2 have 3: "(\<forall>a<n. \<forall>b<n. M ! a ! b = M ! b ! a) \<and> (\<forall>a\<in>D. a < n \<longrightarrow> M ! a ! a = 1)"
    by (rule conjunct2)
  from 3 show "\<forall>a<n. \<forall>b<n. M ! a ! b = M ! b ! a" by (rule conjunct1)
  from 3 show "\<forall>a\<in>D. a < n \<longrightarrow> M ! a ! a = 1" by (rule conjunct2)
qed

lemma initial_matrix_invariant:
  "symmetric_with_unit_diagonal n D (initial_correlation_matrix n)"
proof (rule symmetric_with_unit_diagonalI)
  show "\<forall>a\<in>D. a < n \<longrightarrow> initial_correlation_matrix n ! a ! a = 1"
  proof (intro ballI impI)
    fix a assume "a < n"
    then show "initial_correlation_matrix n ! a ! a = 1"
      by (rule bounded_allD [OF initial_matrix_properties(4)])
  qed
qed (rule initial_matrix_properties)+

lemma pair_update_invariant:
  assumes inv: "symmetric_with_unit_diagonal n D M"
    and side: "i = k \<longrightarrow> i \<notin> D"
  shows "symmetric_with_unit_diagonal n D (matrix_set (matrix_set M i k v) k i v)"
proof -
  note d = symmetric_with_unit_diagonalD [OF inv]
  note u = symmetric_pair_update [OF d(1) d(2) d(3), where i = i and j = k and v = v]
  show ?thesis
  proof (rule symmetric_with_unit_diagonalI [OF u(1) u(2) u(3)], intro ballI impI)
    fix a assume a: "a \<in> D" "a < n"
    have ne: "\<not> ((a = k \<and> a = i) \<or> (a = i \<and> a = k))" using side a(1) by blast
    have "\<forall>b<n. \<not> ((a = k \<and> b = i) \<or> (a = i \<and> b = k)) \<longrightarrow>
            matrix_set (matrix_set M i k v) k i v ! a ! b = M ! a ! b"
      by (rule bounded_allD [OF u(4) a(2)])
    then have "\<not> ((a = k \<and> a = i) \<or> (a = i \<and> a = k)) \<longrightarrow>
            matrix_set (matrix_set M i k v) k i v ! a ! a = M ! a ! a"
      using a(2) by (rule bounded_allD)
    then have e: "matrix_set (matrix_set M i k v) k i v ! a ! a = M ! a ! a"
      using ne by (rule mp)
    from d(4) a(1) have "a < n \<longrightarrow> M ! a ! a = 1" by (rule bspec)
    then have "M ! a ! a = 1" using a(2) by (rule mp)
    with e show "matrix_set (matrix_set M i k v) k i v ! a ! a = 1" by (rule trans)
  qed
qed

lemma row_update_fold_invariant:
  assumes side: "map_of correlation (pos_id (positions ! i)) = None \<or> i \<notin> D"
    and inv: "symmetric_with_unit_diagonal n D M"
  shows "symmetric_with_unit_diagonal n D
           (foldl (\<lambda>M j. case map_of correlation (pos_id (positions ! j)) of
                      None \<Rightarrow> M
                    | Some v \<Rightarrow> matrix_set (matrix_set M i j v) j i v) M [0..<k])"
proof (induction k)
  case 0
  show ?case using inv by simp
next
  case (Suc k)
  define M' where "M' = foldl (\<lambda>M j. case map_of correlation (pos_id (positions ! j)) of
                      None \<Rightarrow> M
                    | Some v \<Rightarrow> matrix_set (matrix_set M i j v) j i v) M [0..<k]"
  have inv': "symmetric_with_unit_diagonal n D M'"
    unfolding M'_def by (rule Suc.IH)
  have step: "foldl (\<lambda>M j. case map_of correlation (pos_id (positions ! j)) of
                      None \<Rightarrow> M
                    | Some v \<Rightarrow> matrix_set (matrix_set M i j v) j i v) M [0..<Suc k]
      = (case map_of correlation (pos_id (positions ! k)) of
           None \<Rightarrow> M' | Some v \<Rightarrow> matrix_set (matrix_set M' i k v) k i v)"
    unfolding M'_def by simp
  show ?case
  proof (cases "map_of correlation (pos_id (positions ! k))")
    case None
    show ?thesis unfolding step None option.case by (rule inv')
  next
    case (Some v)
    have "i = k \<longrightarrow> i \<notin> D" using side Some by auto
    from pair_update_invariant [OF inv' this]
    show ?thesis unfolding step Some option.case .
  qed
qed

lemma row_update_invariant:
  assumes "map_of correlation (pos_id (positions ! i)) = None \<or> i \<notin> D"
    and "symmetric_with_unit_diagonal n D M"
  shows "symmetric_with_unit_diagonal n D (correlation_row_update positions correlation i M)"
  unfolding correlation_row_update_def by (rule row_update_fold_invariant [OF assms])

lemma build_fold_invariant:
  assumes D: "\<forall>i\<in>D. \<forall>c. pos_correlation (positions ! i) = Some c \<longrightarrow>
                 map_of c (pos_id (positions ! i)) = None"
  shows "symmetric_with_unit_diagonal (length positions) D
           (foldl (\<lambda>M i. case pos_correlation (positions ! i) of
                      None \<Rightarrow> M
                    | Some correlation \<Rightarrow>
                        if correlation = [] then M
                        else correlation_row_update positions correlation i M)
              (initial_correlation_matrix (length positions)) [0..<k])"
proof (induction k)
  case 0
  show ?case using initial_matrix_invariant by simp
next
  case (Suc k)
  define M' where "M' = foldl (\<lambda>M i. case pos_correlation (positions ! i) of
                      None \<Rightarrow> M
                    | Some correlation \<Rightarrow>
                        if correlation = [] then M
                        else correlation_row_update positions correlation i M)
           (initial_correlation_matrix (length positions)) [0..<k]"
  have inv': "symmetric_with_unit_diagonal (length positions) D M'"
    unfolding M'_def by (rule Suc.IH)
  have step: "foldl (\<lambda>M i. case pos_correlation (positions ! i) of
                      None \<Rightarrow> M
                    | Some correlation \<Rightarrow>
                        if correlation = [] then M
                        else correlation_row_update positions correlation i M)
           (initial_correlation_matrix (length positions)) [0..<Suc k]
      = (case pos_correlation (positions ! k) of
           None \<Rightarrow> M'
         | Some correlation \<Rightarrow>
             if correlation = [] then M' else correlation_row_update positions correlation k M')"
    unfolding M'_def by simp
  show ?case
  proof (cases "pos_correlation (positions ! k)")
    case None
    show ?thesis unfolding step None option.case by (rule inv')
  next
    case (Some c)
    show ?thesis
    proof (cases "c = []")
      case True
      show ?thesis unfolding step Some option.case if_P [OF True] by (rule inv')
    next
      case False
      have side: "map_of c (pos_id (positions ! k)) = None \<or> k \<notin> D"
        using D Some by blast
      show ?thesis
        unfolding step Some option.case if_not_P [OF False]
        by (rule row_update_invariant [OF side inv'])
    qed
  qed
qed

lemma build_invariant:
  assumes "\<forall>i\<in>D. \<forall>c. pos_correlation (positions ! i) = Some c \<longrightarrow>
                 map_of c (pos_id (positions ! i)) = None"
  shows "symmetric_with_unit_diagonal (length positions) D (build_correlation_matrix positions)"
  unfolding build_correlation_matrix_def by (rule build_fold_invariant [OF assms])

lemma correlation_matrix_symmetric:
  assumes "i < length positions" "j < length positions"
  shows "build_correlation_matrix positions ! i ! j = build_correlation_matrix positions ! j ! i"
proof -
  have "symmetric_with_unit_diagonal (length positions) {} (build_correlation_matrix positions)"
    by (rule build_invariant) simp
  note d = symmetric_with_unit_diagonalD [OF this]
  have "\<forall>b<length positions.
      build_correlation_matrix positions ! i ! b = build_correlation_matrix positions ! b ! i"
    by (rule bounded_allD [OF d(3) assms(1)])
  then show ?thesis using assms(2) by (rule bounded_allD)
qed

lemma correlation_matrix_diagonal:
  assumes "i < length positions"
    and "\<forall>c. pos_correlation (positions ! i) = Some c \<longrightarrow> map_of c (pos_id (positions ! i)) = None"
  shows "build_correlation_matrix positions ! i ! i = 1"
proof -
  have "symmetric_with_unit_diagonal (length positions) {i} (build_correlation_matrix positions)"
    by (rule build_invariant) (use assms(2) in simp)
  note d = symmetric_with_unit_diagonalD [OF this]
  have "i \<in> {i}" by simp
  with d(4) have "i < length positions \<longrightarrow> build_correlation_matrix positions ! i ! i = 1"
    by (rule bspec)
  then show ?thesis using assms(1) by (rule mp)
qed


section \<open>The sum of the parametric contributions\<close>

lemma quadratic_form_sum:
  "quadratic_form weights M =
     (\<Sum>i<length weights. weights ! i * (\<Sum>j<length weights. weights ! j * (M ! i ! j)))"
proof -
  define n where "n = length weights"
  have "quadratic_form weights M =
      (\<Sum>j<n. (\<Sum>i<n. weights ! i * (M ! i ! j)) * weights ! j)"
    unfolding quadratic_form_def Let_def n_def [symmetric]
    by (auto simp add: interv_sum_list_conv_sum_set_nat atLeast0LessThan intro!: sum.cong)
  also have "\<dots> = (\<Sum>j<n. \<Sum>i<n. weights ! i * (weights ! j * (M ! i ! j)))"
    by (simp add: sum_distrib_left sum_distrib_right mult_ac)
  also have "\<dots> = (\<Sum>i<n. \<Sum>j<n. weights ! i * (weights ! j * (M ! i ! j)))"
    by (rule sum.swap)
  also have "\<dots> = (\<Sum>i<n. weights ! i * (\<Sum>j<n. weights ! j * (M ! i ! j)))"
    by (simp add: sum_distrib_left)
  finally show ?thesis unfolding n_def .
qed

lemma parametric_contribution_values:
  assumes "0 < portfolio_variance"
  shows "map ac_var_contribution
           (parametric_contributions asset_vars weights M portfolio_variance diversified_var)
       = map (\<lambda>i. Some (weights ! i
                 * ((\<Sum>j<length asset_vars. weights ! j * (M ! i ! j)) / sqrt portfolio_variance)
                 * diversified_var)) [0..<length asset_vars]"
proof -
  have "sqrt portfolio_variance \<noteq> 0" using assms by simp
  then show ?thesis
    unfolding parametric_contributions_def Let_def
    by (simp add: np_div_def foldl_add_sum_list interv_sum_list_conv_sum_set_nat
                  atLeast0LessThan)
qed

lemma parametric_contributions_sum:
  assumes len: "length weights = length asset_vars"
    and pos: "0 < quadratic_form weights M"
  shows "sum_list (map (\<lambda>c. the (ac_var_contribution c))
           (parametric_contributions asset_vars weights M (quadratic_form weights M)
              diversified_var))
       = sqrt (quadratic_form weights M) * diversified_var"
proof -
  define n where "n = length asset_vars"
  define q where "q = quadratic_form weights M"
  have q: "q = (\<Sum>i<n. weights ! i * (\<Sum>j<n. weights ! j * (M ! i ! j)))"
    unfolding q_def n_def len [symmetric] by (rule quadratic_form_sum)
  have qpos: "0 < q" using pos unfolding q_def .
  have "map (\<lambda>c. the (ac_var_contribution c))
          (parametric_contributions asset_vars weights M q diversified_var)
      = map the (map ac_var_contribution
          (parametric_contributions asset_vars weights M q diversified_var))"
    by simp
  also have "\<dots> = map (\<lambda>i. weights ! i * ((\<Sum>j<n. weights ! j * (M ! i ! j)) / sqrt q)
                            * diversified_var) [0..<n]"
    unfolding parametric_contribution_values [OF qpos] n_def by simp
  finally have "sum_list (map (\<lambda>c. the (ac_var_contribution c))
          (parametric_contributions asset_vars weights M q diversified_var))
      = (\<Sum>i<n. weights ! i * ((\<Sum>j<n. weights ! j * (M ! i ! j)) / sqrt q) * diversified_var)"
    by (simp add: interv_sum_list_conv_sum_set_nat atLeast0LessThan)
  also have "\<dots> = (\<Sum>i<n. (weights ! i * (\<Sum>j<n. weights ! j * (M ! i ! j)))
                             * (diversified_var / sqrt q))"
    by (rule sum.cong) simp_all
  also have "\<dots> = (\<Sum>i<n. weights ! i * (\<Sum>j<n. weights ! j * (M ! i ! j)))
                      * (diversified_var / sqrt q)"
    by (rule sum_distrib_right [symmetric])
  also have "\<dots> = q * (diversified_var / sqrt q)" unfolding q [symmetric] ..
  also have "\<dots> = q / sqrt q * diversified_var" by simp
  also have "q / sqrt q = sqrt q" using qpos by (simp add: real_div_sqrt)
  finally show ?thesis unfolding q_def .
qed

lemma parametric_var_contribution_sum:
  assumes w: "weights = map (\<lambda>v. v / calculate_portfolio_value portfolio)
                          (map (\<lambda>position. pos_quantity position * pos_price position)
                             (pf_positions portfolio))"
    and pv: "portfolio_variance = quadratic_form weights
               (variance_covariance_matrix (pf_positions portfolio)
                  (build_correlation_matrix (pf_positions portfolio)))"
    and pos: "0 < portfolio_variance"
    and res: "calculate_parametric_var portfolio confidence_level time_horizon
                = Inr (diversified_var, asset_contributions, diversification_benefit)"
  shows "sum_list (map (\<lambda>c. the (ac_var_contribution c)) asset_contributions)
           = sqrt portfolio_variance * diversified_var"
proof -
  define asset_vars where "asset_vars = parametric_asset_vars (pf_positions portfolio)
      (VaR_CONFIDENCE_LEVELS confidence_level) (TIME_HORIZON_FACTORS time_horizon)"
  define M where "M = variance_covariance_matrix (pf_positions portfolio)
                  (build_correlation_matrix (pf_positions portfolio))"
  have len: "length weights = length asset_vars"
    unfolding w asset_vars_def parametric_asset_vars_def by simp
  have q: "\<not> quadratic_form weights M < 0" "0 < quadratic_form weights M"
    using pos unfolding pv M_def by simp_all
  define X where "X = calculate_portfolio_value portfolio * sqrt (quadratic_form weights M)
               * VaR_CONFIDENCE_LEVELS confidence_level * TIME_HORIZON_FACTORS time_horizon
               / sqrt 252"
  have "calculate_parametric_var portfolio confidence_level time_horizon
      = Inr (X, parametric_contributions asset_vars weights M (quadratic_form weights M) X,
             sum_list (map av_var asset_vars) - X)"
    unfolding calculate_parametric_var_def Let_def
      w [symmetric] M_def [symmetric] asset_vars_def [symmetric] if_not_P [OF q(1)]
      X_def [symmetric] ..
  with res [symmetric]
  have "(Inr (diversified_var, asset_contributions, diversification_benefit)
          :: error + real \<times> AssetContribution list \<times> real)
      = Inr (X, parametric_contributions asset_vars weights M (quadratic_form weights M) X,
             sum_list (map av_var asset_vars) - X)"
    by (rule trans)
  then have e: "diversified_var = X \<and>
      asset_contributions
        = parametric_contributions asset_vars weights M (quadratic_form weights M) X \<and>
      diversification_benefit = sum_list (map av_var asset_vars) - X"
    by (simp only: sum.inject prod.inject)
  from e have dv: "diversified_var = X" by (rule conjunct1)
  from e have cs0: "asset_contributions
        = parametric_contributions asset_vars weights M (quadratic_form weights M) X"
    by (elim conjE)
  have cs: "asset_contributions = parametric_contributions asset_vars weights M
               (quadratic_form weights M) diversified_var"
    unfolding dv by (rule cs0)
  show ?thesis
    unfolding cs pv M_def [symmetric] by (rule parametric_contributions_sum [OF len q(2)])
qed

section \<open>The claims\<close>

text \<open>
  C6. For every netting set, the Grid/Schedule initial margin of an asset class is the sum of
  the absolute notionals of that class's trades times the fixed "2-5 year" threshold of the
  class, whatever the maturity bucket of each trade; an asset class without trades has no
  entry. In particular one equity trade of notional 1,000,000 and maturity 1 year (whose own
  bucket is "0-2", rate 0.06) yields the margin 80,000.
\<close>

theorem C6_grid_margin_fixed_bucket:
  "map_of (snd (calculate_grid_margin netting_set)) asset_class =
     (if \<exists>t \<in> set (im_ns_trades netting_set). im_asset_class t = asset_class
      then Some (sum_list (map (\<lambda>t. \<bar>im_notional t\<bar>)
                   (filter (\<lambda>t. im_asset_class t = asset_class) (im_ns_trades netting_set)))
                 * GRID_THRESHOLDS asset_class Bucket_2_5)
      else None)
   \<and> get_maturity_bucket (im_maturity grid_example_trade) = Bucket_0_2
   \<and> calculate_grid_margin grid_example_netting_set = (80000, [(EQUITY, 80000)])"
proof (intro conjI)
  show "map_of (snd (calculate_grid_margin netting_set)) asset_class =
     (if \<exists>t \<in> set (im_ns_trades netting_set). im_asset_class t = asset_class
      then Some (sum_list (map (\<lambda>t. \<bar>im_notional t\<bar>)
                   (filter (\<lambda>t. im_asset_class t = asset_class) (im_ns_trades netting_set)))
                 * GRID_THRESHOLDS asset_class Bucket_2_5)
      else None)"
    by (rule grid_margin_map_of)
  show "get_maturity_bucket (im_maturity grid_example_trade) = Bucket_0_2"
    by (simp add: grid_example_trade_def get_maturity_bucket_def)
  show "calculate_grid_margin grid_example_netting_set = (80000, [(EQUITY, 80000)])"
    by (simp add: calculate_grid_margin_def grid_example_netting_set_def grid_example_trade_def
          group_by_asset_class_def grid_gross_notional_def dict_values_def Let_def)
qed

theorem C6_grid_margin_fixed_bucket_witness:
  "(\<exists>t \<in> set (im_ns_trades grid_example_netting_set). im_asset_class t = EQUITY)
   \<and> map_of (snd (calculate_grid_margin grid_example_netting_set)) EQUITY = Some 80000"
  using C6_grid_margin_fixed_bucket [of grid_example_netting_set EQUITY]
  by (simp add: grid_example_netting_set_def grid_example_trade_def)

text \<open>
  C2, as stated, fails where \<open>math.exp\<close> overflows. A long interest-rate swap of notional
  1,000,000 and a short one of notional 1,001,000 give the total add-on -5, which is not zero;
  the replacement cost is 100,050 in the SA-CCR exposure engine and 10,000 in the PFE profile
  engine, so the argument of \<open>math.exp\<close> is 10005 and 1000: both engines raise
  \<open>OverflowError\<close> and no multiplier is computed.
\<close>

theorem C2_counterexample:
  "saccr_calculate_add_on saccr_offsetting_netting_set = Inr [(INTEREST_RATE, - 5)] \<and>
   saccr_calculate_replacement_cost saccr_offsetting_netting_set = Inr 100050 \<and>
   saccr_multiplier 100050 (- 5) = Inl OverflowError \<and>
   saccr_multiplier 100050 (- 5) \<noteq> Inr (0.05 + 0.95 * exp (- min 1 (100050 / (2 * (- 5))))) \<and>
   calculate_potential_future_exposure saccr_offsetting_netting_set = Inl OverflowError \<and>
   pfe_calculate_add_on pfe_offsetting_netting_set = [(INTEREST_RATE, - 5)] \<and>
   pfe_calculate_replacement_cost pfe_offsetting_netting_set = 10000 \<and>
   pfe_multiplier 10000 (- 5) = Inl OverflowError \<and>
   calculate_potential_future_exposure_sa_ccr pfe_offsetting_netting_set ONE_YEAR CL_97_5
     = Inl OverflowError"
proof (intro conjI)
  show "saccr_calculate_add_on saccr_offsetting_netting_set = Inr [(INTEREST_RATE, - 5)]"
    by (rule saccr_offsetting_values)
  show "saccr_calculate_replacement_cost saccr_offsetting_netting_set = Inr 100050"
    by (rule saccr_offsetting_values)
  show "saccr_multiplier 100050 (- 5) = Inl OverflowError"
    by (rule offsetting_multipliers)
  show "saccr_multiplier 100050 (- 5) \<noteq> Inr (0.05 + 0.95 * exp (- min 1 (100050 / (2 * (- 5)))))"
    unfolding offsetting_multipliers by simp
  show "calculate_potential_future_exposure saccr_offsetting_netting_set = Inl OverflowError"
    unfolding saccr_pfe_value [OF saccr_offsetting_values]
    by (simp add: dict_values_def offsetting_multipliers)
  show "pfe_calculate_add_on pfe_offsetting_netting_set = [(INTEREST_RATE, - 5)]"
    by (rule pfe_offsetting_values)
  show "pfe_calculate_replacement_cost pfe_offsetting_netting_set = 10000"
    by (rule pfe_offsetting_values)
  show "pfe_multiplier 10000 (- 5) = Inl OverflowError"
    by (rule offsetting_multipliers)
  show "calculate_potential_future_exposure_sa_ccr pfe_offsetting_netting_set ONE_YEAR CL_97_5
     = Inl OverflowError"
    unfolding pfe_sa_ccr_value pfe_offsetting_values
    by (simp add: dict_values_def offsetting_multipliers)
qed

text \<open>
  C2, amended. In the SA-CCR exposure engine, whenever the add-ons and the replacement cost RC
  of a netting set are computed without error: if the total add-on is 0, the multiplier is 1
  and the PFE is 0; if the total add-on is not 0 and \<open>- min 1 (RC / (2 * total add-on))\<close> is at
  most 709.782712893384 (the largest argument of \<open>math.exp\<close>), the multiplier is
  \<open>0.05 + 0.95 * exp (- min 1 (RC / (2 * total add-on)))\<close> and the PFE is multiplier times total
  add-on; beyond that bound the engine raises \<open>OverflowError\<close>. The bound holds whenever the
  total add-on is positive. The PFE profile engine does the same, its PFE being multiplier
  times total add-on times the horizon and confidence factors.
\<close>

theorem C2_multiplier_unless_overflow:
  "(saccr_calculate_add_on netting_set = Inr add_ons \<and>
    saccr_calculate_replacement_cost netting_set = Inr replacement_cost \<longrightarrow>
      (sum_list (dict_values add_ons) = 0 \<longrightarrow>
         saccr_multiplier replacement_cost (sum_list (dict_values add_ons)) = Inr 1 \<and>
         calculate_potential_future_exposure netting_set = Inr (0, add_ons)) \<and>
      (sum_list (dict_values add_ons) \<noteq> 0 \<and>
       - min 1 (replacement_cost / (2 * sum_list (dict_values add_ons))) \<le> 709.782712893384 \<longrightarrow>
         saccr_multiplier replacement_cost (sum_list (dict_values add_ons)) =
           Inr (0.05 + 0.95 * exp (- min 1 (replacement_cost / (2 * sum_list (dict_values add_ons)))))
         \<and>
         calculate_potential_future_exposure netting_set =
           Inr ((0.05 + 0.95 * exp (- min 1 (replacement_cost / (2 * sum_list (dict_values add_ons)))))
                  * sum_list (dict_values add_ons), add_ons)) \<and>
      (sum_list (dict_values add_ons) \<noteq> 0 \<and>
       709.782712893384 < - min 1 (replacement_cost / (2 * sum_list (dict_values add_ons))) \<longrightarrow>
         calculate_potential_future_exposure netting_set = Inl OverflowError) \<and>
      (0 < sum_list (dict_values add_ons) \<longrightarrow>
         - min 1 (replacement_cost / (2 * sum_list (dict_values add_ons))) \<le> 709.782712893384))
   \<and>
   (let total_add_on = sum_list (dict_values (pfe_calculate_add_on pfe_netting_set));
        rc = pfe_calculate_replacement_cost pfe_netting_set
    in (total_add_on = 0 \<longrightarrow>
          pfe_multiplier rc total_add_on = Inr 1 \<and>
          calculate_potential_future_exposure_sa_ccr pfe_netting_set time_horizon confidence_level
            = Inr (0, pfe_calculate_add_on pfe_netting_set)) \<and>
       (total_add_on \<noteq> 0 \<and> - min 1 (rc / (2 * total_add_on)) \<le> 709.782712893384 \<longrightarrow>
          pfe_multiplier rc total_add_on =
            Inr (0.05 + 0.95 * exp (- min 1 (rc / (2 * total_add_on)))) \<and>
          calculate_potential_future_exposure_sa_ccr pfe_netting_set time_horizon confidence_level
            = Inr ((0.05 + 0.95 * exp (- min 1 (rc / (2 * total_add_on)))) * total_add_on
                     * sqrt (TIME_HORIZON_YEARS time_horizon)
                     * (PFE_CONFIDENCE_LEVELS confidence_level / 1.96),
                   pfe_calculate_add_on pfe_netting_set)) \<and>
       (total_add_on \<noteq> 0 \<and> 709.782712893384 < - min 1 (rc / (2 * total_add_on)) \<longrightarrow>
          calculate_potential_future_exposure_sa_ccr pfe_netting_set time_horizon confidence_level
            = Inl OverflowError) \<and>
       (0 < total_add_on \<longrightarrow> - min 1 (rc / (2 * total_add_on)) \<le> 709.782712893384))"
proof (rule conjI)
  let ?t = "sum_list (dict_values add_ons)"
  show "saccr_calculate_add_on netting_set = Inr add_ons \<and>
    saccr_calculate_replacement_cost netting_set = Inr replacement_cost \<longrightarrow>
      (?t = 0 \<longrightarrow>
         saccr_multiplier replacement_cost ?t = Inr 1 \<and>
         calculate_potential_future_exposure netting_set = Inr (0, add_ons)) \<and>
      (?t \<noteq> 0 \<and> - min 1 (replacement_cost / (2 * ?t)) \<le> 709.782712893384 \<longrightarrow>
         saccr_multiplier replacement_cost ?t =
           Inr (0.05 + 0.95 * exp (- min 1 (replacement_cost / (2 * ?t))))
         \<and>
         calculate_potential_future_exposure netting_set =
           Inr ((0.05 + 0.95 * exp (- min 1 (replacement_cost / (2 * ?t)))) * ?t, add_ons)) \<and>
      (?t \<noteq> 0 \<and> 709.782712893384 < - min 1 (replacement_cost / (2 * ?t)) \<longrightarrow>
         calculate_potential_future_exposure netting_set = Inl OverflowError) \<and>
      (0 < ?t \<longrightarrow> - min 1 (replacement_cost / (2 * ?t)) \<le> 709.782712893384)"
  proof (intro impI)
    assume a: "saccr_calculate_add_on netting_set = Inr add_ons \<and>
      saccr_calculate_replacement_cost netting_set = Inr replacement_cost"
    then have v: "calculate_potential_future_exposure netting_set =
        map_sum id (\<lambda>multiplier. (multiplier * ?t, add_ons))
          (saccr_multiplier replacement_cost ?t)"
      by (simp add: saccr_pfe_value)
    have nn: "0 \<le> replacement_cost" using a saccr_replacement_cost_nonneg by blast
    note c = saccr_multiplier_cases [of ?t replacement_cost]
    have 1: "saccr_multiplier replacement_cost ?t = Inr 1" if "?t = 0"
      using c that by blast
    have 2: "calculate_potential_future_exposure netting_set = Inr (0, add_ons)" if "?t = 0"
      unfolding v 1 [OF that] using that by simp
    have 3: "saccr_multiplier replacement_cost ?t =
           Inr (0.05 + 0.95 * exp (- min 1 (replacement_cost / (2 * ?t))))"
      if "?t \<noteq> 0 \<and> - min 1 (replacement_cost / (2 * ?t)) \<le> 709.782712893384"
      using c that by blast
    have 4: "calculate_potential_future_exposure netting_set =
           Inr ((0.05 + 0.95 * exp (- min 1 (replacement_cost / (2 * ?t)))) * ?t, add_ons)"
      if "?t \<noteq> 0 \<and> - min 1 (replacement_cost / (2 * ?t)) \<le> 709.782712893384"
      unfolding v 3 [OF that] by simp
    have 5: "calculate_potential_future_exposure netting_set = Inl OverflowError"
      if "?t \<noteq> 0 \<and> 709.782712893384 < - min 1 (replacement_cost / (2 * ?t))"
    proof -
      have "saccr_multiplier replacement_cost ?t = Inl OverflowError" using c that by blast
      then show ?thesis unfolding v by simp
    qed
    have 6: "- min 1 (replacement_cost / (2 * ?t)) \<le> 709.782712893384" if "0 < ?t"
      by (rule exp_term_bound [OF nn that])
    show "(?t = 0 \<longrightarrow>
         saccr_multiplier replacement_cost ?t = Inr 1 \<and>
         calculate_potential_future_exposure netting_set = Inr (0, add_ons)) \<and>
      (?t \<noteq> 0 \<and> - min 1 (replacement_cost / (2 * ?t)) \<le> 709.782712893384 \<longrightarrow>
         saccr_multiplier replacement_cost ?t =
           Inr (0.05 + 0.95 * exp (- min 1 (replacement_cost / (2 * ?t))))
         \<and>
         calculate_potential_future_exposure netting_set =
           Inr ((0.05 + 0.95 * exp (- min 1 (replacement_cost / (2 * ?t)))) * ?t, add_ons)) \<and>
      (?t \<noteq> 0 \<and> 709.782712893384 < - min 1 (replacement_cost / (2 * ?t)) \<longrightarrow>
         calculate_potential_future_exposure netting_set = Inl OverflowError) \<and>
      (0 < ?t \<longrightarrow> - min 1 (replacement_cost / (2 * ?t)) \<le> 709.782712893384)"
      using 1 2 3 4 5 6 by blast
  qed
next
  let ?t = "sum_list (dict_values (pfe_calculate_add_on pfe_netting_set))"
  let ?rc = "pfe_calculate_replacement_cost pfe_netting_set"
  let ?sa = "calculate_potential_future_exposure_sa_ccr pfe_netting_set time_horizon
               confidence_level"
  have v: "?sa = map_sum id
       (\<lambda>multiplier.
          (multiplier * ?t * sqrt (TIME_HORIZON_YEARS time_horizon)
             * (PFE_CONFIDENCE_LEVELS confidence_level / 1.96),
           pfe_calculate_add_on pfe_netting_set))
       (pfe_multiplier ?rc ?t)"
    by (rule pfe_sa_ccr_value)
  note c = pfe_multiplier_cases [of ?t ?rc]
  have 1: "pfe_multiplier ?rc ?t = Inr 1" if "?t = 0"
    using c that by blast
  have 2: "?sa = Inr (0, pfe_calculate_add_on pfe_netting_set)" if "?t = 0"
    unfolding v 1 [OF that] using that by simp
  have 3: "pfe_multiplier ?rc ?t = Inr (0.05 + 0.95 * exp (- min 1 (?rc / (2 * ?t))))"
    if "?t \<noteq> 0 \<and> - min 1 (?rc / (2 * ?t)) \<le> 709.782712893384"
    using c that by blast
  have 4: "?sa = Inr ((0.05 + 0.95 * exp (- min 1 (?rc / (2 * ?t)))) * ?t
                     * sqrt (TIME_HORIZON_YEARS time_horizon)
                     * (PFE_CONFIDENCE_LEVELS confidence_level / 1.96),
                   pfe_calculate_add_on pfe_netting_set)"
    if "?t \<noteq> 0 \<and> - min 1 (?rc / (2 * ?t)) \<le> 709.782712893384"
    unfolding v 3 [OF that] by simp
  have 5: "?sa = Inl OverflowError" if "?t \<noteq> 0 \<and> 709.782712893384 < - min 1 (?rc / (2 * ?t))"
  proof -
    have "pfe_multiplier ?rc ?t = Inl OverflowError" using c that by blast
    then show ?thesis unfolding v by simp
  qed
  have 6: "- min 1 (?rc / (2 * ?t)) \<le> 709.782712893384" if "0 < ?t"
    by (rule exp_term_bound [OF pfe_replacement_cost_nonneg that])
  show "let total_add_on = ?t; rc = ?rc
    in (total_add_on = 0 \<longrightarrow>
          pfe_multiplier rc total_add_on = Inr 1 \<and>
          ?sa = Inr (0, pfe_calculate_add_on pfe_netting_set)) \<and>
       (total_add_on \<noteq> 0 \<and> - min 1 (rc / (2 * total_add_on)) \<le> 709.782712893384 \<longrightarrow>
          pfe_multiplier rc total_add_on =
            Inr (0.05 + 0.95 * exp (- min 1 (rc / (2 * total_add_on)))) \<and>
          ?sa = Inr ((0.05 + 0.95 * exp (- min 1 (rc / (2 * total_add_on)))) * total_add_on
                     * sqrt (TIME_HORIZON_YEARS time_horizon)
                     * (PFE_CONFIDENCE_LEVELS confidence_level / 1.96),
                   pfe_calculate_add_on pfe_netting_set)) \<and>
       (total_add_on \<noteq> 0 \<and> 709.782712893384 < - min 1 (rc / (2 * total_add_on)) \<longrightarrow>
          ?sa = Inl OverflowError) \<and>
       (0 < total_add_on \<longrightarrow> - min 1 (rc / (2 * total_add_on)) \<le> 709.782712893384)"
    unfolding Let_def using 1 2 3 4 5 6 by blast
qed

theorem C2_multiplier_unless_overflow_witness:
  "(saccr_calculate_add_on saccr_swap_netting_set = Inr [(INTEREST_RATE, 5000)] \<and>
    saccr_calculate_replacement_cost saccr_swap_netting_set = Inr 50000 \<and>
    calculate_potential_future_exposure saccr_swap_netting_set =
      Inr ((0.05 + 0.95 * exp (- 1)) * 5000, [(INTEREST_RATE, 5000)])) \<and>
   (saccr_calculate_add_on saccr_empty_netting_set = Inr [] \<and>
    saccr_calculate_replacement_cost saccr_empty_netting_set = Inr 0 \<and>
    calculate_potential_future_exposure saccr_empty_netting_set = Inr (0, [])) \<and>
   (saccr_calculate_add_on saccr_offsetting_netting_set = Inr [(INTEREST_RATE, - 5)] \<and>
    saccr_calculate_replacement_cost saccr_offsetting_netting_set = Inr 100050 \<and>
    calculate_potential_future_exposure saccr_offsetting_netting_set = Inl OverflowError) \<and>
   calculate_potential_future_exposure_sa_ccr pfe_example_netting_set ONE_YEAR CL_97_5
     = Inr (5000, [(INTEREST_RATE, 5000)]) \<and>
   calculate_potential_future_exposure_sa_ccr pfe_empty_netting_set ONE_YEAR CL_97_5
     = Inr (0, []) \<and>
   calculate_potential_future_exposure_sa_ccr pfe_offsetting_netting_set ONE_YEAR CL_97_5
     = Inl OverflowError"
  using C2_multiplier_unless_overflow
          [of saccr_swap_netting_set "[(INTEREST_RATE, 5000)]" 50000
              pfe_example_netting_set ONE_YEAR CL_97_5]
        C2_multiplier_unless_overflow
          [of saccr_empty_netting_set "[]" 0 pfe_empty_netting_set ONE_YEAR CL_97_5]
        C2_multiplier_unless_overflow
          [of saccr_offsetting_netting_set "[(INTEREST_RATE, - 5)]" 100050
              pfe_offsetting_netting_set ONE_YEAR CL_97_5]
  by (simp add: saccr_swap_add_on saccr_swap_replacement_cost saccr_empty_values
        saccr_offsetting_values pfe_offsetting_values
        pfe_example_add_on pfe_example_replacement_cost pfe_empty_add_on dict_values_def
        Let_def)

text \<open>
  C3, as stated, fails in the PFE profile engine: its trades carry no option data and the engine
  never calls the pricer. For an at-the-money equity call the SA-CCR engine resolves the
  supervisory delta to the Black-Scholes delta \<open>\<Phi>(0.35)\<close>, which is not 1/2, while the
  PFE engine returns the constant 1/2 for the trade with the same id, class, type, notional,
  maturity and overrides.
\<close>

theorem C3_counterexample:
  "pfe_calculate_supervisory_delta pfe_option_trade = 1 / 2 \<and>
   saccr_calculate_supervisory_delta saccr_option_transaction = Inr (norm_cdf 0.35) \<and>
   norm_cdf 0.35 \<noteq> 1 / 2"
proof (intro conjI)
  show "pfe_calculate_supervisory_delta pfe_option_trade = 1 / 2"
    by (simp add: pfe_calculate_supervisory_delta_def pfe_option_trade_def)
  show "saccr_calculate_supervisory_delta saccr_option_transaction = Inr (norm_cdf 0.35)"
    by (rule saccr_option_delta)
  show "norm_cdf 0.35 \<noteq> 1 / 2" using norm_cdf_035(1) by simp
qed

text \<open>
  C3, amended. In the SA-CCR exposure engine the supervisory delta of a transaction is the
  explicit override when present; otherwise 1 when the type is neither option nor swaption;
  otherwise, when underlying price, strike, option type, volatility and rate are all present and
  the pricer returns, the Black-Scholes delta, negated for puts; and a \<open>ValueError\<close> when
  one of those five fields is absent. In the PFE profile engine it is the explicit override
  when present; otherwise 1 for a non-option type; otherwise the constant 1/2.
\<close>

theorem C3_supervisory_delta_rules:
  "((tx_supervisory_delta t = Some d \<longrightarrow> saccr_calculate_supervisory_delta t = Inr d) \<and>
    (tx_supervisory_delta t = None \<and> tx_transaction_type t \<notin> {OPTION, SWAPTION} \<longrightarrow>
       saccr_calculate_supervisory_delta t = Inr 1) \<and>
    (tx_supervisory_delta t = None \<and> tx_transaction_type t \<in> {OPTION, SWAPTION} \<and>
     tx_underlying_price t = Some S \<and> tx_strike_price t = Some K \<and> tx_option_type t = Some ot \<and>
     tx_volatility t = Some v \<and> tx_interest_rate t = Some r \<and>
     calculate_black_scholes ot S K (tx_maturity t) v r = Inr (price, delta, gamma) \<longrightarrow>
       saccr_calculate_supervisory_delta t = Inr (if ot = PUT then - delta else delta)) \<and>
    (tx_supervisory_delta t = None \<and> tx_transaction_type t \<in> {OPTION, SWAPTION} \<and>
     (tx_underlying_price t = None \<or> tx_strike_price t = None \<or> tx_option_type t = None \<or>
      tx_volatility t = None \<or> tx_interest_rate t = None) \<longrightarrow>
       saccr_calculate_supervisory_delta t = Inl ValueError))
   \<and>
   ((pfe_supervisory_delta u = Some e \<longrightarrow> pfe_calculate_supervisory_delta u = e) \<and>
    (pfe_supervisory_delta u = None \<and> pfe_transaction_type u \<notin> {OPTION, SWAPTION} \<longrightarrow>
       pfe_calculate_supervisory_delta u = 1) \<and>
    (pfe_supervisory_delta u = None \<and> pfe_transaction_type u \<in> {OPTION, SWAPTION} \<longrightarrow>
       pfe_calculate_supervisory_delta u = 1 / 2))"
  by (rule conjI [OF saccr_delta_rule pfe_delta_rule])

theorem C3_supervisory_delta_rules_witness:
  "(tx_supervisory_delta saccr_override_transaction = Some (- 1) \<and>
    saccr_calculate_supervisory_delta saccr_override_transaction = Inr (- 1)) \<and>
   (tx_supervisory_delta saccr_swap_transaction = None \<and>
    tx_transaction_type saccr_swap_transaction \<notin> {OPTION, SWAPTION} \<and>
    saccr_calculate_supervisory_delta saccr_swap_transaction = Inr 1) \<and>
   (tx_supervisory_delta saccr_option_transaction = None \<and>
    tx_transaction_type saccr_option_transaction \<in> {OPTION, SWAPTION} \<and>
    calculate_black_scholes CALL 100 100 (tx_maturity saccr_option_transaction) 0.2 0.05
      = Inr (100 * norm_cdf 0.35 - 100 * exp (- 0.05) * norm_cdf 0.15, norm_cdf 0.35,
             norm_pdf 0.35 / 20) \<and>
    saccr_calculate_supervisory_delta saccr_option_transaction = Inr (norm_cdf 0.35)) \<and>
   (tx_volatility saccr_incomplete_option = None \<and>
    saccr_calculate_supervisory_delta saccr_incomplete_option = Inl ValueError) \<and>
   (pfe_supervisory_delta pfe_short_trade = Some (- 1) \<and>
    pfe_calculate_supervisory_delta pfe_short_trade = - 1) \<and>
   (pfe_transaction_type pfe_example_trade \<notin> {OPTION, SWAPTION} \<and>
    pfe_calculate_supervisory_delta pfe_example_trade = 1) \<and>
   (pfe_transaction_type pfe_option_trade \<in> {OPTION, SWAPTION} \<and>
    pfe_calculate_supervisory_delta pfe_option_trade = 1 / 2)"
proof -
  have bs: "calculate_black_scholes CALL 100 100 (tx_maturity saccr_option_transaction) 0.2 0.05
      = Inr (100 * norm_cdf 0.35 - 100 * exp (- 0.05) * norm_cdf 0.15, norm_cdf 0.35,
             norm_pdf 0.35 / 20)"
    using black_scholes_example by (simp add: saccr_option_transaction_def)
  have 1: "saccr_calculate_supervisory_delta saccr_override_transaction = Inr (- 1)"
    using C3_supervisory_delta_rules [of saccr_override_transaction "- 1"]
    by (simp add: saccr_override_transaction_def)
  have 2: "saccr_calculate_supervisory_delta saccr_swap_transaction = Inr 1"
    using C3_supervisory_delta_rules [of saccr_swap_transaction]
    by (simp add: saccr_swap_transaction_def)
  have 3: "saccr_calculate_supervisory_delta saccr_option_transaction = Inr (norm_cdf 0.35)"
    using C3_supervisory_delta_rules
            [of saccr_option_transaction _ 100 100 CALL "0.2" "0.05"
                "100 * norm_cdf 0.35 - 100 * exp (- 0.05) * norm_cdf 0.15" "norm_cdf 0.35"
                "norm_pdf 0.35 / 20"] bs
    by (simp add: saccr_option_transaction_def)
  have 4: "saccr_calculate_supervisory_delta saccr_incomplete_option = Inl ValueError"
    using C3_supervisory_delta_rules [of saccr_incomplete_option]
    by (simp add: saccr_incomplete_option_def saccr_option_transaction_def)
  have 5: "pfe_calculate_supervisory_delta pfe_short_trade = - 1"
    using C3_supervisory_delta_rules [of _ _ _ _ _ _ _ _ _ _ pfe_short_trade "- 1"]
    by (simp add: pfe_short_trade_def)
  have 6: "pfe_calculate_supervisory_delta pfe_example_trade = 1"
    using C3_supervisory_delta_rules [of _ _ _ _ _ _ _ _ _ _ pfe_example_trade]
    by (simp add: pfe_example_trade_def)
  have 7: "pfe_calculate_supervisory_delta pfe_option_trade = 1 / 2"
    using C3_supervisory_delta_rules [of _ _ _ _ _ _ _ _ _ _ pfe_option_trade]
    by (simp add: pfe_option_trade_def)
  show ?thesis using 1 2 3 4 5 6 7 bs
    by (simp add: saccr_override_transaction_def saccr_swap_transaction_def
          saccr_option_transaction_def saccr_incomplete_option_def pfe_short_trade_def
          pfe_example_trade_def pfe_option_trade_def)
qed

text \<open>
  C4, as stated, fails: the Internal-Model and Historical methods start from the SA-CCR
  method's result, which already carries the horizon and confidence factors. For one
  interest-rate swap of notional 1,000,000 (total add-on 5,000, replacement cost 0, multiplier
  1, so unscaled PFE 5,000), horizon three months and confidence 99%, the Internal-Model PFE is
  \<open>5000 * (1/2) * (2.326 / 1.96) * 0.8\<close> and not \<open>5000 * 0.8\<close>.
\<close>

theorem C4_counterexample:
  "pfe_multiplier (pfe_calculate_replacement_cost pfe_example_netting_set)
       (sum_list (dict_values (pfe_calculate_add_on pfe_example_netting_set))) = Inr 1 \<and>
   sum_list (dict_values (pfe_calculate_add_on pfe_example_netting_set)) = 5000 \<and>
   map_sum id fst
     (calculate_potential_future_exposure_internal_model pfe_example_netting_set THREE_MONTH CL_99)
     = Inr (5000 * (1 / 2) * (2.326 / 1.96) * 0.8) \<and>
   map_sum id fst
     (calculate_potential_future_exposure_internal_model pfe_example_netting_set THREE_MONTH CL_99)
     \<noteq> Inr (5000 * 0.8)"
proof (intro conjI)
  show "pfe_multiplier (pfe_calculate_replacement_cost pfe_example_netting_set)
       (sum_list (dict_values (pfe_calculate_add_on pfe_example_netting_set))) = Inr 1"
    by (rule pfe_example_multiplier)
  show "sum_list (dict_values (pfe_calculate_add_on pfe_example_netting_set)) = 5000"
    by (rule pfe_example_total)
  show "map_sum id fst
     (calculate_potential_future_exposure_internal_model pfe_example_netting_set THREE_MONTH CL_99)
     = Inr (5000 * (1 / 2) * (2.326 / 1.96) * 0.8)"
    by (rule pfe_example_internal_model)
  show "map_sum id fst
     (calculate_potential_future_exposure_internal_model pfe_example_netting_set THREE_MONTH CL_99)
     \<noteq> Inr (5000 * 0.8)"
    unfolding pfe_example_internal_model by simp
qed

text \<open>
  C4, amended. In the PFE profile engine the horizon factor \<open>\<surd>(horizon in years)\<close> and the
  confidence factor \<open>z / 1.96\<close> are applied under every calculation method: whenever the
  SA-CCR method returns a PFE for a netting set, that PFE is multiplier * total add-on * both
  factors, and the Internal-Model and Historical methods return that scaled value times 0.8
  and 1.1 respectively.
\<close>

theorem C4_scaling_under_every_method:
  "calculate_potential_future_exposure_sa_ccr netting_set time_horizon confidence_level
     = Inr (pfe, add_ons) \<longrightarrow>
   map_sum id
     (\<lambda>multiplier. multiplier * sum_list (dict_values (pfe_calculate_add_on netting_set))
                      * sqrt (TIME_HORIZON_YEARS time_horizon)
                      * (PFE_CONFIDENCE_LEVELS confidence_level / 1.96))
     (pfe_multiplier (pfe_calculate_replacement_cost netting_set)
        (sum_list (dict_values (pfe_calculate_add_on netting_set)))) = Inr pfe \<and>
   map_sum id fst
     (calculate_potential_future_exposure_internal_model netting_set time_horizon confidence_level)
     = Inr (pfe * 0.8) \<and>
   map_sum id fst
     (calculate_potential_future_exposure_historical netting_set time_horizon confidence_level)
     = Inr (pfe * 1.1)"
proof (intro impI conjI)
  assume sa: "calculate_potential_future_exposure_sa_ccr netting_set time_horizon confidence_level
     = Inr (pfe, add_ons)"
  show "map_sum id
     (\<lambda>multiplier. multiplier * sum_list (dict_values (pfe_calculate_add_on netting_set))
                      * sqrt (TIME_HORIZON_YEARS time_horizon)
                      * (PFE_CONFIDENCE_LEVELS confidence_level / 1.96))
     (pfe_multiplier (pfe_calculate_replacement_cost netting_set)
        (sum_list (dict_values (pfe_calculate_add_on netting_set)))) = Inr pfe"
  proof (cases "pfe_multiplier (pfe_calculate_replacement_cost netting_set)
        (sum_list (dict_values (pfe_calculate_add_on netting_set)))")
    case (Inl e)
    from pfe_sa_ccr_raises [OF this, of time_horizon confidence_level] sa
    show ?thesis by simp
  next
    case (Inr multiplier)
    from sa [symmetric] pfe_sa_ccr_returns [OF Inr, of time_horizon confidence_level]
    have "(Inr (pfe, add_ons) :: error + real \<times> (AssetClass, real) dict) =
        Inr (multiplier * sum_list (dict_values (pfe_calculate_add_on netting_set))
               * sqrt (TIME_HORIZON_YEARS time_horizon)
               * (PFE_CONFIDENCE_LEVELS confidence_level / 1.96),
             pfe_calculate_add_on netting_set)"
      by (rule trans)
    then have pfe: "pfe = multiplier * sum_list (dict_values (pfe_calculate_add_on netting_set))
               * sqrt (TIME_HORIZON_YEARS time_horizon)
               * (PFE_CONFIDENCE_LEVELS confidence_level / 1.96)"
      by (simp only: sum.inject prod.inject)
    show ?thesis unfolding Inr pfe by simp
  qed
  show "map_sum id fst
     (calculate_potential_future_exposure_internal_model netting_set time_horizon confidence_level)
     = Inr (pfe * 0.8)"
    by (rule pfe_adjusted_values(1) [OF sa])
  show "map_sum id fst
     (calculate_potential_future_exposure_historical netting_set time_horizon confidence_level)
     = Inr (pfe * 1.1)"
    by (rule pfe_adjusted_values(2) [OF sa])
qed

theorem C4_scaling_under_every_method_witness:
  "calculate_potential_future_exposure_sa_ccr pfe_example_netting_set THREE_MONTH CL_99
     = Inr (5000 * (1 / 2) * (2.326 / 1.96), [(INTEREST_RATE, 5000)]) \<and>
   map_sum id fst
     (calculate_potential_future_exposure_internal_model pfe_example_netting_set THREE_MONTH CL_99)
     = Inr (5000 * (1 / 2) * (2.326 / 1.96) * 0.8) \<and>
   map_sum id fst
     (calculate_potential_future_exposure_historical pfe_example_netting_set THREE_MONTH CL_99)
     = Inr (5000 * (1 / 2) * (2.326 / 1.96) * 1.1)"
  using C4_scaling_under_every_method
          [of pfe_example_netting_set THREE_MONTH CL_99 "5000 * (1 / 2) * (2.326 / 1.96)"
              "[(INTEREST_RATE, 5000)]"]
        pfe_example_sa_ccr
  by simp

text \<open>
  C8, as stated, fails in the PFE profile engine, whose percentage is computed only when the
  total add-on is positive: a short swap (supervisory delta override -1) gives the total add-on
  -5,000, which is not zero, and the only entry of the breakdown is 0%, not 100%.
\<close>

theorem C8_counterexample:
  "map_sum id pfr_asset_class_breakdown (calculate_pfe pfe_short_input) =
     Inr [\<lparr>pfb_asset_class = INTEREST_RATE, pfb_exposure = - 5000, pfb_percentage = 0\<rparr>]"
  by (rule pfe_short_breakdown)

text \<open>
  C8, amended. Whenever the PFE profile engine returns a result, the percentages of its
  asset-class breakdown sum to 100 if the total add-on (the sum of the entries' exposures) is
  positive, and every percentage is 0 if that total is zero or negative. In the Initial Margin
  engine, whose total margin is never negative, the percentages sum to 100 whenever the total
  margin is not zero and every percentage is 0 when it is zero.
\<close>

theorem C8_percentage_breakdowns:
  "(calculate_pfe input_data = Inr result \<longrightarrow>
      (0 < sum_list (map pfb_exposure (pfr_asset_class_breakdown result)) \<longrightarrow>
         sum_list (map pfb_percentage (pfr_asset_class_breakdown result)) = 100) \<and>
      (sum_list (map pfb_exposure (pfr_asset_class_breakdown result)) \<le> 0 \<longrightarrow>
         (\<forall>b \<in> set (pfr_asset_class_breakdown result). pfb_percentage b = 0)))
   \<and>
   ((imr_total_margin (calculate_initial_margin calculation_method netting_sets) \<noteq> 0 \<longrightarrow>
       sum_list (map imb_percentage
         (imr_asset_class_breakdown (calculate_initial_margin calculation_method netting_sets))) = 100) \<and>
    (imr_total_margin (calculate_initial_margin calculation_method netting_sets) = 0 \<longrightarrow>
       (\<forall>b \<in> set (imr_asset_class_breakdown (calculate_initial_margin calculation_method netting_sets)).
          imb_percentage b = 0)))"
proof (rule conjI)
  show "calculate_pfe input_data = Inr result \<longrightarrow>
      (0 < sum_list (map pfb_exposure (pfr_asset_class_breakdown result)) \<longrightarrow>
         sum_list (map pfb_percentage (pfr_asset_class_breakdown result)) = 100) \<and>
      (sum_list (map pfb_exposure (pfr_asset_class_breakdown result)) \<le> 0 \<longrightarrow>
         (\<forall>b \<in> set (pfr_asset_class_breakdown result). pfb_percentage b = 0))"
    by (rule impI) (rule pfe_breakdown_percentages)
  show "(imr_total_margin (calculate_initial_margin calculation_method netting_sets) \<noteq> 0 \<longrightarrow>
       sum_list (map imb_percentage
         (imr_asset_class_breakdown (calculate_initial_margin calculation_method netting_sets))) = 100) \<and>
    (imr_total_margin (calculate_initial_margin calculation_method netting_sets) = 0 \<longrightarrow>
       (\<forall>b \<in> set (imr_asset_class_breakdown (calculate_initial_margin calculation_method netting_sets)).
          imb_percentage b = 0))"
    by (rule im_breakdown_percentages)
qed

theorem C8_percentage_breakdowns_witness:
  "(\<not> isl (calculate_pfe pfe_example_input) \<and>
    0 < sum_list (map pfb_exposure
          (pfr_asset_class_breakdown (projr (calculate_pfe pfe_example_input)))) \<and>
    sum_list (map pfb_percentage
          (pfr_asset_class_breakdown (projr (calculate_pfe pfe_example_input)))) = 100) \<and>
   (\<not> isl (calculate_pfe pfe_short_input) \<and>
    sum_list (map pfb_exposure
          (pfr_asset_class_breakdown (projr (calculate_pfe pfe_short_input)))) \<le> 0 \<and>
    map pfb_percentage (pfr_asset_class_breakdown (projr (calculate_pfe pfe_short_input))) = [0]) \<and>
   (imr_total_margin (calculate_initial_margin GRID [grid_example_netting_set]) \<noteq> 0 \<and>
    sum_list (map imb_percentage
      (imr_asset_class_breakdown (calculate_initial_margin GRID [grid_example_netting_set]))) = 100) \<and>
   (imr_total_margin (calculate_initial_margin GRID []) = 0 \<and>
    imr_asset_class_breakdown (calculate_initial_margin GRID []) = [])"
proof -
  have re: "calculate_pfe pfe_example_input = Inr (projr (calculate_pfe pfe_example_input))"
    using pfe_example_returns by (cases "calculate_pfe pfe_example_input") simp_all
  have rs: "calculate_pfe pfe_short_input = Inr (projr (calculate_pfe pfe_short_input))"
    using pfe_short_returns by (cases "calculate_pfe pfe_short_input") simp_all
  have e: "pfr_asset_class_breakdown (projr (calculate_pfe pfe_example_input)) =
      [\<lparr>pfb_asset_class = INTEREST_RATE, pfb_exposure = 5000, pfb_percentage = 100\<rparr>]"
    using pfe_example_breakdown by (cases "calculate_pfe pfe_example_input") simp_all
  have s: "pfr_asset_class_breakdown (projr (calculate_pfe pfe_short_input)) =
      [\<lparr>pfb_asset_class = INTEREST_RATE, pfb_exposure = - 5000, pfb_percentage = 0\<rparr>]"
    using pfe_short_breakdown by (cases "calculate_pfe pfe_short_input") simp_all
  have g: "imr_total_margin (calculate_initial_margin GRID [grid_example_netting_set]) = 80000"
    by (simp add: calculate_initial_margin_def im_netting_set_step_def im_accumulate_def
          calculate_grid_margin_def grid_example_netting_set_def grid_example_trade_def
          group_by_asset_class_def grid_gross_notional_def dict_values_def Let_def)
  have z: "imr_total_margin (calculate_initial_margin GRID []) = 0"
    "imr_asset_class_breakdown (calculate_initial_margin GRID []) = []"
    by (simp_all add: calculate_initial_margin_def Let_def)
  show ?thesis
    using C8_percentage_breakdowns
            [of pfe_example_input "projr (calculate_pfe pfe_example_input)" GRID
                "[grid_example_netting_set]"]
          C8_percentage_breakdowns
            [of pfe_short_input "projr (calculate_pfe pfe_short_input)" GRID "[]"]
          re rs pfe_example_returns pfe_short_returns
    unfolding e s g z by simp
qed

text \<open>
  C9. For an option with positive underlying price, strike, maturity and volatility the pricer
  returns, for a call, the price \<open>S \<Phi>(d1) - K exp (- r T) \<Phi>(d2)\<close> and the delta
  \<open>\<Phi>(d1)\<close>, with \<open>d1 = (ln (S / K) + (r + \<sigma>\<^sup>2 / 2) T) / (\<sigma> \<surd>T)\<close> and
  \<open>d2 = d1 - \<sigma> \<surd>T\<close>. At S = K = 100, T = 1, \<open>\<sigma>\<close> = 0.20, r = 0.05 this is
  \<open>d1 = 0.35\<close>, \<open>d2 = 0.15\<close>, a price within 0.005 of 10.45 and a delta within 0.0005
  of 0.637.
\<close>

theorem C9_black_scholes_call:
  "(0 < S \<and> 0 < K \<and> 0 < T \<and> 0 < v \<longrightarrow>
      calculate_black_scholes CALL S K T v r =
        Inr (S * norm_cdf ((ln (S / K) + (r + v\<^sup>2 / 2) * T) / (v * sqrt T))
               - K * exp (- r * T)
                 * norm_cdf ((ln (S / K) + (r + v\<^sup>2 / 2) * T) / (v * sqrt T) - v * sqrt T),
             norm_cdf ((ln (S / K) + (r + v\<^sup>2 / 2) * T) / (v * sqrt T)),
             norm_pdf ((ln (S / K) + (r + v\<^sup>2 / 2) * T) / (v * sqrt T)) / (S * v * sqrt T)))
   \<and> calculate_black_scholes CALL 100 100 1 0.2 0.05 =
        Inr (100 * norm_cdf 0.35 - 100 * exp (- 0.05) * norm_cdf 0.15, norm_cdf 0.35,
             norm_pdf 0.35 / 20)
   \<and> \<bar>100 * norm_cdf 0.35 - 100 * exp (- 0.05) * norm_cdf 0.15 - 10.45\<bar> < 0.005
   \<and> \<bar>norm_cdf 0.35 - 0.637\<bar> < 0.0005"
proof (intro conjI impI)
  assume "0 < S \<and> 0 < K \<and> 0 < T \<and> 0 < v"
  then show "calculate_black_scholes CALL S K T v r =
        Inr (S * norm_cdf ((ln (S / K) + (r + v\<^sup>2 / 2) * T) / (v * sqrt T))
               - K * exp (- r * T)
                 * norm_cdf ((ln (S / K) + (r + v\<^sup>2 / 2) * T) / (v * sqrt T) - v * sqrt T),
             norm_cdf ((ln (S / K) + (r + v\<^sup>2 / 2) * T) / (v * sqrt T)),
             norm_pdf ((ln (S / K) + (r + v\<^sup>2 / 2) * T) / (v * sqrt T)) / (S * v * sqrt T))"
    by (intro black_scholes_call) simp_all
next
  show "calculate_black_scholes CALL 100 100 1 0.2 0.05 =
        Inr (100 * norm_cdf 0.35 - 100 * exp (- 0.05) * norm_cdf 0.15, norm_cdf 0.35,
             norm_pdf 0.35 / 20)"
    by (rule black_scholes_example)
  show "\<bar>100 * norm_cdf 0.35 - 100 * exp (- 0.05) * norm_cdf 0.15 - 10.45\<bar> < 0.005"
    by (rule black_scholes_example_price)
  show "\<bar>norm_cdf 0.35 - 0.637\<bar> < 0.0005"
    by (rule black_scholes_example_delta)
qed

theorem C9_black_scholes_call_witness:
  "(0::real) < 100 \<and> (0::real) < 1 \<and> (0::real) < 0.2 \<and>
   calculate_black_scholes CALL 100 100 1 0.2 0.05 =
     Inr (100 * norm_cdf ((ln (100 / 100) + (0.05 + 0.2\<^sup>2 / 2) * 1) / (0.2 * sqrt 1))
            - 100 * exp (- 0.05 * 1)
              * norm_cdf ((ln (100 / 100) + (0.05 + 0.2\<^sup>2 / 2) * 1) / (0.2 * sqrt 1)
                          - 0.2 * sqrt 1),
          norm_cdf ((ln (100 / 100) + (0.05 + 0.2\<^sup>2 / 2) * 1) / (0.2 * sqrt 1)),
          norm_pdf ((ln (100 / 100) + (0.05 + 0.2\<^sup>2 / 2) * 1) / (0.2 * sqrt 1))
            / (100 * 0.2 * sqrt 1))"
proof -
  have h: "(0::real) < 100 \<and> (0::real) < 100 \<and> (0::real) < 1 \<and> (0::real) < 0.2" by simp
  from C9_black_scholes_call [of 100 100 1 "0.2" "0.05", THEN conjunct1, rule_format, OF h]
  show ?thesis by simp
qed

text \<open>
  C1 fails on the parametric method. For the portfolio of one position (10 units at price 100,
  default volatility 0.20), 95% confidence and a one-day horizon, the diversified VaR is
  \<open>329 / \<surd>252\<close> and the only contribution is \<open>0.2 * (329 / \<surd>252)\<close>, 20% of it:
  the component VaR multiplies weight and marginal contribution by the diversified VaR, which
  already contains the portfolio volatility \<open>\<surd>(portfolio variance) = 0.2\<close>.
\<close>

theorem C1_parametric_single_position:
  "calculate_parametric_var var_single_portfolio VaR_CL_95 ONE_DAY =
     Inr (329 / sqrt 252,
          [\<lparr>ac_asset_id = ''A'', ac_ticker = ''AAA'', ac_asset_class = VaR_EQUITY,
            ac_var_contribution = Some (0.2 * (329 / sqrt 252)),
            ac_var_contribution_percentage = Some 20\<rparr>],
          0)
   \<and> 0.2 * (329 / sqrt 252) \<noteq> 329 / sqrt 252"
proof
  show "calculate_parametric_var var_single_portfolio VaR_CL_95 ONE_DAY =
     Inr (329 / sqrt 252,
          [\<lparr>ac_asset_id = ''A'', ac_ticker = ''AAA'', ac_asset_class = VaR_EQUITY,
            ac_var_contribution = Some (0.2 * (329 / sqrt 252)),
            ac_var_contribution_percentage = Some 20\<rparr>],
          0)"
    by (rule single_parametric)
  show "0.2 * (329 / sqrt 252) \<noteq> 329 / sqrt 252" by simp
qed

text \<open>
  C5 fails: the division at line 619 has no guard. For the empty portfolio under the
  historical method the VaR and the diversification benefit are both 0, the denominator
  \<open>var + diversification_benefit\<close> is 0, and the result carries a diversification-benefit
  percentage (and a VaR percentage) that is not a finite number, whatever the generator and
  the Cholesky routine are.
\<close>

theorem C5_empty_portfolio_percentage:
  "calculate_var cholesky gauss var_empty_input =
     Inr \<lparr>vr_var = 0, vr_var_percentage = None, vr_portfolio_value = 0,
          vr_method = VaR_HISTORICAL, vr_time_horizon = ONE_DAY,
          vr_confidence_level = VaR_CL_95, vr_asset_contributions = [],
          vr_diversification_benefit = 0, vr_diversification_benefit_percentage = None,
          vr_stress_scenarios = None\<rparr>"
  by (rule empty_calculate_var)

text \<open>
  C10 fails on the diagonal: for one position with id \<open>A\<close> whose correlation map is
  \<open>{A: 0.3}\<close> the matrix built by the parametric and Monte Carlo methods is \<open>[[0.3]]\<close>.
\<close>

theorem C10_self_correlation_overwrites_diagonal:
  "build_correlation_matrix (pf_positions var_self_correlated_portfolio) = [[0.3]]"
  by (rule self_correlated_matrix)

text \<open>
  C7, as stated, fails for a position without an explicit volatility: the stress loop leaves
  its volatility absent, so the Monte Carlo run uses the unstressed default 0.20. For the
  one-position portfolio without volatility the "Market Crash" portfolio is the portfolio
  itself, with volatility vector \<open>[0.2]\<close>, where multiplying every position's volatility by
  the factor 3 gives \<open>[0.6]\<close>; with the sample Cholesky routine and generator the two Monte
  Carlo VaRs are \<open>1000 * (0.2 / \<surd>252)\<close> and \<open>1000 * (0.6 / \<surd>252)\<close>.
\<close>

theorem C7_counterexample:
  "stressed_portfolio MARKET_CRASH var_single_portfolio = var_single_portfolio \<and>
   volatility_vector (pf_positions (stressed_portfolio MARKET_CRASH var_single_portfolio)) = [0.2] \<and>
   volatility_vector (pf_positions (spec_stressed_portfolio MARKET_CRASH var_single_portfolio)) = [0.6] \<and>
   map_sum id fst (calculate_monte_carlo_var unit_cholesky constant_deviates
       (stressed_portfolio MARKET_CRASH var_single_portfolio) VaR_CL_95 ONE_DAY 5000) =
     Inr (1000 * (0.2 / sqrt 252)) \<and>
   map_sum id fst (calculate_monte_carlo_var unit_cholesky constant_deviates
       (spec_stressed_portfolio MARKET_CRASH var_single_portfolio) VaR_CL_95 ONE_DAY 5000) =
     Inr (1000 * (0.6 / sqrt 252)) \<and>
   1000 * (0.2 / sqrt 252) \<noteq> 1000 * (0.6 / sqrt 252)"
proof (intro conjI)
  show "stressed_portfolio MARKET_CRASH var_single_portfolio = var_single_portfolio"
    by (rule single_stressed_unchanged)
  show "volatility_vector (pf_positions (stressed_portfolio MARKET_CRASH var_single_portfolio)) = [0.2]"
    by (rule single_volatility_vectors)
  show "volatility_vector (pf_positions (spec_stressed_portfolio MARKET_CRASH var_single_portfolio)) = [0.6]"
    by (rule single_volatility_vectors)
  show "map_sum id fst (calculate_monte_carlo_var unit_cholesky constant_deviates
       (stressed_portfolio MARKET_CRASH var_single_portfolio) VaR_CL_95 ONE_DAY 5000) =
     Inr (1000 * (0.2 / sqrt 252))"
    by (rule single_monte_carlo)
  show "map_sum id fst (calculate_monte_carlo_var unit_cholesky constant_deviates
       (spec_stressed_portfolio MARKET_CRASH var_single_portfolio) VaR_CL_95 ONE_DAY 5000) =
     Inr (1000 * (0.6 / sqrt 252))"
    by (rule single_monte_carlo)
  show "1000 * (0.2 / sqrt 252) \<noteq> 1000 * (0.6 / sqrt 252)" by simp
qed

text \<open>
  C7, amended. For an empty portfolio no stress result is reported. For a non-empty portfolio
  and each of the three scenarios, in their order, whenever the Monte Carlo method returns on
  the stressed portfolio with 5,000 simulations, the reported stressed VaR is that Monte Carlo
  VaR, the reported increase is stressed VaR minus base VaR, and the percentage is that
  increase over the base VaR times 100 (not a finite number when the base VaR is 0). In the
  stressed portfolio every explicitly supplied volatility is multiplied by the scenario's
  volatility factor and by the per-asset-class factor (1 where none is given), a position
  without a supplied volatility keeps none (the Monte Carlo default 0.20 is not stressed),
  every entry of a non-empty correlation map is raised by the scenario's increment and capped
  at 1, and id, asset class, ticker, quantity and price are unchanged.
\<close>

theorem C7_stress_scenarios:
  "(pf_positions portfolio = [] \<longrightarrow>
      calculate_stress_scenarios cholesky gauss portfolio confidence_level time_horizon base_var
        = Inr [])
   \<and>
   (pf_positions portfolio \<noteq> [] \<and>
    calculate_monte_carlo_var cholesky gauss (stressed_portfolio MARKET_CRASH portfolio)
      confidence_level time_horizon 5000 = Inr (v1, c1, b1) \<and>
    calculate_monte_carlo_var cholesky gauss (stressed_portfolio INTEREST_RATE_SPIKE portfolio)
      confidence_level time_horizon 5000 = Inr (v2, c2, b2) \<and>
    calculate_monte_carlo_var cholesky gauss (stressed_portfolio LIQUIDITY_CRISIS portfolio)
      confidence_level time_horizon 5000 = Inr (v3, c3, b3) \<longrightarrow>
      calculate_stress_scenarios cholesky gauss portfolio confidence_level time_horizon base_var =
        Inr [\<lparr>ss_name = sc_name MARKET_CRASH, ss_description = sc_description MARKET_CRASH,
              ss_var = v1, ss_var_increase = v1 - base_var,
              ss_var_increase_percentage =
                map_option (\<lambda>q. q * 100) (np_div (v1 - base_var) base_var)\<rparr>,
             \<lparr>ss_name = sc_name INTEREST_RATE_SPIKE,
              ss_description = sc_description INTEREST_RATE_SPIKE,
              ss_var = v2, ss_var_increase = v2 - base_var,
              ss_var_increase_percentage =
                map_option (\<lambda>q. q * 100) (np_div (v2 - base_var) base_var)\<rparr>,
             \<lparr>ss_name = sc_name LIQUIDITY_CRISIS, ss_description = sc_description LIQUIDITY_CRISIS,
              ss_var = v3, ss_var_increase = v3 - base_var,
              ss_var_increase_percentage =
                map_option (\<lambda>q. q * 100) (np_div (v3 - base_var) base_var)\<rparr>])
   \<and>
   map pos_volatility (pf_positions (stressed_portfolio scenario portfolio)) =
     map (\<lambda>position.
            map_option (\<lambda>v. v * sc_volatility_multiplier scenario
                              * asset_class_multiplier scenario position)
              (pos_volatility position)) (pf_positions portfolio)
   \<and>
   map pos_correlation (pf_positions (stressed_portfolio scenario portfolio)) =
     map (\<lambda>position.
            case pos_correlation position of
              None \<Rightarrow> None
            | Some correlation \<Rightarrow>
                if correlation = [] then None
                else Some (map (\<lambda>(asset_id, corr).
                                  (asset_id, min 1 (corr + sc_correlation_increase scenario)))
                             correlation)) (pf_positions portfolio)
   \<and>
   map (\<lambda>position. (pos_id position, pos_asset_class position, pos_ticker position,
                    pos_quantity position, pos_price position))
     (pf_positions (stressed_portfolio scenario portfolio)) =
   map (\<lambda>position. (pos_id position, pos_asset_class position, pos_ticker position,
                    pos_quantity position, pos_price position)) (pf_positions portfolio)"
proof (intro conjI impI)
  show "calculate_stress_scenarios cholesky gauss portfolio confidence_level time_horizon base_var
        = Inr []" if "pf_positions portfolio = []"
    using that by (rule stress_empty)
  show "calculate_stress_scenarios cholesky gauss portfolio confidence_level time_horizon base_var =
        Inr [\<lparr>ss_name = sc_name MARKET_CRASH, ss_description = sc_description MARKET_CRASH,
              ss_var = v1, ss_var_increase = v1 - base_var,
              ss_var_increase_percentage =
                map_option (\<lambda>q. q * 100) (np_div (v1 - base_var) base_var)\<rparr>,
             \<lparr>ss_name = sc_name INTEREST_RATE_SPIKE,
              ss_description = sc_description INTEREST_RATE_SPIKE,
              ss_var = v2, ss_var_increase = v2 - base_var,
              ss_var_increase_percentage =
                map_option (\<lambda>q. q * 100) (np_div (v2 - base_var) base_var)\<rparr>,
             \<lparr>ss_name = sc_name LIQUIDITY_CRISIS, ss_description = sc_description LIQUIDITY_CRISIS,
              ss_var = v3, ss_var_increase = v3 - base_var,
              ss_var_increase_percentage =
                map_option (\<lambda>q. q * 100) (np_div (v3 - base_var) base_var)\<rparr>]"
    if "pf_positions portfolio \<noteq> [] \<and>
    calculate_monte_carlo_var cholesky gauss (stressed_portfolio MARKET_CRASH portfolio)
      confidence_level time_horizon 5000 = Inr (v1, c1, b1) \<and>
    calculate_monte_carlo_var cholesky gauss (stressed_portfolio INTEREST_RATE_SPIKE portfolio)
      confidence_level time_horizon 5000 = Inr (v2, c2, b2) \<and>
    calculate_monte_carlo_var cholesky gauss (stressed_portfolio LIQUIDITY_CRISIS portfolio)
      confidence_level time_horizon 5000 = Inr (v3, c3, b3)"
    using that by (intro stress_three) blast+
qed (rule stressed_portfolio_fields)+

theorem C7_stress_scenarios_witness:
  "pf_positions var_explicit_portfolio \<noteq> [] \<and>
   calculate_monte_carlo_var unit_cholesky constant_deviates
       (stressed_portfolio MARKET_CRASH var_explicit_portfolio) VaR_CL_95 ONE_DAY 5000 =
     Inr (1000 * (0.9 / sqrt 252),
          [\<lparr>ac_asset_id = ''A'', ac_ticker = ''AAA'', ac_asset_class = VaR_EQUITY,
            ac_var_contribution = None, ac_var_contribution_percentage = None\<rparr>], 0) \<and>
   calculate_monte_carlo_var unit_cholesky constant_deviates
       (stressed_portfolio INTEREST_RATE_SPIKE var_explicit_portfolio) VaR_CL_95 ONE_DAY 5000 =
     Inr (1000 * (0.9 / sqrt 252),
          [\<lparr>ac_asset_id = ''A'', ac_ticker = ''AAA'', ac_asset_class = VaR_EQUITY,
            ac_var_contribution = None, ac_var_contribution_percentage = None\<rparr>], 0) \<and>
   calculate_monte_carlo_var unit_cholesky constant_deviates
       (stressed_portfolio LIQUIDITY_CRISIS var_explicit_portfolio) VaR_CL_95 ONE_DAY 5000 =
     Inr (1000 * (1.5 / sqrt 252),
          [\<lparr>ac_asset_id = ''A'', ac_ticker = ''AAA'', ac_asset_class = VaR_EQUITY,
            ac_var_contribution = None, ac_var_contribution_percentage = None\<rparr>], 0) \<and>
   map_sum id (map ss_var)
     (calculate_stress_scenarios unit_cholesky constant_deviates var_explicit_portfolio
        VaR_CL_95 ONE_DAY 10) =
     Inr [1000 * (0.9 / sqrt 252), 1000 * (0.9 / sqrt 252), 1000 * (1.5 / sqrt 252)] \<and>
   map_sum id (map ss_var_increase)
     (calculate_stress_scenarios unit_cholesky constant_deviates var_explicit_portfolio
        VaR_CL_95 ONE_DAY 10) =
     Inr [1000 * (0.9 / sqrt 252) - 10, 1000 * (0.9 / sqrt 252) - 10,
          1000 * (1.5 / sqrt 252) - 10] \<and>
   calculate_stress_scenarios unit_cholesky constant_deviates var_empty_portfolio
        VaR_CL_95 ONE_DAY 10 = Inr []"
proof -
  have ne: "pf_positions var_explicit_portfolio \<noteq> []"
    by (simp add: var_explicit_portfolio_def)
  have e: "pf_positions var_empty_portfolio = []"
    by (simp add: var_empty_portfolio_def)
  note t = C7_stress_scenarios
    [where portfolio = var_explicit_portfolio and cholesky = unit_cholesky
       and gauss = constant_deviates and confidence_level = VaR_CL_95 and time_horizon = ONE_DAY
       and base_var = 10, THEN conjunct2, THEN conjunct1, rule_format,
     OF conjI [OF ne conjI [OF explicit_stressed_values(1)
          conjI [OF explicit_stressed_values(2) explicit_stressed_values(3)]]]]
  note t0 = C7_stress_scenarios
    [where portfolio = var_empty_portfolio and cholesky = unit_cholesky
       and gauss = constant_deviates and confidence_level = VaR_CL_95 and time_horizon = ONE_DAY
       and base_var = 10, THEN conjunct1, rule_format, OF e]
  show ?thesis
    unfolding t t0 explicit_stressed_values using ne by simp
qed

end
